theory Spec2Isabelle
  imports Main "HOL-Library.Char_ord" "HOL-Library.Sublist"
begin

text \<open>
  The file gtsam.h is an interface definition: a list of namespaces, classes, constructors
  and methods, read by a wrap generator that writes bindings for them. This theory holds the
  text of gtsam.h, line by line, and a model of the generator's front end: the lexer, the
  grammar parser, the dependency resolver and the semantic validator. The text is lexed and
  parsed inside the logic, so every statement about the declarations of gtsam.h is a
  statement about the syntax tree that its own text yields.
\<close>




section \<open>The lexer\<close>

datatype lex_error = LexError

datatype scan_mode = Code | Block

datatype token =
    Ident string
  | Number string
  | StringLit string
  | Punct char
  | Scope
  | NamespaceOpen
  | NamespaceClose "string option"

type_synonym located_token = "nat \<times> token"

definition newline :: char where
  "newline = CHR 0x0A"

fun push_char :: "char \<Rightarrow> string list \<Rightarrow> string list" where
  "push_char c [] = [[c]]"
| "push_char c (l # ls) = (c # l) # ls"

fun split_lines :: "string \<Rightarrow> string list" where
  "split_lines [] = [[]]"
| "split_lines (c # cs) =
     (if c = newline then [] # split_lines cs else push_char c (split_lines cs))"

fun join_lines :: "string list \<Rightarrow> string" where
  "join_lines [] = []"
| "join_lines [l] = l"
| "join_lines (l # ls) = l @ newline # join_lines ls"

definition ns_close_marker :: string where
  "ns_close_marker = ''}///'' @ [CHR 0x5C] @ ''namespace''"

fun strip_prefix :: "string \<Rightarrow> string \<Rightarrow> string option" where
  "strip_prefix [] s = Some s"
| "strip_prefix (p # ps) [] = None"
| "strip_prefix (p # ps) (c # cs) = (if p = c then strip_prefix ps cs else None)"

lemma strip_prefix_length: "strip_prefix p s = Some r \<Longrightarrow> length r \<le> length s"
  by (induction p s rule: strip_prefix.induct) (auto split: if_splits)

lemma strip_prefix_shorter:
  "strip_prefix p (c # cs) = Some r \<Longrightarrow> p \<noteq> [] \<Longrightarrow> length r < Suc (length cs)"
  using strip_prefix_length [of "tl p" cs r] by (cases p) (auto split: if_splits)

lemma ns_close_marker_nonempty: "ns_close_marker \<noteq> []"
  by (simp add: ns_close_marker_def)

fun emit :: "string \<Rightarrow> scan_mode \<times> string \<Rightarrow> scan_mode \<times> string" where
  "emit s (m, out) = (m, s @ out)"

function strip_line :: "scan_mode \<Rightarrow> string \<Rightarrow> scan_mode \<times> string" where
  "strip_line m [] = (m, [])"
| "strip_line Block (c # cs) =
     (case strip_prefix ''*/'' (c # cs) of
        Some rest \<Rightarrow> strip_line Code rest
      | None \<Rightarrow> strip_line Block cs)"
| "strip_line Code (c # cs) =
     (case strip_prefix ns_close_marker (c # cs) of
        Some rest \<Rightarrow> emit ns_close_marker (strip_line Code rest)
      | None \<Rightarrow>
          (case strip_prefix ''/*'' (c # cs) of
             Some rest \<Rightarrow> emit '' '' (strip_line Block rest)
           | None \<Rightarrow>
               (case strip_prefix ''//'' (c # cs) of
                  Some rest \<Rightarrow> (Code, [])
                | None \<Rightarrow> emit [c] (strip_line Code cs))))"
  by pat_completeness auto
termination
  by (relation "measure (\<lambda>(m, s). length s)")
     (auto simp del: strip_prefix.simps simp: ns_close_marker_nonempty
           dest!: strip_prefix_shorter)

fun strip_lines :: "scan_mode \<Rightarrow> string list \<Rightarrow> scan_mode \<times> string list" where
  "strip_lines m [] = (m, [])"
| "strip_lines m (l # ls) =
     (case strip_line m l of (m', l') \<Rightarrow>
        (case strip_lines m' ls of (m'', ls') \<Rightarrow> (m'', l' # ls')))"

datatype char_kind = Lower | Upper | Underscore | Digit | Blank | Symbol

definition char_kind :: "char \<Rightarrow> char_kind" where
  "char_kind c =
     (if CHR ''a'' \<le> c \<and> c \<le> CHR ''z'' then Lower
      else if CHR ''A'' \<le> c \<and> c \<le> CHR ''Z'' then Upper
      else if c = CHR ''_'' then Underscore
      else if CHR ''0'' \<le> c \<and> c \<le> CHR ''9'' then Digit
      else if c = CHR '' '' \<or> c = CHR 0x09 \<or> c = CHR 0x0D then Blank
      else Symbol)"

definition is_letter :: "char \<Rightarrow> bool" where
  "is_letter c = (case char_kind c of Lower \<Rightarrow> True | Upper \<Rightarrow> True | Underscore \<Rightarrow> True | _ \<Rightarrow> False)"

definition is_digit :: "char \<Rightarrow> bool" where
  "is_digit c = (case char_kind c of Digit \<Rightarrow> True | _ \<Rightarrow> False)"

definition is_word_char :: "char \<Rightarrow> bool" where
  "is_word_char c = (case char_kind c of Blank \<Rightarrow> False | Symbol \<Rightarrow> False | _ \<Rightarrow> True)"

definition is_space :: "char \<Rightarrow> bool" where
  "is_space c = (case char_kind c of Blank \<Rightarrow> True | _ \<Rightarrow> False)"

definition not_quote :: "char \<Rightarrow> bool" where
  "not_quote c = (c \<noteq> CHR 0x22)"

definition word_token :: "string \<Rightarrow> token" where
  "word_token w = (if w = ''namespace'' then NamespaceOpen else Ident w)"

definition marker_name :: "string \<Rightarrow> string option" where
  "marker_name s =
     (case takeWhile is_word_char (dropWhile is_space s) of
        [] \<Rightarrow> None
      | c # cs \<Rightarrow> Some (c # cs))"

definition after_marker_name :: "string \<Rightarrow> string" where
  "after_marker_name s = dropWhile is_word_char (dropWhile is_space s)"

lemma length_dropWhile_less: "length (dropWhile P xs) < Suc (length xs)"
  by (simp add: le_imp_less_Suc length_dropWhile_le)

lemma length_after_quote_less: "length (dropWhile P xs) - Suc 0 < Suc (length xs)"
  using length_dropWhile_le [of P xs] by simp

lemma length_after_marker_name: "length (after_marker_name r) \<le> length r"
proof -
  have "length (after_marker_name r) \<le> length (dropWhile is_space r)"
    unfolding after_marker_name_def by (rule length_dropWhile_le)
  also have "\<dots> \<le> length r"
    by (rule length_dropWhile_le)
  finally show ?thesis .
qed

function tokens_of_line :: "string \<Rightarrow> token list" where
  "tokens_of_line [] = []"
| "tokens_of_line (c # cs) =
     (if is_space c then tokens_of_line cs
      else if is_letter c
        then word_token (c # takeWhile is_word_char cs) # tokens_of_line (dropWhile is_word_char cs)
      else if is_digit c
        then Number (c # takeWhile is_word_char cs) # tokens_of_line (dropWhile is_word_char cs)
      else if c = CHR 0x22
        then StringLit (takeWhile not_quote cs) # tokens_of_line (tl (dropWhile not_quote cs))
      else
        (case strip_prefix ns_close_marker (c # cs) of
           Some rest \<Rightarrow> NamespaceClose (marker_name rest) # tokens_of_line (after_marker_name rest)
         | None \<Rightarrow>
             (case strip_prefix ''::'' (c # cs) of
                Some rest \<Rightarrow> Scope # tokens_of_line rest
              | None \<Rightarrow> Punct c # tokens_of_line cs)))"
  by pat_completeness auto
termination
  by (relation "measure length")
     (auto simp del: strip_prefix.simps
           simp: ns_close_marker_nonempty length_dropWhile_less length_after_quote_less
           dest!: strip_prefix_shorter intro: le_less_trans [OF length_after_marker_name])

fun tokenize_lines :: "nat \<Rightarrow> string list \<Rightarrow> located_token list" where
  "tokenize_lines n [] = []"
| "tokenize_lines n (l # ls) = map (Pair n) (tokens_of_line l) @ tokenize_lines (n + 1) ls"

definition strip_comments :: "string \<Rightarrow> lex_error + string" where
  "strip_comments text =
     (case strip_lines Code (split_lines text) of
        (Block, ls) \<Rightarrow> Inl LexError
      | (Code, ls) \<Rightarrow> Inr (join_lines ls))"

definition lexer :: "string \<Rightarrow> lex_error + located_token list" where
  "lexer text =
     (case strip_lines Code (split_lines text) of
        (Block, ls) \<Rightarrow> Inl LexError
      | (Code, ls) \<Rightarrow> Inr (tokenize_lines 1 ls))"

section \<open>The grammar parser\<close>

datatype syntax_error = SyntaxError nat string string

datatype type_expr =
  TypeExpr (te_const: bool) (te_path: "string list") (te_name: string)
           (te_pointer: bool) (te_reference: bool)

datatype param = Param (p_type: type_expr) (p_name: string)

datatype member =
    Constructor (m_line: nat) (m_params: "param list")
  | Method (m_line: nat) (m_static: bool) (m_return: "type_expr option") (m_name: string)
           (m_params: "param list") (m_const: bool)

datatype decl =
    Namespace (d_line: nat) (d_name: string) (d_include: "string option")
              (d_body: "decl list") (d_close: "string option")
  | Class (d_line: nat) (d_name: string) (d_include: "string option")
          (d_members: "member list")
  | Forward (d_line: nat) (d_name: string)

datatype warning = CloseMarkerName nat string "string option"

datatype frame = Frame nat string "string option" "decl list"

datatype pstate =
  PState (ps_root: "decl list") (ps_stack: "frame list") (ps_pending: "(nat \<times> string) option")
         (ps_warnings: "warning list")

definition show_token :: "token \<Rightarrow> string" where
  "show_token t =
     (case t of
        Ident w \<Rightarrow> w
      | Number w \<Rightarrow> w
      | StringLit s \<Rightarrow> [CHR 0x22] @ s @ [CHR 0x22]
      | Punct c \<Rightarrow> [c]
      | Scope \<Rightarrow> ''::''
      | NamespaceOpen \<Rightarrow> ''namespace''
      | NamespaceClose nm \<Rightarrow> ns_close_marker)"

definition found_at :: "nat \<Rightarrow> located_token list \<Rightarrow> string \<Rightarrow> syntax_error" where
  "found_at dflt ts expected =
     (case ts of
        [] \<Rightarrow> SyntaxError dflt expected ''end of input''
      | (l, t) # rest \<Rightarrow> SyntaxError l expected (show_token t))"

definition reserved :: "string \<Rightarrow> bool" where
  "reserved w = (w \<in> set [''class'', ''const'', ''static'', ''include''])"

definition starts_lower :: "string \<Rightarrow> bool" where
  "starts_lower w = (case w of [] \<Rightarrow> False | c # cs \<Rightarrow> char_kind c = Lower)"

definition starts_upper :: "string \<Rightarrow> bool" where
  "starts_upper w = (case w of [] \<Rightarrow> False | c # cs \<Rightarrow> char_kind c = Upper)"

definition is_punct :: "char \<Rightarrow> located_token \<Rightarrow> bool" where
  "is_punct c lt = (snd lt = Punct c)"

definition not_punct :: "char \<Rightarrow> located_token \<Rightarrow> bool" where
  "not_punct c lt = (snd lt \<noteq> Punct c)"

text \<open>A type name: an identifier, qualified by any number of \<open>ns::\<close> prefixes.\<close>

fun parse_qualified ::
  "string list \<Rightarrow> string \<Rightarrow> located_token list \<Rightarrow> (string list \<times> string) \<times> located_token list" where
  "parse_qualified path w ((l, Scope) # (l', Ident w') # ts) =
     (if reserved w' then ((path, w), (l, Scope) # (l', Ident w') # ts)
      else parse_qualified (path @ [w]) w' ts)"
| "parse_qualified path w ts = ((path, w), ts)"

text \<open>The optional pointer marker, then the optional reference marker.\<close>

fun parse_pointer :: "located_token list \<Rightarrow> bool \<times> located_token list" where
  "parse_pointer ((l, Punct c) # ts) =
     (if c = CHR ''*'' then (True, ts) else (False, (l, Punct c) # ts))"
| "parse_pointer ts = (False, ts)"

fun parse_reference :: "located_token list \<Rightarrow> bool \<times> located_token list" where
  "parse_reference ((l, Punct c) # ts) =
     (if c = CHR ''&'' then (True, ts) else (False, (l, Punct c) # ts))"
| "parse_reference ts = (False, ts)"

fun parse_type_name ::
  "nat \<Rightarrow> bool \<Rightarrow> located_token list \<Rightarrow> syntax_error + (type_expr \<times> located_token list)" where
  "parse_type_name dflt cst ((l, Ident w) # ts) =
     (if reserved w then Inl (SyntaxError l ''type name'' w)
      else (case parse_qualified [] w ts of
              ((path, nm), ts1) \<Rightarrow>
                (case parse_pointer ts1 of
                   (ptr, ts2) \<Rightarrow>
                     (case parse_reference ts2 of
                        (rf, ts3) \<Rightarrow> Inr (TypeExpr cst path nm ptr rf, ts3)))))"
| "parse_type_name dflt cst ts = Inl (found_at dflt ts ''type name'')"

fun parse_type ::
  "nat \<Rightarrow> located_token list \<Rightarrow> syntax_error + (type_expr \<times> located_token list)" where
  "parse_type dflt ((l, Ident w) # ts) =
     (if w = ''const'' then parse_type_name l True ts
      else parse_type_name dflt False ((l, Ident w) # ts))"
| "parse_type dflt ts = Inl (found_at dflt ts ''type name'')"

text \<open>A parameter: a type expression and the parameter's name, and nothing after it.\<close>

definition parse_param :: "nat \<Rightarrow> located_token list \<Rightarrow> syntax_error + param" where
  "parse_param dflt ts =
     (case parse_type dflt ts of
        Inl e \<Rightarrow> Inl e
      | Inr (ty, rest) \<Rightarrow>
          (case rest of
             [] \<Rightarrow> Inl (SyntaxError dflt ''parameter name'' ''end of parameter'')
           | (l, t) # more \<Rightarrow>
               (case t of
                  Ident w \<Rightarrow>
                    if reserved w then Inl (SyntaxError l ''parameter name'' w)
                    else if more = [] then Inr (Param ty w)
                    else Inl (found_at l more '', or )'')
                | _ \<Rightarrow> Inl (SyntaxError l ''parameter name'' (show_token t)))))"

fun push_token :: "located_token \<Rightarrow> located_token list list \<Rightarrow> located_token list list" where
  "push_token t [] = [[t]]"
| "push_token t (g # gs) = (t # g) # gs"

text \<open>\<open>split_at\<close> drops the separators; \<open>split_after\<close> keeps each at the end of its group.\<close>

fun split_at :: "char \<Rightarrow> located_token list \<Rightarrow> located_token list list" where
  "split_at c [] = [[]]"
| "split_at c (t # ts) =
     (if is_punct c t then [] # split_at c ts else push_token t (split_at c ts))"

fun split_after :: "char \<Rightarrow> located_token list \<Rightarrow> located_token list list" where
  "split_after c [] = [[]]"
| "split_after c (t # ts) =
     (if is_punct c t then [t] # split_after c ts else push_token t (split_after c ts))"

fun parse_each_param :: "nat \<Rightarrow> located_token list list \<Rightarrow> syntax_error + param list" where
  "parse_each_param dflt [] = Inr []"
| "parse_each_param dflt (g # gs) =
     (case parse_param dflt g of
        Inl e \<Rightarrow> Inl e
      | Inr p \<Rightarrow>
          (case parse_each_param dflt gs of
             Inl e \<Rightarrow> Inl e
           | Inr ps \<Rightarrow> Inr (p # ps)))"

definition parse_params :: "nat \<Rightarrow> located_token list \<Rightarrow> syntax_error + param list" where
  "parse_params dflt ts =
     (case ts of [] \<Rightarrow> Inr [] | t # more \<Rightarrow> parse_each_param dflt (split_at CHR '','' ts))"

text \<open>
  The tail of a signature: the parenthesised, comma-separated parameters, an optional
  const that applies to the method itself, and the semicolon.
\<close>

definition parse_signature ::
  "nat \<Rightarrow> located_token list \<Rightarrow> syntax_error + (param list \<times> bool)" where
  "parse_signature dflt ts =
     (case ts of
        [] \<Rightarrow> Inl (SyntaxError dflt ''('' ''end of input'')
      | (l, t) # rest \<Rightarrow>
          if t \<noteq> Punct CHR ''('' then Inl (SyntaxError l ''('' (show_token t))
          else
            (case dropWhile (not_punct CHR '')'') rest of
               [] \<Rightarrow> Inl (SyntaxError l '')'' ''end of declaration'')
             | close # after \<Rightarrow>
                 (case parse_params l (takeWhile (not_punct CHR '')'') rest) of
                    Inl e \<Rightarrow> Inl e
                  | Inr ps \<Rightarrow>
                      if map snd after = [Punct CHR '';''] then Inr (ps, False)
                      else if map snd after = [Ident ''const'', Punct CHR '';'']
                        then Inr (ps, True)
                      else Inl (found_at (fst close) after ''const or ;''))))"

definition void_type :: type_expr where
  "void_type = TypeExpr False [] ''void'' False False"

definition parse_method ::
  "nat \<Rightarrow> bool \<Rightarrow> located_token list \<Rightarrow> syntax_error + member" where
  "parse_method l0 stat ts =
     (case parse_type l0 ts of
        Inl e \<Rightarrow> Inl e
      | Inr (ty, rest) \<Rightarrow>
          (case rest of
             [] \<Rightarrow> Inl (SyntaxError l0 ''method name'' ''end of input'')
           | (l, t) # sig \<Rightarrow>
               (case t of
                  Ident w \<Rightarrow>
                    if reserved w then Inl (SyntaxError l ''method name'' w)
                    else
                      (case parse_signature l sig of
                         Inl e \<Rightarrow> Inl e
                       | Inr (ps, cst) \<Rightarrow>
                           Inr (Method l0 stat (if ty = void_type then None else Some ty) w ps cst))
                | _ \<Rightarrow> Inl (SyntaxError l ''method name'' (show_token t)))))"

definition opens_paren :: "located_token list \<Rightarrow> bool" where
  "opens_paren ts = (case ts of [] \<Rightarrow> False | (l, t) # rest \<Rightarrow> t = Punct CHR ''('')"

text \<open>
  A member of the class \<open>cname\<close>: a constructor when the signature follows the class name
  directly, a static method after the static qualifier, an instance method otherwise.
\<close>

definition parse_member :: "string \<Rightarrow> located_token list \<Rightarrow> syntax_error + member" where
  "parse_member cname ts =
     (case ts of
        [] \<Rightarrow> Inl (SyntaxError 0 ''declaration'' ''end of input'')
      | (l, t) # rest \<Rightarrow>
          (case t of
             Ident w \<Rightarrow>
               if w = ''static'' then parse_method l True rest
               else if w = cname \<and> opens_paren rest then
                 (case parse_signature l rest of
                    Inl e \<Rightarrow> Inl e
                  | Inr (ps, cst) \<Rightarrow>
                      if cst then Inl (SyntaxError l '';'' ''const'') else Inr (Constructor l ps))
               else parse_method l False ts
           | _ \<Rightarrow> Inl (SyntaxError l ''declaration'' (show_token t))))"

text \<open>
  The members of a class body, one declaration to a line: a declaration may not begin on
  the line on which the previous one ended. The last group holds what follows the last
  semicolon, and must be empty.
\<close>

fun parse_members ::
  "string \<Rightarrow> nat \<Rightarrow> located_token list list \<Rightarrow> syntax_error + member list" where
  "parse_members cname prev [] = Inr []"
| "parse_members cname prev [g] =
     (case g of [] \<Rightarrow> Inr [] | t # ts \<Rightarrow> Inl (SyntaxError (fst (last g)) '';'' ''}''))"
| "parse_members cname prev (g # g' # gs) =
     (case g of
        [] \<Rightarrow> Inl (SyntaxError prev ''declaration'' '';'')
      | t # ts \<Rightarrow>
          if fst t \<le> prev
            then Inl (SyntaxError (fst t) ''one declaration per line'' (show_token (snd t)))
          else
            (case parse_member cname g of
               Inl e \<Rightarrow> Inl e
             | Inr m \<Rightarrow>
                 (case parse_members cname (fst (last g)) (g' # gs) of
                    Inl e \<Rightarrow> Inl e
                  | Inr ms \<Rightarrow> Inr (m # ms))))"

text \<open>
  An include-override line: \<open>#include <path>\<close>, all of it on the line of the \<open>#\<close>. The
  path is the text of the tokens between the angle brackets.
\<close>

definition in_path :: "nat \<Rightarrow> located_token \<Rightarrow> bool" where
  "in_path l lt =
     (fst lt = l \<and>
      (case snd lt of
         Ident w \<Rightarrow> True
       | Number w \<Rightarrow> True
       | Punct c \<Rightarrow> c \<noteq> CHR ''>''
       | NamespaceOpen \<Rightarrow> True
       | _ \<Rightarrow> False))"

definition token_text :: "located_token \<Rightarrow> string" where
  "token_text lt = show_token (snd lt)"

definition parse_include ::
  "nat \<Rightarrow> located_token list \<Rightarrow> syntax_error + (string \<times> located_token list)" where
  "parse_include l ts =
     (case ts of
        t1 # t2 # rest \<Rightarrow>
          if t1 \<noteq> (l, Ident ''include'') then Inl (SyntaxError l ''include'' (token_text t1))
          else if t2 \<noteq> (l, Punct CHR ''<'') then Inl (SyntaxError l ''<'' (token_text t2))
          else
            (case dropWhile (in_path l) rest of
               [] \<Rightarrow> Inl (SyntaxError l ''>'' ''end of input'')
             | t3 # after \<Rightarrow>
                 if t3 \<noteq> (l, Punct CHR ''>'') then Inl (SyntaxError l ''>'' (token_text t3))
                 else Inr (concat (map token_text (takeWhile (in_path l) rest)), after))
      | _ \<Rightarrow> Inl (SyntaxError l ''include <path>'' ''end of input''))"

text \<open>A class body, after its opening brace: the members, the closing brace, a semicolon.\<close>

definition parse_class_body ::
  "nat \<Rightarrow> string \<Rightarrow> string option \<Rightarrow> located_token list \<Rightarrow> syntax_error + (decl \<times> located_token list)" where
  "parse_class_body l cname inc ts =
     (case dropWhile (not_punct CHR ''}'') ts of
        [] \<Rightarrow> Inl (SyntaxError l ''}'' ''end of input'')
      | t1 # after \<Rightarrow>
          (case after of
             [] \<Rightarrow> Inl (SyntaxError (fst t1) '';'' ''end of input'')
           | t2 # rest \<Rightarrow>
               if snd t2 \<noteq> Punct CHR '';'' then Inl (SyntaxError (fst t2) '';'' (token_text t2))
               else
                 (case parse_members cname 0
                         (split_after CHR '';'' (takeWhile (not_punct CHR ''}'') ts)) of
                    Inl e \<Rightarrow> Inl e
                  | Inr ms \<Rightarrow> Inr (Class l cname inc ms, rest))))"

text \<open>
  The scope stack: a declaration is added to the innermost open namespace, or to the
  root when none is open. Adding a declaration uses up the pending include override.
\<close>

definition add_decl :: "decl \<Rightarrow> pstate \<Rightarrow> pstate" where
  "add_decl d st =
     (case ps_stack st of
        [] \<Rightarrow> PState (d # ps_root st) [] None (ps_warnings st)
      | f # fs \<Rightarrow>
          (case f of
             Frame l n inc ds \<Rightarrow>
               PState (ps_root st) (Frame l n inc (d # ds) # fs) None (ps_warnings st)))"

text \<open>
  After the class keyword: a name and a semicolon are a forward declaration, which the
  format allows outside any namespace only; a name and a brace open a class body.
\<close>

definition parse_class ::
  "nat \<Rightarrow> pstate \<Rightarrow> located_token list \<Rightarrow> syntax_error + (pstate \<times> located_token list)" where
  "parse_class l st ts =
     (case ts of
        t1 # t2 # rest \<Rightarrow>
          (case snd t1 of
             Ident w \<Rightarrow>
               if reserved w then Inl (SyntaxError (fst t1) ''class name'' w)
               else if snd t2 = Punct CHR '';'' then
                 (if ps_stack st = [] \<and> ps_pending st = None
                    then Inr (add_decl (Forward l w) st, rest)
                  else Inl (SyntaxError (fst t2) ''{'' '';''))
               else if snd t2 = Punct CHR ''{'' then
                 (case parse_class_body l w (map_option snd (ps_pending st)) rest of
                    Inl e \<Rightarrow> Inl e
                  | Inr (d, rest') \<Rightarrow> Inr (add_decl d st, rest'))
               else Inl (SyntaxError (fst t2) ''{'' (token_text t2))
           | _ \<Rightarrow> Inl (SyntaxError (fst t1) ''class name'' (token_text t1)))
      | _ \<Rightarrow> Inl (SyntaxError l ''class name'' ''end of input''))"

text \<open>
  After the namespace keyword: a lowercase identifier and a brace push a new scope, which
  takes the pending include override.
\<close>

definition open_namespace ::
  "nat \<Rightarrow> pstate \<Rightarrow> located_token list \<Rightarrow> syntax_error + (pstate \<times> located_token list)" where
  "open_namespace l st ts =
     (case ts of
        t1 # t2 # rest \<Rightarrow>
          (case snd t1 of
             Ident w \<Rightarrow>
               if reserved w \<or> \<not> starts_lower w
                 then Inl (SyntaxError (fst t1) ''lowercase namespace name'' w)
               else if snd t2 \<noteq> Punct CHR ''{''
                 then Inl (SyntaxError (fst t2) ''{'' (token_text t2))
               else Inr (PState (ps_root st)
                           (Frame l w (map_option snd (ps_pending st)) [] # ps_stack st)
                           None (ps_warnings st), rest)
           | _ \<Rightarrow> Inl (SyntaxError (fst t1) ''lowercase namespace name'' (token_text t1)))
      | _ \<Rightarrow> Inl (SyntaxError l ''lowercase namespace name'' ''end of input''))"

text \<open>
  The close marker pops the innermost scope. The marker itself is what closes the
  namespace; a name on it that is missing or is not the namespace's adds a warning only.
\<close>

definition close_namespace ::
  "nat \<Rightarrow> string option \<Rightarrow> pstate \<Rightarrow> syntax_error + pstate" where
  "close_namespace l nm st =
     (case ps_pending st of
        Some p \<Rightarrow> Inl (SyntaxError l ''namespace or class after include'' ns_close_marker)
      | None \<Rightarrow>
          (case ps_stack st of
             [] \<Rightarrow> Inl (SyntaxError l ''declaration'' ns_close_marker)
           | f # fs \<Rightarrow>
               (case f of
                  Frame l0 n inc ds \<Rightarrow>
                    Inr (add_decl (Namespace l0 n inc (rev ds) nm)
                           (PState (ps_root st) fs None
                              (ps_warnings st @
                                 (if nm = Some n then [] else [CloseMarkerName l n nm])))))))"

definition start_include ::
  "nat \<Rightarrow> pstate \<Rightarrow> located_token list \<Rightarrow> syntax_error + (pstate \<times> located_token list)" where
  "start_include l st ts =
     (case ps_pending st of
        Some p \<Rightarrow> Inl (SyntaxError l ''namespace or class after include'' ''#'')
      | None \<Rightarrow>
          (case parse_include l ts of
             Inl e \<Rightarrow> Inl e
           | Inr (path, rest) \<Rightarrow>
               Inr (PState (ps_root st) (ps_stack st) (Some (l, path)) (ps_warnings st), rest)))"

text \<open>One step of the parser: the declaration that the token \<open>lt\<close> starts.\<close>

definition parse_step ::
  "pstate \<Rightarrow> located_token \<Rightarrow> located_token list \<Rightarrow> syntax_error + (pstate \<times> located_token list)" where
  "parse_step st lt ts =
     (case snd lt of
        NamespaceOpen \<Rightarrow> open_namespace (fst lt) st ts
      | NamespaceClose nm \<Rightarrow>
          (case close_namespace (fst lt) nm st of Inl e \<Rightarrow> Inl e | Inr st' \<Rightarrow> Inr (st', ts))
      | Ident w \<Rightarrow>
          if w = ''class'' then parse_class (fst lt) st ts
          else Inl (SyntaxError (fst lt) ''declaration'' w)
      | Punct c \<Rightarrow>
          if c = CHR ''#'' then start_include (fst lt) st ts
          else Inl (SyntaxError (fst lt) ''declaration'' [c])
      | _ \<Rightarrow> Inl (SyntaxError (fst lt) ''declaration'' (token_text lt)))"

text \<open>
  At the end of the input no include override may be pending and no namespace may be
  open: a namespace that its close marker does not end is a syntax error.
\<close>

definition finish :: "pstate \<Rightarrow> syntax_error + (decl list \<times> warning list)" where
  "finish st =
     (case ps_pending st of
        Some p \<Rightarrow> Inl (SyntaxError (fst p) ''namespace or class after include'' ''end of input'')
      | None \<Rightarrow>
          (case ps_stack st of
             [] \<Rightarrow> Inr (rev (ps_root st), ps_warnings st)
           | f # fs \<Rightarrow>
               (case f of
                  Frame l0 n inc ds \<Rightarrow> Inl (SyntaxError l0 ns_close_marker ''end of input''))))"

lemma dropWhile_shorter: "dropWhile P xs = y # ys \<Longrightarrow> length ys < length xs"
  using length_dropWhile_le [of P xs] by simp

lemma parse_include_shorter:
  "parse_include l ts = Inr (p, rest) \<Longrightarrow> length rest < length ts"
  by (auto simp: parse_include_def split: list.splits if_splits dest!: dropWhile_shorter)

lemma parse_class_body_shorter:
  "parse_class_body l w inc ts = Inr (d, rest) \<Longrightarrow> length rest < length ts"
  by (auto simp: parse_class_body_def split: list.splits sum.splits if_splits
           dest!: dropWhile_shorter)

lemma parse_class_shorter:
  "parse_class l st ts = Inr (st', rest) \<Longrightarrow> length rest < length ts"
  by (auto simp: parse_class_def split: list.splits token.splits sum.splits if_splits
           dest!: parse_class_body_shorter)

lemma open_namespace_shorter:
  "open_namespace l st ts = Inr (st', rest) \<Longrightarrow> length rest < length ts"
  by (auto simp: open_namespace_def split: list.splits token.splits if_splits)

lemma start_include_shorter:
  "start_include l st ts = Inr (st', rest) \<Longrightarrow> length rest < length ts"
  by (auto simp: start_include_def split: option.splits sum.splits dest!: parse_include_shorter)

lemma parse_step_shorter:
  "parse_step st lt ts = Inr (st', rest) \<Longrightarrow> length rest \<le> length ts"
  by (auto simp: parse_step_def split: token.splits sum.splits if_splits
           dest!: start_include_shorter parse_class_shorter open_namespace_shorter)

function parse_decls ::
  "pstate \<Rightarrow> located_token list \<Rightarrow> syntax_error + (decl list \<times> warning list)" where
  "parse_decls st [] = finish st"
| "parse_decls st (lt # ts) =
     (case parse_step st lt ts of
        Inl e \<Rightarrow> Inl e
      | Inr (st', rest) \<Rightarrow> parse_decls st' rest)"
  by pat_completeness auto
termination
  by (relation "measure (\<lambda>(st, ts). length ts)") (auto dest!: parse_step_shorter)

definition parser :: "located_token list \<Rightarrow> syntax_error + (decl list \<times> warning list)" where
  "parser ts = parse_decls (PState [] [] None []) ts"

datatype failure = Lexical lex_error | Syntactic syntax_error

definition parse_document :: "string \<Rightarrow> failure + (decl list \<times> warning list)" where
  "parse_document text =
     (case lexer text of
        Inl e \<Rightarrow> Inl (Lexical e)
      | Inr ts \<Rightarrow> (case parser ts of Inl e \<Rightarrow> Inl (Syntactic e) | Inr r \<Rightarrow> Inr r))"

text \<open>Shorthand for the type expressions that occur in gtsam.h.\<close>

abbreviation plain :: "string \<Rightarrow> type_expr" where
  "plain n \<equiv> TypeExpr False [] n False False"

abbreviation by_value :: "string \<Rightarrow> string \<Rightarrow> type_expr" where
  "by_value ns n \<equiv> TypeExpr False [ns] n False False"

abbreviation const_ref :: "string \<Rightarrow> string \<Rightarrow> type_expr" where
  "const_ref ns n \<equiv> TypeExpr True [ns] n False True"

abbreviation shared :: "string \<Rightarrow> string \<Rightarrow> type_expr" where
  "shared ns n \<equiv> TypeExpr False [ns] n True False"

text \<open>The tokens of a block of lines that starts outside any comment, at line \<open>n\<close>.\<close>

definition lex_lines :: "nat \<Rightarrow> string list \<Rightarrow> located_token list" where
  "lex_lines n ls = tokenize_lines n (snd (strip_lines Code ls))"

section \<open>The symbol table and the dependency resolver\<close>

text \<open>
  The type references of the data model: a primitive, a matrix or vector, or a reference
  to a class by its qualified name, with the shared-ownership flag and the
  const-reference flag.
\<close>

datatype primitive = PString | PBool | PSizeT | PInt | PDouble | PChar | PVoid

datatype matrix_like = Matrix | Vector

datatype type_ref =
    Primitive primitive
  | MatrixLike matrix_like
  | ClassReference "string list" string bool bool

definition primitive_of :: "string \<Rightarrow> primitive option" where
  "primitive_of n =
     (if n = ''string'' then Some PString
      else if n = ''bool'' then Some PBool
      else if n = ''size_t'' then Some PSizeT
      else if n = ''int'' then Some PInt
      else if n = ''double'' then Some PDouble
      else if n = ''char'' then Some PChar
      else if n = ''void'' then Some PVoid
      else None)"

definition matrix_like_of :: "string \<Rightarrow> matrix_like option" where
  "matrix_like_of n =
     (if n = ''Matrix'' then Some Matrix
      else if n = ''Vector'' then Some Vector
      else None)"

definition type_ref_of :: "type_expr \<Rightarrow> type_ref" where
  "type_ref_of t =
     (case te_path t of
        [] \<Rightarrow>
          (case primitive_of (te_name t) of
             Some p \<Rightarrow> Primitive p
           | None \<Rightarrow>
               (case matrix_like_of (te_name t) of
                  Some m \<Rightarrow> MatrixLike m
                | None \<Rightarrow>
                    ClassReference [] (te_name t) (te_pointer t) (te_const t \<and> te_reference t)))
      | ns # path \<Rightarrow>
          ClassReference (ns # path) (te_name t) (te_pointer t) (te_const t \<and> te_reference t))"

definition is_class_reference :: "type_expr \<Rightarrow> bool" where
  "is_class_reference t =
     (case type_ref_of t of ClassReference path n sh cr \<Rightarrow> True | _ \<Rightarrow> False)"

definition qualified_name :: "type_expr \<Rightarrow> string list" where
  "qualified_name t = te_path t @ [te_name t]"

text \<open>
  Modelled from the spec: the first walk of the Symbol Table and Dependency Resolver
  (section 4.3), whose code is not among the source files. It registers every class
  under its fully qualified name, and every forward declaration by its bare name.
\<close>

fun register :: "string list \<Rightarrow> decl \<Rightarrow> (string list \<times> decl) list" where
  "register path (Namespace l n inc body cl) = concat (map (register (path @ [n])) body)"
| "register path (Class l n inc ms) = [(path @ [n], Class l n inc ms)]"
| "register path (Forward l n) = []"

definition class_registry :: "decl list \<Rightarrow> (string list \<times> decl) list" where
  "class_registry ds = concat (map (register []) ds)"

fun forwards :: "decl \<Rightarrow> string list" where
  "forwards (Namespace l n inc body cl) = concat (map forwards body)"
| "forwards (Class l n inc ms) = []"
| "forwards (Forward l n) = [n]"

definition forward_set :: "decl list \<Rightarrow> string list" where
  "forward_set ds = concat (map forwards ds)"

text \<open>
  A reference resolves when its stated qualified name is registered, or, for a reference
  with no namespace qualification only, when its name is forward-declared.
\<close>

definition resolves_in :: "string list list \<Rightarrow> string list \<Rightarrow> type_expr \<Rightarrow> bool" where
  "resolves_in registered fwd t =
     (qualified_name t \<in> set registered \<or> (te_path t = [] \<and> te_name t \<in> set fwd))"

definition resolves :: "decl list \<Rightarrow> type_expr \<Rightarrow> bool" where
  "resolves ds t = resolves_in (map fst (class_registry ds)) (forward_set ds) t"

text \<open>
  The place of a type reference: the class, the member (a constructor goes by the name of
  its class), the line of the declaration, and the slot in the signature: 0 for the
  return type, \<open>k\<close> for the \<open>k\<close>-th parameter.
\<close>

datatype site = Site (s_class: "string list") (s_member: string) (s_line: nat) (s_slot: nat)

datatype dependency_error = DependencyError (e_site: site) (e_name: "string list")

fun number_from :: "nat \<Rightarrow> 'a list \<Rightarrow> (nat \<times> 'a) list" where
  "number_from n [] = []"
| "number_from n (x # xs) = (n, x) # number_from (n + 1) xs"

definition param_refs :: "string list \<Rightarrow> string \<Rightarrow> nat \<Rightarrow> param list \<Rightarrow> (site \<times> type_expr) list" where
  "param_refs cq m l ps = map (\<lambda>kp. (Site cq m l (fst kp), p_type (snd kp))) (number_from 1 ps)"

fun member_refs :: "string list \<Rightarrow> string \<Rightarrow> member \<Rightarrow> (site \<times> type_expr) list" where
  "member_refs cq cname (Constructor l ps) = param_refs cq cname l ps"
| "member_refs cq cname (Method l st ret n ps cst) =
     (case ret of None \<Rightarrow> [] | Some t \<Rightarrow> [(Site cq n l 0, t)]) @ param_refs cq n l ps"

fun decl_refs :: "string list \<Rightarrow> decl \<Rightarrow> (site \<times> type_expr) list" where
  "decl_refs path (Namespace l n inc body cl) = concat (map (decl_refs (path @ [n])) body)"
| "decl_refs path (Class l n inc ms) = concat (map (member_refs (path @ [n]) n) ms)"
| "decl_refs path (Forward l n) = []"

definition signature_types :: "decl list \<Rightarrow> (site \<times> type_expr) list" where
  "signature_types ds = concat (map (decl_refs []) ds)"

definition references :: "decl list \<Rightarrow> (site \<times> type_expr) list" where
  "references ds = filter (\<lambda>st. is_class_reference (snd st)) (signature_types ds)"

text \<open>
  Modelled from the spec: the second walk of the resolver (section 4.3), whose code is
  not among the source files. It runs when the registry is complete, and gives one
  dependency error for every class reference that does not resolve, with its place.
\<close>

definition unresolved :: "decl list \<Rightarrow> (site \<times> type_expr) list" where
  "unresolved ds = filter (\<lambda>st. \<not> resolves ds (snd st)) (references ds)"

definition resolver :: "decl list \<Rightarrow> dependency_error list" where
  "resolver ds = map (\<lambda>st. DependencyError (fst st) (qualified_name (snd st))) (unresolved ds)"

section \<open>The semantic validator\<close>

datatype rule_id =
    NamespaceName | ClassName | MethodName | StaticMethodName
  | UniqueMethod | UniqueClass | ForwardNamespace

text \<open>A violation: the rule, the enclosing path, the name of the declaration, its line.\<close>

datatype violation =
    NamingViolation rule_id "string list" string nat
  | UniquenessViolation rule_id "string list" string nat
  | LimitationViolation rule_id "string list" string nat

definition starts_letter :: "string \<Rightarrow> bool" where
  "starts_letter w =
     (case w of [] \<Rightarrow> False | c # cs \<Rightarrow> char_kind c = Lower \<or> char_kind c = Upper)"

text \<open>
  The names declared more than once, each reported once, where it is declared for the
  second time. \<open>seen\<close> holds the names met so far.
\<close>

fun repeated :: "string list \<Rightarrow> (string \<times> nat) list \<Rightarrow> (string \<times> nat) list" where
  "repeated seen [] = []"
| "repeated seen (e # es) =
     (if count_list seen (fst e) = 1 then e # repeated (fst e # seen) es
      else repeated (fst e # seen) es)"

fun member_violations :: "string list \<Rightarrow> member \<Rightarrow> violation list" where
  "member_violations path (Constructor l ps) = []"
| "member_violations path (Method l st ret n ps cst) =
     (if st then (if starts_letter n then [] else [NamingViolation StaticMethodName path n l])
      else (if starts_lower n then [] else [NamingViolation MethodName path n l]))"

fun method_entry :: "member \<Rightarrow> (string \<times> nat) list" where
  "method_entry (Constructor l ps) = []"
| "method_entry (Method l st ret n ps cst) = [(n, l)]"

fun class_entry :: "decl \<Rightarrow> (string \<times> nat) list" where
  "class_entry (Class l n inc ms) = [(n, l)]"
| "class_entry d = []"

definition unique_methods :: "string list \<Rightarrow> member list \<Rightarrow> violation list" where
  "unique_methods path ms =
     map (\<lambda>e. UniquenessViolation UniqueMethod path (fst e) (snd e))
       (repeated [] (concat (map method_entry ms)))"

definition unique_classes :: "string list \<Rightarrow> decl list \<Rightarrow> violation list" where
  "unique_classes path ds =
     map (\<lambda>e. UniquenessViolation UniqueClass path (fst e) (snd e))
       (repeated [] (concat (map class_entry ds)))"

text \<open>
  Modelled from the spec: the Semantic Validator (section 4.4), whose code is not among
  the source files. It collects every violation of the naming rules, of the uniqueness of
  method names within a class and of class names within a namespace, and of the limitation
  of forward declarations to the outermost scope; it never stops at the first.
\<close>

fun decl_violations :: "string list \<Rightarrow> decl \<Rightarrow> violation list" where
  "decl_violations path (Namespace l n inc body cl) =
     (if starts_lower n then [] else [NamingViolation NamespaceName path n l]) @
     concat (map (decl_violations (path @ [n])) body) @
     unique_classes (path @ [n]) body"
| "decl_violations path (Class l n inc ms) =
     (if starts_upper n then [] else [NamingViolation ClassName path n l]) @
     concat (map (member_violations (path @ [n])) ms) @
     unique_methods (path @ [n]) ms"
| "decl_violations path (Forward l n) =
     (case path of [] \<Rightarrow> [] | p # ps \<Rightarrow> [LimitationViolation ForwardNamespace path n l])"

definition validator :: "decl list \<Rightarrow> violation list" where
  "validator ds = concat (map (decl_violations []) ds) @ unique_classes [] ds"

fun is_naming :: "violation \<Rightarrow> bool" where
  "is_naming (NamingViolation r path n l) = True"
| "is_naming v = False"

fun is_uniqueness :: "violation \<Rightarrow> bool" where
  "is_uniqueness (UniquenessViolation r path n l) = True"
| "is_uniqueness v = False"

section \<open>The code emitter and the pipeline\<close>

datatype thunk =
    ConstructorThunk "type_ref list"
  | MethodThunk string bool bool "type_ref option" "type_ref list"

datatype binding_unit =
  BindingUnit (bu_class: "string list") (bu_include: string) (bu_thunks: "thunk list")

fun join_path :: "string list \<Rightarrow> string" where
  "join_path [] = []"
| "join_path [x] = x"
| "join_path (x # xs) = x @ ''/'' @ join_path xs"

text \<open>
  The include path of a declaration: its override when it has one, and otherwise the
  path derived from its qualified name, \<open>ns/Foo.h\<close> for the class \<open>Foo\<close> of namespace \<open>ns\<close>.
\<close>

definition derived_include :: "string list \<Rightarrow> string" where
  "derived_include q = join_path q @ ''.h''"

definition include_path :: "string list \<Rightarrow> string option \<Rightarrow> string" where
  "include_path q ov = (case ov of Some p \<Rightarrow> p | None \<Rightarrow> derived_include q)"

fun thunk_of :: "member \<Rightarrow> thunk" where
  "thunk_of (Constructor l ps) = ConstructorThunk (map (type_ref_of \<circ> p_type) ps)"
| "thunk_of (Method l st ret n ps cst) =
     MethodThunk n st cst (map_option type_ref_of ret) (map (type_ref_of \<circ> p_type) ps)"

text \<open>
  Modelled from the spec: the Code Emitter (section 4.5), whose code is not among the
  source files, up to the target-language profile: a binding unit for each class, with
  its include path and a thunk for each constructor and each method; what the profile
  makes of the thunks in a host language is outside the model.
\<close>

fun emit_decl :: "string list \<Rightarrow> decl \<Rightarrow> binding_unit list" where
  "emit_decl path (Namespace l n inc body cl) = concat (map (emit_decl (path @ [n])) body)"
| "emit_decl path (Class l n inc ms) =
     [BindingUnit (path @ [n]) (include_path (path @ [n]) inc) (map thunk_of ms)]"
| "emit_decl path (Forward l n) = []"

definition emitter :: "decl list \<Rightarrow> binding_unit list" where
  "emitter ds = concat (map (emit_decl []) ds)"

datatype diagnostic =
    ParseFailure failure
  | Dependency dependency_error
  | Violation violation

text \<open>
  Modelled from the spec: the pipeline (sections 2 and 7). A lexical or syntax error
  halts it; dependency errors and violations are reported together; only a document
  with none of them is emitted.
\<close>

definition diagnostics :: "decl list \<Rightarrow> diagnostic list" where
  "diagnostics tree = map Dependency (resolver tree) @ map Violation (validator tree)"

definition generate :: "string \<Rightarrow> diagnostic list + binding_unit list" where
  "generate text =
     (case parse_document text of
        Inl f \<Rightarrow> Inl [ParseFailure f]
      | Inr r \<Rightarrow>
          (case diagnostics (fst r) of
             [] \<Rightarrow> Inr (emitter (fst r))
           | d # ds \<Rightarrow> Inl (d # ds)))"

section \<open>Walking the syntax tree\<close>

text \<open>The classes of a document, each with the path of its namespace.\<close>

fun classes_of :: "string list \<Rightarrow> decl \<Rightarrow> (string list \<times> decl) list" where
  "classes_of path (Namespace l n inc body cl) = concat (map (classes_of (path @ [n])) body)"
| "classes_of path (Class l n inc ms) = [(path, Class l n inc ms)]"
| "classes_of path (Forward l n) = []"

definition all_classes :: "decl list \<Rightarrow> (string list \<times> decl) list" where
  "all_classes ds = concat (map (classes_of []) ds)"

fun namespaces_of :: "decl \<Rightarrow> decl list" where
  "namespaces_of (Namespace l n inc body cl) =
     Namespace l n inc body cl # concat (map namespaces_of body)"
| "namespaces_of d = []"

definition all_namespaces :: "decl list \<Rightarrow> decl list" where
  "all_namespaces ds = concat (map namespaces_of ds)"

fun members_of :: "decl \<Rightarrow> member list" where
  "members_of (Class l n inc ms) = ms"
| "members_of d = []"

fun is_method :: "member \<Rightarrow> bool" where
  "is_method (Method l st ret n ps cst) = True"
| "is_method m = False"

fun return_type :: "member \<Rightarrow> type_expr list" where
  "return_type (Method l st ret n ps cst) = (case ret of None \<Rightarrow> [] | Some t \<Rightarrow> [t])"
| "return_type m = []"

definition param_types :: "member \<Rightarrow> type_expr list" where
  "param_types m = map p_type (m_params m)"

definition class_methods :: "string list \<times> decl \<Rightarrow> member list" where
  "class_methods c = filter is_method (members_of (snd c))"

definition class_param_types :: "string list \<times> decl \<Rightarrow> type_expr list" where
  "class_param_types c = concat (map param_types (members_of (snd c)))"

definition class_return_types :: "string list \<times> decl \<Rightarrow> type_expr list" where
  "class_return_types c = concat (map return_type (members_of (snd c)))"

definition class_refs :: "string list \<times> decl \<Rightarrow> (site \<times> type_expr) list" where
  "class_refs c = decl_refs (fst c) (snd c)"

definition all_methods :: "decl list \<Rightarrow> member list" where
  "all_methods ds = concat (map class_methods (all_classes ds))"

definition all_param_types :: "decl list \<Rightarrow> type_expr list" where
  "all_param_types ds = concat (map class_param_types (all_classes ds))"

definition all_return_types :: "decl list \<Rightarrow> type_expr list" where
  "all_return_types ds = concat (map class_return_types (all_classes ds))"

text \<open>
  A property of all the members of a document is a property of the members of each
  class, so it can be established class by class.
\<close>

lemma list_all_filter_concat_map:
  "list_all P (filter Q (concat (map f xs))) = list_all (\<lambda>x. list_all P (filter Q (f x))) xs"
  by (induction xs) simp_all

lemma filter_concat_map_empty:
  "(filter Q (concat (map f xs)) = []) = list_all (\<lambda>x. filter Q (f x) = []) xs"
  by (induction xs) simp_all

lemma length_filter_concat_map:
  "length (filter Q (concat (map f xs))) = sum_list (map (\<lambda>x. length (filter Q (f x))) xs)"
  by (induction xs) simp_all

lemma length_concat_map:
  "length (concat (map f xs)) = sum_list (map (\<lambda>x. length (f x)) xs)"
  by (induction xs) simp_all

lemma concat_map_concat_map:
  "concat (map f (concat (map g xs))) = concat (map (\<lambda>x. concat (map f (g x))) xs)"
  by (induction xs) simp_all

lemma decl_refs_classes:
  "decl_refs path d = concat (map class_refs (classes_of path d))"
proof (induction path d rule: decl_refs.induct)
  case (1 path l n inc body cl)
  have "concat (map (decl_refs (path @ [n])) body) =
        concat (map (\<lambda>d. concat (map class_refs (classes_of (path @ [n]) d))) body)"
    using 1 by (simp cong: map_cong)
  then show ?case
    by (simp add: concat_map_concat_map)
next
  case (2 path l n inc ms)
  then show ?case by (simp add: class_refs_def)
next
  case (3 path l n)
  then show ?case by simp
qed

lemma signature_types_classes:
  "signature_types ds = concat (map class_refs (all_classes ds))"
proof -
  have "decl_refs [] = (\<lambda>d. concat (map class_refs (classes_of [] d)))"
    by (rule ext) (rule decl_refs_classes)
  then show ?thesis
    by (simp add: signature_types_def all_classes_def concat_map_concat_map)
qed


section \<open>The text of gtsam.h\<close>

text \<open>The header comment: the requirements of the format (lines 1-46 of gtsam.h).\<close>
definition src_header :: "string list" where
  "src_header = [
    ''/**'',
    '' * GTSAM Wrap Module Definition'',
    '' *'',
    '' * These are the current classes available through the matlab toolbox interface,'',
    '' * add more functions/classes as they are available.'',
    '' *'',
    '' * Requirements:'',
    '' *   Classes must start with an uppercase letter'',
    '' *   Only one Method/Constructor per line'',
    '' *   Methods can return'',
    '' *     - Eigen types:       Matrix, Vector'',
    '' *     - C/C++ basic types: string, bool, size_t, int, double, char'',
    '' *     - void'',
    '' *     - Any class with which be copied with boost::make_shared()'',
    '' *     - boost::shared_ptr of any object type'',
    '' *   Limitations on methods'',
    '' *     - Parsing does not support overloading'',
    '' *     - There can only be one method with a given name'',
    '' *   Arguments to functions any of'',
    '' *   '' @ [CHR 0x09] @ '' - Eigen types:       Matrix, Vector'',
    '' *   '' @ [CHR 0x09] @ '' - Eigen types and classes as an optionally const reference'',
    '' *     - C/C++ basic types: string, bool, size_t, int, double'',
    '' *     - Any class with which be copied with boost::make_shared() (except Eigen)'',
    '' *     - boost::shared_ptr of any object type (except Eigen)'',
    '' *   Comments can use either C++ or C style, with multiple lines'',
    '' *   Namespace definitions'',
    '' *     - Names of namespaces must start with a lowercase letter'',
    '' *   '' @ [CHR 0x09] @ '' - start a namespace with '' @ [CHR 0x22] @ ''namespace {'' @ [CHR 0x22],
    '' *   '' @ [CHR 0x09] @ '' - end a namespace with exactly '' @ [CHR 0x22] @ ''}///'' @ [CHR 0x5C] @ ''namespace [namespace_name]'' @ [CHR 0x22] @ '', optionally adding the name of the namespace'',
    '' *   '' @ [CHR 0x09] @ '' - This ending is not C++ standard, and must contain '' @ [CHR 0x22] @ ''}///'' @ [CHR 0x5C] @ ''namespace'' @ [CHR 0x22] @ '' to parse'',
    '' *   '' @ [CHR 0x09] @ '' - Namespaces can be nested'',
    '' *   Namespace usage'',
    '' *   '' @ [CHR 0x09] @ '' - Namespaces can be specified for classes in arguments and return values'',
    '' *   '' @ [CHR 0x09] @ '' - In each case, the namespace must be fully specified, e.g., '' @ [CHR 0x22] @ ''namespace1::namespace2::ClassName'' @ [CHR 0x22],
    '' *   Methods must start with a lowercase letter'',
    '' *   Static methods must start with a letter (upper or lowercase) and use the '' @ [CHR 0x22] @ ''static'' @ [CHR 0x22] @ '' keyword'',
    '' *   Includes in C++ wrappers'',
    '' *   '' @ [CHR 0x09] @ '' - By default, the include will be <[classname].h>'',
    '' *   '' @ [CHR 0x09] @ '' - All namespaces must have angle brackets: <path>'',
    '' *   '' @ [CHR 0x09] @ '' - To override, add a full include statement just before the class statement'',
    '' *   '' @ [CHR 0x09] @ '' - An override include can be added for a namespace by placing it just before the namespace statement'',
    '' *   '' @ [CHR 0x09] @ '' - Both classes and namespace accept exactly one namespace'',
    '' *   Overriding type dependency checks'',
    '' *     - If you are using a class '' @ [CHR 0x27] @ ''OtherClass'' @ [CHR 0x27] @ '' not wrapped in this definition file, add '' @ [CHR 0x22] @ ''class OtherClass;'' @ [CHR 0x22] @ '' to avoid a dependency error'',
    '' *     - Limitation: this only works if the class does not need a namespace specification'',
    '' */'']"

text \<open>The status comment and the remark on the gtsam namespace (lines 47-59 of gtsam.h).\<close>
definition src_status :: "string list" where
  "src_status = [
    [],
    ''/**'',
    '' * Status:'',
    '' *  - TODO: global functions'',
    '' *  - TODO: default values for arguments'',
    '' *  - TODO: overloaded functions'',
    '' *  - TODO: signatures for constructors can be ambiguous if two types have the same first letter'',
    '' *  - TODO: Handle gtsam::Rot3M conversions to quaternions'',
    '' */'',
    [],
    ''// Everything is in the gtsam namespace, so we avoid copying everything in'',
    ''//using namespace gtsam;'',
    []]"

text \<open>The opening of namespace gtsam (lines 60-69 of gtsam.h).\<close>
definition src_gtsam_open :: "string list" where
  "src_gtsam_open = [
    ''namespace gtsam {'',
    [],
    ''//*************************************************************************'',
    ''// base'',
    ''//*************************************************************************'',
    [],
    ''//*************************************************************************'',
    ''// geometry'',
    ''//*************************************************************************'',
    []]"

text \<open>Class gtsam::Point2 (lines 70-83 of gtsam.h).\<close>
definition src_gtsam_Point2 :: "string list" where
  "src_gtsam_Point2 = [
    ''class Point2 {'',
    ''  Point2();'',
    ''  Point2(double x, double y);'',
    ''  static gtsam::Point2 Expmap(Vector v);'',
    [CHR 0x09] @ ''static Vector Logmap(const gtsam::Point2& p);'',
    [CHR 0x09] @ ''void print(string s) const;'',
    [CHR 0x09] @ ''double x();'',
    [CHR 0x09] @ ''double y();'',
    ''  Vector localCoordinates(const gtsam::Point2& p);'',
    [CHR 0x09] @ ''gtsam::Point2 compose(const gtsam::Point2& p2);'',
    [CHR 0x09] @ ''gtsam::Point2 between(const gtsam::Point2& p2);'',
    ''  gtsam::Point2 retract(Vector v);'',
    ''};'',
    []]"

text \<open>Class gtsam::Point3 (lines 84-101 of gtsam.h).\<close>
definition src_gtsam_Point3 :: "string list" where
  "src_gtsam_Point3 = [
    ''class Point3 {'',
    [CHR 0x09] @ ''Point3();'',
    [CHR 0x09] @ ''Point3(double x, double y, double z);'',
    [CHR 0x09] @ ''Point3(Vector v);'',
    [CHR 0x09] @ ''static gtsam::Point3 Expmap(Vector v);'',
    [CHR 0x09] @ ''static Vector Logmap(const gtsam::Point3& p);'',
    [CHR 0x09] @ ''void print(string s) const;'',
    [CHR 0x09] @ ''bool equals(const gtsam::Point3& p, double tol);'',
    [CHR 0x09] @ ''Vector vector() const;'',
    [CHR 0x09] @ ''double x();'',
    [CHR 0x09] @ ''double y();'',
    [CHR 0x09] @ ''double z();'',
    [CHR 0x09] @ ''Vector localCoordinates(const gtsam::Point3& p);'',
    [CHR 0x09] @ ''gtsam::Point3 retract(Vector v);'',
    [CHR 0x09] @ ''gtsam::Point3 compose(const gtsam::Point3& p2);'',
    [CHR 0x09] @ ''gtsam::Point3 between(const gtsam::Point3& p2);'',
    ''};'',
    []]"

text \<open>Class gtsam::Rot2 (lines 102-123 of gtsam.h).\<close>
definition src_gtsam_Rot2 :: "string list" where
  "src_gtsam_Rot2 = [
    ''class Rot2 {'',
    [CHR 0x09] @ ''Rot2();'',
    [CHR 0x09] @ ''Rot2(double theta);'',
    [CHR 0x09] @ ''static gtsam::Rot2 Expmap(Vector v);'',
    [CHR 0x09] @ ''static Vector Logmap(const gtsam::Rot2& p);'',
    [CHR 0x09] @ ''static gtsam::Rot2 fromAngle(double theta);'',
    [CHR 0x09] @ ''static gtsam::Rot2 fromDegrees(double theta);'',
    [CHR 0x09] @ ''static gtsam::Rot2 fromCosSin(double c, double s);'',
    [CHR 0x09] @ ''static gtsam::Rot2 relativeBearing(const gtsam::Point2& d); // Ignoring derivative'',
    [CHR 0x09] @ ''static gtsam::Rot2 atan2(double y, double x);'',
    [CHR 0x09] @ ''void print(string s) const;'',
    [CHR 0x09] @ ''bool equals(const gtsam::Rot2& rot, double tol) const;'',
    [CHR 0x09] @ ''double theta() const;'',
    [CHR 0x09] @ ''double degrees() const;'',
    [CHR 0x09] @ ''double c() const;'',
    [CHR 0x09] @ ''double s() const;'',
    [CHR 0x09] @ ''Vector localCoordinates(const gtsam::Rot2& p);'',
    [CHR 0x09] @ ''gtsam::Rot2 retract(Vector v);'',
    [CHR 0x09] @ ''gtsam::Rot2 compose(const gtsam::Rot2& p2);'',
    [CHR 0x09] @ ''gtsam::Rot2 between(const gtsam::Rot2& p2);'',
    ''};'',
    []]"

text \<open>Class gtsam::Rot3 (lines 124-162 of gtsam.h).\<close>
definition src_gtsam_Rot3 :: "string list" where
  "src_gtsam_Rot3 = [
    ''class Rot3 {'',
    [CHR 0x09] @ ''Rot3();'',
    [CHR 0x09] @ ''Rot3(Matrix R);'',
    ''  static gtsam::Rot3 Rx(double t);'',
    ''  static gtsam::Rot3 Ry(double t);'',
    ''  static gtsam::Rot3 Rz(double t);'',
    ''//  static gtsam::Rot3 RzRyRx(double x, double y, double z); // FIXME: overloaded functions don'' @ [CHR 0x27] @ ''t work yet'',
    ''  static gtsam::Rot3 RzRyRx(Vector xyz);'',
    ''  static gtsam::Rot3 yaw  (double t); // positive yaw is to right (as in aircraft heading)'',
    ''  static gtsam::Rot3 pitch(double t); // positive pitch is up (increasing aircraft altitude)'',
    ''  static gtsam::Rot3 roll (double t); // positive roll is to right (increasing yaw in aircraft)'',
    ''  static gtsam::Rot3 ypr(double y, double p, double r);'',
    ''  static gtsam::Rot3 quaternion(double w, double x, double y, double z);'',
    ''  static gtsam::Rot3 rodriguez(Vector v);'',
    [CHR 0x09] @ ''void print(string s) const;'',
    [CHR 0x09] @ ''bool equals(const gtsam::Rot3& rot, double tol) const;'',
    ''  static gtsam::Rot3 identity();'',
    ''  gtsam::Rot3 compose(const gtsam::Rot3& p2) const;'',
    ''  gtsam::Rot3 inverse() const;'',
    [CHR 0x09] @ ''gtsam::Rot3 between(const gtsam::Rot3& p2) const;'',
    [CHR 0x09] @ ''gtsam::Point3 rotate(const gtsam::Point3& p) const;'',
    [CHR 0x09] @ ''gtsam::Point3 unrotate(const gtsam::Point3& p) const;'',
    [CHR 0x09] @ ''gtsam::Rot3 retractCayley(Vector v) const;'',
    [CHR 0x09] @ ''gtsam::Rot3 retract(Vector v) const;'',
    [CHR 0x09] @ ''Vector localCoordinates(const gtsam::Rot3& p) const;'',
    [CHR 0x09] @ ''static gtsam::Rot3 Expmap(Vector v);'',
    [CHR 0x09] @ ''static Vector Logmap(const gtsam::Rot3& p);'',
    [CHR 0x09] @ ''Matrix matrix() const;'',
    [CHR 0x09] @ ''Matrix transpose() const;'',
    [CHR 0x09] @ ''gtsam::Point3 column(int index) const;'',
    [CHR 0x09] @ ''Vector xyz() const;'',
    [CHR 0x09] @ ''Vector ypr() const;'',
    [CHR 0x09] @ ''Vector rpy() const;'',
    ''  double roll() const;'',
    ''  double pitch() const;'',
    ''  double yaw() const;'',
    ''//  Vector toQuaternion() const;  // FIXME: Can'' @ [CHR 0x27] @ ''t cast to Vector properly'',
    ''};'',
    []]"

text \<open>Class gtsam::Pose2 (lines 163-186 of gtsam.h).\<close>
definition src_gtsam_Pose2 :: "string list" where
  "src_gtsam_Pose2 = [
    ''class Pose2 {'',
    [CHR 0x09] @ ''Pose2();'',
    [CHR 0x09] @ ''Pose2(double x, double y, double theta);'',
    [CHR 0x09] @ ''Pose2(double theta, const gtsam::Point2& t);'',
    [CHR 0x09] @ ''Pose2(const gtsam::Rot2& r, const gtsam::Point2& t);'',
    [CHR 0x09] @ ''Pose2(Vector v);'',
    [CHR 0x09] @ ''static gtsam::Pose2 Expmap(Vector v);'',
    [CHR 0x09] @ ''static Vector Logmap(const gtsam::Pose2& p);'',
    [CHR 0x09] @ ''void print(string s) const;'',
    [CHR 0x09] @ ''bool equals(const gtsam::Pose2& pose, double tol) const;'',
    [CHR 0x09] @ ''double x() const;'',
    [CHR 0x09] @ ''double y() const;'',
    [CHR 0x09] @ ''double theta() const;'',
    [CHR 0x09] @ ''int dim() const;'',
    [CHR 0x09] @ ''Vector localCoordinates(const gtsam::Pose2& p);'',
    [CHR 0x09] @ ''gtsam::Pose2 retract(Vector v);'',
    [CHR 0x09] @ ''gtsam::Pose2 compose(const gtsam::Pose2& p2);'',
    [CHR 0x09] @ ''gtsam::Pose2 between(const gtsam::Pose2& p2);'',
    [CHR 0x09] @ ''gtsam::Rot2 bearing(const gtsam::Point2& point);'',
    [CHR 0x09] @ ''double range(const gtsam::Point2& point);'',
    [CHR 0x09] @ ''gtsam::Point2 translation() const;'',
    [CHR 0x09] @ ''gtsam::Rot2 rotation() const;'',
    ''};'',
    []]"

text \<open>Class gtsam::Pose3 (lines 187-219 of gtsam.h).\<close>
definition src_gtsam_Pose3 :: "string list" where
  "src_gtsam_Pose3 = [
    ''class Pose3 {'',
    [CHR 0x09] @ ''Pose3();'',
    [CHR 0x09] @ ''Pose3(const gtsam::Rot3& r, const gtsam::Point3& t);'',
    [CHR 0x09] @ ''Pose3(Vector v);'',
    [CHR 0x09] @ ''Pose3(Matrix t);'',
    [CHR 0x09] @ ''Pose3(const gtsam::Pose2& pose2);'',
    [CHR 0x09] @ ''static gtsam::Pose3 Expmap(Vector v);'',
    [CHR 0x09] @ ''static Vector Logmap(const gtsam::Pose3& p);'',
    [CHR 0x09] @ ''void print(string s) const;'',
    [CHR 0x09] @ ''bool equals(const gtsam::Pose3& pose, double tol) const;'',
    [CHR 0x09] @ ''double x() const;'',
    [CHR 0x09] @ ''double y() const;'',
    [CHR 0x09] @ ''double z() const;'',
    [CHR 0x09] @ ''Matrix matrix() const;'',
    [CHR 0x09] @ ''Matrix adjointMap() const;'',
    [CHR 0x09] @ ''gtsam::Pose3 compose(const gtsam::Pose3& p2);'',
    [CHR 0x09] @ ''gtsam::Pose3 between(const gtsam::Pose3& p2);'',
    [CHR 0x09] @ ''gtsam::Pose3 retract(Vector v);'',
    [CHR 0x09] @ ''gtsam::Pose3 retractFirstOrder(Vector v);'',
    [CHR 0x09] @ ''gtsam::Point3 translation() const;'',
    [CHR 0x09] @ ''gtsam::Rot3 rotation() const;'',
    ''};'',
    [],
    ''//*************************************************************************'',
    ''// inference'',
    ''//*************************************************************************'',
    [],
    [],
    [],
    ''//*************************************************************************'',
    ''// linear'',
    ''//*************************************************************************'',
    []]"

text \<open>Class gtsam::SharedGaussian (lines 220-224 of gtsam.h).\<close>
definition src_gtsam_SharedGaussian :: "string list" where
  "src_gtsam_SharedGaussian = [
    ''class SharedGaussian {'',
    [CHR 0x09] @ ''SharedGaussian(Matrix covariance);'',
    [CHR 0x09] @ ''void print(string s) const;'',
    ''};'',
    []]"

text \<open>Class gtsam::SharedDiagonal (lines 225-230 of gtsam.h).\<close>
definition src_gtsam_SharedDiagonal :: "string list" where
  "src_gtsam_SharedDiagonal = [
    ''class SharedDiagonal {'',
    [CHR 0x09] @ ''SharedDiagonal(Vector sigmas);'',
    [CHR 0x09] @ ''void print(string s) const;'',
    [CHR 0x09] @ ''Vector sample() const;'',
    ''};'',
    []]"

text \<open>Class gtsam::SharedNoiseModel (lines 231-241 of gtsam.h).\<close>
definition src_gtsam_SharedNoiseModel :: "string list" where
  "src_gtsam_SharedNoiseModel = [
    ''class SharedNoiseModel {'',
    [CHR 0x09] @ ''static gtsam::SharedNoiseModel sharedSigmas(Vector sigmas);'',
    [CHR 0x09] @ ''static gtsam::SharedNoiseModel sharedSigma(size_t dim, double sigma);'',
    [CHR 0x09] @ ''static gtsam::SharedNoiseModel sharedPrecisions(Vector precisions);'',
    [CHR 0x09] @ ''static gtsam::SharedNoiseModel sharedPrecision(size_t dim, double precision);'',
    [CHR 0x09] @ ''static gtsam::SharedNoiseModel sharedUnit(size_t dim);'',
    [CHR 0x09] @ ''static gtsam::SharedNoiseModel sharedSqrtInformation(Matrix R);'',
    [CHR 0x09] @ ''static gtsam::SharedNoiseModel sharedCovariance(Matrix covariance);'',
    [CHR 0x09] @ ''void print(string s) const;'',
    ''};'',
    []]"

text \<open>Class gtsam::VectorValues (lines 242-250 of gtsam.h).\<close>
definition src_gtsam_VectorValues :: "string list" where
  "src_gtsam_VectorValues = [
    ''class VectorValues {'',
    [CHR 0x09] @ ''VectorValues();'',
    [CHR 0x09] @ ''VectorValues(int nVars, int varDim);'',
    [CHR 0x09] @ ''void print(string s) const;'',
    [CHR 0x09] @ ''bool equals(const gtsam::VectorValues& expected, double tol) const;'',
    [CHR 0x09] @ ''int size() const;'',
    [CHR 0x09] @ ''void insert(int j, Vector value);'',
    ''};'',
    []]"

text \<open>Class gtsam::GaussianConditional (lines 251-260 of gtsam.h).\<close>
definition src_gtsam_GaussianConditional :: "string list" where
  "src_gtsam_GaussianConditional = [
    ''class GaussianConditional {'',
    [CHR 0x09] @ ''GaussianConditional(int key, Vector d, Matrix R, Vector sigmas);'',
    [CHR 0x09] @ ''GaussianConditional(int key, Vector d, Matrix R, int name1, Matrix S,'',
    [CHR 0x09, CHR 0x09, CHR 0x09] @ ''Vector sigmas);'',
    [CHR 0x09] @ ''GaussianConditional(int key, Vector d, Matrix R, int name1, Matrix S,'',
    [CHR 0x09, CHR 0x09, CHR 0x09] @ ''int name2, Matrix T, Vector sigmas);'',
    [CHR 0x09] @ ''void print(string s) const;'',
    [CHR 0x09] @ ''bool equals(const gtsam::GaussianConditional &cg, double tol) const;'',
    ''};'',
    []]"

text \<open>Class gtsam::GaussianDensity (lines 261-268 of gtsam.h).\<close>
definition src_gtsam_GaussianDensity :: "string list" where
  "src_gtsam_GaussianDensity = [
    ''class GaussianDensity {'',
    [CHR 0x09] @ ''GaussianDensity(int key, Vector d, Matrix R, Vector sigmas);'',
    [CHR 0x09] @ ''void print(string s) const;'',
    [CHR 0x09] @ ''Vector mean() const;'',
    [CHR 0x09] @ ''Matrix information() const;'',
    [CHR 0x09] @ ''Matrix covariance() const;'',
    ''};'',
    []]"

text \<open>Class gtsam::GaussianBayesNet (lines 269-276 of gtsam.h).\<close>
definition src_gtsam_GaussianBayesNet :: "string list" where
  "src_gtsam_GaussianBayesNet = [
    ''class GaussianBayesNet {'',
    [CHR 0x09] @ ''GaussianBayesNet();'',
    [CHR 0x09] @ ''void print(string s) const;'',
    [CHR 0x09] @ ''bool equals(const gtsam::GaussianBayesNet& cbn, double tol) const;'',
    [CHR 0x09] @ ''void push_back(gtsam::GaussianConditional* conditional);'',
    [CHR 0x09] @ ''void push_front(gtsam::GaussianConditional* conditional);'',
    ''};'',
    []]"

text \<open>Class gtsam::GaussianFactor (lines 277-282 of gtsam.h).\<close>
definition src_gtsam_GaussianFactor :: "string list" where
  "src_gtsam_GaussianFactor = [
    ''class GaussianFactor {'',
    [CHR 0x09] @ ''void print(string s) const;'',
    [CHR 0x09] @ ''bool equals(const gtsam::GaussianFactor& lf, double tol) const;'',
    [CHR 0x09] @ ''double error(const gtsam::VectorValues& c) const;'',
    ''};'',
    []]"

text \<open>Class gtsam::JacobianFactor (lines 283-298 of gtsam.h).\<close>
definition src_gtsam_JacobianFactor :: "string list" where
  "src_gtsam_JacobianFactor = [
    ''class JacobianFactor {'',
    [CHR 0x09] @ ''JacobianFactor();'',
    [CHR 0x09] @ ''JacobianFactor(Vector b_in);'',
    [CHR 0x09] @ ''JacobianFactor(int i1, Matrix A1, Vector b, const gtsam::SharedDiagonal& model);'',
    [CHR 0x09] @ ''JacobianFactor(int i1, Matrix A1, int i2, Matrix A2, Vector b,'',
    [CHR 0x09, CHR 0x09, CHR 0x09] @ ''const gtsam::SharedDiagonal& model);'',
    [CHR 0x09] @ ''JacobianFactor(int i1, Matrix A1, int i2, Matrix A2, int i3, Matrix A3,'',
    [CHR 0x09, CHR 0x09, CHR 0x09] @ ''Vector b, const gtsam::SharedDiagonal& model);'',
    [CHR 0x09] @ ''void print(string s) const;'',
    [CHR 0x09] @ ''bool equals(const gtsam::GaussianFactor& lf, double tol) const;'',
    [CHR 0x09] @ ''bool empty() const;'',
    [CHR 0x09] @ ''Vector getb() const;'',
    [CHR 0x09] @ ''double error(const gtsam::VectorValues& c) const;'',
    [CHR 0x09] @ ''gtsam::GaussianConditional* eliminateFirst();'',
    ''};'',
    []]"

text \<open>Class gtsam::HessianFactor (lines 299-315 of gtsam.h).\<close>
definition src_gtsam_HessianFactor :: "string list" where
  "src_gtsam_HessianFactor = [
    ''class HessianFactor {'',
    [CHR 0x09] @ ''HessianFactor(const gtsam::HessianFactor& gf);'',
    [CHR 0x09] @ ''HessianFactor();'',
    [CHR 0x09] @ ''HessianFactor(int j, Matrix G, Vector g, double f);'',
    [CHR 0x09] @ ''HessianFactor(int j, Vector mu, Matrix Sigma);'',
    [CHR 0x09] @ ''HessianFactor(int j1, int j2, Matrix G11, Matrix G12, Vector g1, Matrix G22,'',
    [CHR 0x09, CHR 0x09, CHR 0x09] @ ''Vector g2, double f);'',
    [CHR 0x09] @ ''HessianFactor(int j1, int j2, int j3, Matrix G11, Matrix G12, Matrix G13,'',
    [CHR 0x09, CHR 0x09, CHR 0x09] @ ''Vector g1, Matrix G22, Matrix G23, Vector g2, Matrix G33, Vector g3,'',
    [CHR 0x09, CHR 0x09, CHR 0x09] @ ''double f);'',
    [CHR 0x09] @ ''HessianFactor(const gtsam::GaussianConditional& cg);'',
    [CHR 0x09] @ ''HessianFactor(const gtsam::GaussianFactor& factor);'',
    ''  void print(string s) const;'',
    ''  bool equals(const gtsam::GaussianFactor& lf, double tol) const;'',
    ''  double error(const gtsam::VectorValues& c) const;'',
    ''};'',
    []]"

text \<open>Class gtsam::GaussianFactorGraph (lines 316-350 of gtsam.h).\<close>
definition src_gtsam_GaussianFactorGraph :: "string list" where
  "src_gtsam_GaussianFactorGraph = [
    ''class GaussianFactorGraph {'',
    [CHR 0x09] @ ''GaussianFactorGraph();'',
    ''  GaussianFactorGraph(const gtsam::GaussianBayesNet& CBN);'',
    [],
    ''  // From FactorGraph'',
    [CHR 0x09] @ ''void push_back(gtsam::GaussianFactor* factor);'',
    [CHR 0x09] @ ''void print(string s) const;'',
    [CHR 0x09] @ ''bool equals(const gtsam::GaussianFactorGraph& lfgraph, double tol) const;'',
    [CHR 0x09] @ ''int size() const;'',
    [],
    [CHR 0x09] @ ''// Building the graph'',
    [CHR 0x09] @ ''void add(gtsam::JacobianFactor* factor);'',
    [CHR 0x09] @ ''void add(Vector b);'',
    [CHR 0x09] @ ''void add(int key1, Matrix A1, Vector b, const gtsam::SharedDiagonal& model);'',
    [CHR 0x09] @ ''void add(int key1, Matrix A1, int key2, Matrix A2, Vector b,'',
    [CHR 0x09, CHR 0x09, CHR 0x09] @ ''const gtsam::SharedDiagonal& model);'',
    [CHR 0x09] @ ''void add(int key1, Matrix A1, int key2, Matrix A2, int key3, Matrix A3,'',
    [CHR 0x09, CHR 0x09, CHR 0x09] @ ''Vector b, const gtsam::SharedDiagonal& model);'',
    [CHR 0x09] @ ''void add(gtsam::HessianFactor* factor);'',
    [],
    [CHR 0x09] @ ''// error and probability'',
    [CHR 0x09] @ ''double error(const gtsam::VectorValues& c) const;'',
    [CHR 0x09] @ ''double probPrime(const gtsam::VectorValues& c) const;'',
    [],
    [CHR 0x09] @ ''// combining'',
    ''  static gtsam::GaussianFactorGraph combine2(const gtsam::GaussianFactorGraph& lfg1,'',
    ''      const gtsam::GaussianFactorGraph& lfg2);'',
    [CHR 0x09] @ ''void combine(const gtsam::GaussianFactorGraph& lfg);'',
    [],
    [CHR 0x09] @ ''// Conversion to matrices'',
    [CHR 0x09] @ ''Matrix sparseJacobian_() const;'',
    [CHR 0x09] @ ''Matrix denseJacobian() const;'',
    [CHR 0x09] @ ''Matrix denseHessian() const;'',
    ''};'',
    []]"

text \<open>Class gtsam::GaussianSequentialSolver (lines 351-358 of gtsam.h).\<close>
definition src_gtsam_GaussianSequentialSolver :: "string list" where
  "src_gtsam_GaussianSequentialSolver = [
    ''class GaussianSequentialSolver {'',
    ''  GaussianSequentialSolver(const gtsam::GaussianFactorGraph& graph, bool useQR);'',
    ''  gtsam::GaussianBayesNet* eliminate() const;'',
    ''  gtsam::VectorValues* optimize() const;'',
    ''  gtsam::GaussianFactor* marginalFactor(int j) const;'',
    ''  Matrix marginalCovariance(int j) const;'',
    ''};'',
    []]"

text \<open>Class gtsam::KalmanFilter (lines 359-380 of gtsam.h).\<close>
definition src_gtsam_KalmanFilter :: "string list" where
  "src_gtsam_KalmanFilter = [
    ''class KalmanFilter {'',
    [CHR 0x09] @ ''KalmanFilter(size_t n);'',
    [CHR 0x09] @ ''gtsam::GaussianDensity* init(Vector x0, const gtsam::SharedDiagonal& P0);'',
    [CHR 0x09] @ ''gtsam::GaussianDensity* init(Vector x0, Matrix P0);'',
    [CHR 0x09] @ ''void print(string s) const;'',
    [CHR 0x09] @ ''static int step(gtsam::GaussianDensity* p);'',
    [CHR 0x09] @ ''gtsam::GaussianDensity* predict(gtsam::GaussianDensity* p, Matrix F, Matrix B, Vector u,'',
    [CHR 0x09, CHR 0x09, CHR 0x09] @ ''const gtsam::SharedDiagonal& modelQ);'',
    [CHR 0x09] @ ''gtsam::GaussianDensity* predictQ(gtsam::GaussianDensity* p, Matrix F, Matrix B, Vector u,'',
    [CHR 0x09, CHR 0x09, CHR 0x09] @ ''Matrix Q);'',
    [CHR 0x09] @ ''gtsam::GaussianDensity* predict2(gtsam::GaussianDensity* p, Matrix A0, Matrix A1, Vector b,'',
    [CHR 0x09, CHR 0x09, CHR 0x09] @ ''const gtsam::SharedDiagonal& model);'',
    [CHR 0x09] @ ''gtsam::GaussianDensity* update(gtsam::GaussianDensity* p, Matrix H, Vector z,'',
    [CHR 0x09, CHR 0x09, CHR 0x09] @ ''const gtsam::SharedDiagonal& model);'',
    [CHR 0x09] @ ''gtsam::GaussianDensity* updateQ(gtsam::GaussianDensity* p, Matrix H, Vector z,'',
    [CHR 0x09] @ ''    Matrix Q);'',
    ''};'',
    [],
    ''//*************************************************************************'',
    ''// nonlinear'',
    ''//*************************************************************************'',
    []]"

text \<open>Class gtsam::Ordering (lines 381-387 of gtsam.h).\<close>
definition src_gtsam_Ordering :: "string list" where
  "src_gtsam_Ordering = [
    ''class Ordering {'',
    [CHR 0x09] @ ''Ordering();'',
    [CHR 0x09] @ ''void print(string s) const;'',
    [CHR 0x09] @ ''bool equals(const gtsam::Ordering& ord, double tol) const;'',
    [CHR 0x09] @ ''void push_back(string key);'',
    ''};'',
    []]"

text \<open>Class gtsam::NonlinearOptimizationParameters (lines 388-396 of gtsam.h).\<close>
definition src_gtsam_NonlinearOptimizationParameters :: "string list" where
  "src_gtsam_NonlinearOptimizationParameters = [
    ''class NonlinearOptimizationParameters {'',
    [CHR 0x09] @ ''NonlinearOptimizationParameters(double absDecrease, double relDecrease,'',
    [CHR 0x09, CHR 0x09, CHR 0x09] @ ''double sumError, int iIters, double lambda, double lambdaFactor);'',
    [CHR 0x09] @ ''void print(string s) const;'',
    [CHR 0x09] @ ''static gtsam::NonlinearOptimizationParameters* newDrecreaseThresholds(double absDecrease,'',
    [CHR 0x09, CHR 0x09, CHR 0x09] @ ''double relDecrease);'',
    ''};'',
    [],
    []]"

text \<open>The close marker of namespace gtsam (lines 397-402 of gtsam.h).\<close>
definition src_gtsam_close :: "string list" where
  "src_gtsam_close = [
    ''}///'' @ [CHR 0x5C] @ ''namespace gtsam'',
    [],
    ''//*************************************************************************'',
    ''// planarSLAM'',
    ''//*************************************************************************'',
    []]"

text \<open>The opening of namespace planarSLAM (lines 403-405 of gtsam.h).\<close>
definition src_planarSLAM_open :: "string list" where
  "src_planarSLAM_open = [
    ''#include <gtsam/slam/planarSLAM.h>'',
    ''namespace planarSLAM {'',
    []]"

text \<open>Class planarSLAM::Values (lines 406-414 of gtsam.h).\<close>
definition src_planarSLAM_Values :: "string list" where
  "src_planarSLAM_Values = [
    ''class Values {'',
    [CHR 0x09] @ ''Values();'',
    [CHR 0x09] @ ''void print(string s) const;'',
    [CHR 0x09] @ ''gtsam::Pose2 pose(int key) const;'',
    [CHR 0x09] @ ''gtsam::Point2 point(int key) const;'',
    [CHR 0x09] @ ''void insertPose(int key, const gtsam::Pose2& pose);'',
    [CHR 0x09] @ ''void insertPoint(int key, const gtsam::Point2& point);'',
    ''};'',
    []]"

text \<open>Class planarSLAM::Graph (lines 415-434 of gtsam.h).\<close>
definition src_planarSLAM_Graph :: "string list" where
  "src_planarSLAM_Graph = [
    ''class Graph {'',
    [CHR 0x09] @ ''Graph();'',
    [],
    [CHR 0x09] @ ''void print(string s) const;'',
    [],
    [CHR 0x09] @ ''double error(const planarSLAM::Values& values) const;'',
    [CHR 0x09] @ ''gtsam::Ordering* orderingCOLAMD(const planarSLAM::Values& values) const;'',
    [CHR 0x09] @ ''gtsam::GaussianFactorGraph* linearize(const planarSLAM::Values& values,'',
    [CHR 0x09, CHR 0x09, CHR 0x09] @ ''const gtsam::Ordering& ordering) const;'',
    [],
    [CHR 0x09] @ ''void addPrior(int key, const gtsam::Pose2& pose, const gtsam::SharedNoiseModel& noiseModel);'',
    [CHR 0x09] @ ''void addPoseConstraint(int key, const gtsam::Pose2& pose);'',
    [CHR 0x09] @ ''void addOdometry(int key1, int key2, const gtsam::Pose2& odometry, const gtsam::SharedNoiseModel& noiseModel);'',
    [CHR 0x09] @ ''void addBearing(int poseKey, int pointKey, const gtsam::Rot2& bearing, const gtsam::SharedNoiseModel& noiseModel);'',
    [CHR 0x09] @ ''void addRange(int poseKey, int pointKey, double range, const gtsam::SharedNoiseModel& noiseModel);'',
    [CHR 0x09] @ ''void addBearingRange(int poseKey, int pointKey, const gtsam::Rot2& bearing, double range,'',
    [CHR 0x09, CHR 0x09, CHR 0x09] @ ''const gtsam::SharedNoiseModel& noiseModel);'',
    [CHR 0x09] @ ''planarSLAM::Values optimize(const planarSLAM::Values& initialEstimate);'',
    ''};'',
    []]"

text \<open>Class planarSLAM::Odometry (lines 435-441 of gtsam.h).\<close>
definition src_planarSLAM_Odometry :: "string list" where
  "src_planarSLAM_Odometry = [
    ''class Odometry {'',
    [CHR 0x09] @ ''Odometry(int key1, int key2, const gtsam::Pose2& measured,'',
    [CHR 0x09, CHR 0x09, CHR 0x09] @ ''const gtsam::SharedNoiseModel& model);'',
    [CHR 0x09] @ ''void print(string s) const;'',
    [CHR 0x09] @ ''gtsam::GaussianFactor* linearize(const planarSLAM::Values& center, const gtsam::Ordering& ordering) const;'',
    ''};'',
    []]"

text \<open>Class planarSLAM::Optimizer (lines 442-447 of gtsam.h).\<close>
definition src_planarSLAM_Optimizer :: "string list" where
  "src_planarSLAM_Optimizer = [
    ''class Optimizer {'',
    [CHR 0x09] @ ''Optimizer(planarSLAM::Graph* graph, planarSLAM::Values* values,'',
    [CHR 0x09] @ ''    gtsam::Ordering* ordering, gtsam::NonlinearOptimizationParameters* parameters);'',
    [CHR 0x09] @ ''void print(string s) const;'',
    ''};'',
    []]"

text \<open>The close marker of namespace planarSLAM (lines 448-453 of gtsam.h).\<close>
definition src_planarSLAM_close :: "string list" where
  "src_planarSLAM_close = [
    ''}///'' @ [CHR 0x5C] @ ''namespace planarSLAM'',
    [],
    ''//*************************************************************************'',
    ''// gtsam::Pose2SLAM'',
    ''//*************************************************************************'',
    []]"

text \<open>The opening of namespace pose2SLAM (lines 454-456 of gtsam.h).\<close>
definition src_pose2SLAM_open :: "string list" where
  "src_pose2SLAM_open = [
    ''#include <gtsam/slam/pose2SLAM.h>'',
    ''namespace pose2SLAM {'',
    []]"

text \<open>Class pose2SLAM::Values (lines 457-463 of gtsam.h).\<close>
definition src_pose2SLAM_Values :: "string list" where
  "src_pose2SLAM_Values = [
    ''class Values {'',
    ''  Values();'',
    ''  void print(string s) const;'',
    ''  void insertPose(int key, const gtsam::Pose2& pose);'',
    ''  gtsam::Pose2 pose(int i);'',
    ''};'',
    []]"

text \<open>Class pose2SLAM::Graph (lines 464-479 of gtsam.h).\<close>
definition src_pose2SLAM_Graph :: "string list" where
  "src_pose2SLAM_Graph = [
    ''class Graph {'',
    ''  Graph();'',
    [],
    ''  void print(string s) const;'',
    [],
    ''  double error(const pose2SLAM::Values& values) const;'',
    ''  gtsam::Ordering* orderingCOLAMD(const pose2SLAM::Values& values) const;'',
    ''  gtsam::GaussianFactorGraph* linearize(const pose2SLAM::Values& values,'',
    ''      const gtsam::Ordering& ordering) const;'',
    [],
    ''  void addPrior(int key, const gtsam::Pose2& pose, const gtsam::SharedNoiseModel& noiseModel);'',
    ''  void addPoseConstraint(int key, const gtsam::Pose2& pose);'',
    ''  void addOdometry(int key1, int key2, const gtsam::Pose2& odometry, const gtsam::SharedNoiseModel& noiseModel);'',
    ''  pose2SLAM::Values optimize(const pose2SLAM::Values& initialEstimate);'',
    ''};'',
    []]"

text \<open>Class pose2SLAM::Optimizer (lines 480-485 of gtsam.h).\<close>
definition src_pose2SLAM_Optimizer :: "string list" where
  "src_pose2SLAM_Optimizer = [
    ''class Optimizer {'',
    [CHR 0x09] @ ''Optimizer(pose2SLAM::Graph* graph, pose2SLAM::Values* values,'',
    [CHR 0x09] @ ''    gtsam::Ordering* ordering, gtsam::NonlinearOptimizationParameters* parameters);'',
    [CHR 0x09] @ ''void print(string s) const;'',
    ''};'',
    []]"

text \<open>The close marker of namespace pose2SLAM (lines 486-491 of gtsam.h).\<close>
definition src_pose2SLAM_close :: "string list" where
  "src_pose2SLAM_close = [
    ''}///'' @ [CHR 0x5C] @ ''namespace pose2SLAM'',
    [],
    ''//*************************************************************************'',
    ''// Simulated2D'',
    ''//*************************************************************************'',
    []]"

text \<open>The opening of namespace simulated2D (lines 492-494 of gtsam.h).\<close>
definition src_simulated2D_open :: "string list" where
  "src_simulated2D_open = [
    ''#include <gtsam/slam/simulated2D.h>'',
    ''namespace simulated2D {'',
    []]"

text \<open>Class simulated2D::Values (lines 495-504 of gtsam.h).\<close>
definition src_simulated2D_Values :: "string list" where
  "src_simulated2D_Values = [
    ''class Values {'',
    [CHR 0x09] @ ''Values();'',
    [CHR 0x09] @ ''void insertPose(int i, const gtsam::Point2& p);'',
    [CHR 0x09] @ ''void insertPoint(int j, const gtsam::Point2& p);'',
    [CHR 0x09] @ ''int nrPoses() const;'',
    [CHR 0x09] @ ''int nrPoints() const;'',
    [CHR 0x09] @ ''gtsam::Point2 pose(int i);'',
    [CHR 0x09] @ ''gtsam::Point2 point(int j);'',
    ''};'',
    []]"

text \<open>Class simulated2D::Graph (lines 505-510 of gtsam.h).\<close>
definition src_simulated2D_Graph :: "string list" where
  "src_simulated2D_Graph = [
    ''class Graph {'',
    [CHR 0x09] @ ''Graph();'',
    ''};'',
    [],
    ''// TODO: add factors, etc.'',
    []]"

text \<open>The close marker of namespace simulated2D (lines 511-512 of gtsam.h).\<close>
definition src_simulated2D_close :: "string list" where
  "src_simulated2D_close = [
    ''}///'' @ [CHR 0x5C] @ ''namespace simulated2D'',
    []]"

text \<open>The opening of namespace simulated2DOriented (lines 513-516 of gtsam.h).\<close>
definition src_simulated2DOriented_open :: "string list" where
  "src_simulated2DOriented_open = [
    ''// Simulated2DOriented Example Domain'',
    ''#include <gtsam/slam/simulated2DOriented.h>'',
    ''namespace simulated2DOriented {'',
    []]"

text \<open>Class simulated2DOriented::Values (lines 517-526 of gtsam.h).\<close>
definition src_simulated2DOriented_Values :: "string list" where
  "src_simulated2DOriented_Values = [
    ''class Values {'',
    [CHR 0x09] @ ''Values();'',
    [CHR 0x09] @ ''void insertPose(int i, const gtsam::Pose2& p);'',
    [CHR 0x09] @ ''void insertPoint(int j, const gtsam::Point2& p);'',
    [CHR 0x09] @ ''int nrPoses() const;'',
    [CHR 0x09] @ ''int nrPoints() const;'',
    [CHR 0x09] @ ''gtsam::Pose2 pose(int i);'',
    [CHR 0x09] @ ''gtsam::Point2 point(int j);'',
    ''};'',
    []]"

text \<open>Class simulated2DOriented::Graph (lines 527-532 of gtsam.h).\<close>
definition src_simulated2DOriented_Graph :: "string list" where
  "src_simulated2DOriented_Graph = [
    ''class Graph {'',
    [CHR 0x09] @ ''Graph();'',
    ''};'',
    [],
    ''// TODO: add factors, etc.'',
    []]"

text \<open>The close marker of namespace simulated2DOriented (lines 533-535 of gtsam.h).\<close>
definition src_simulated2DOriented_close :: "string list" where
  "src_simulated2DOriented_close = [
    ''}///'' @ [CHR 0x5C] @ ''namespace simulated2DOriented'',
    [],
    []]"

text \<open>The commented-out legacy classes (lines 536-688 of gtsam.h).\<close>
definition src_legacy :: "string list" where
  "src_legacy = [
    ''//// These are considered to be broken and will be added back as they start working'',
    ''//// It'' @ [CHR 0x27] @ ''s assumed that there have been interface changes that might break this'',
    ''//'',
    ''//class Ordering{'',
    ''//'' @ [CHR 0x09] @ ''Ordering(string key);'',
    ''//  void print(string s) const;'',
    ''//  bool equals(const Ordering& ord, double tol) const;'',
    ''//'' @ [CHR 0x09] @ ''Ordering subtract(const Ordering& keys) const;'',
    ''//'' @ [CHR 0x09] @ ''void unique ();'',
    ''//'' @ [CHR 0x09] @ ''void reverse ();'',
    ''//  void push_back(string s);'',
    ''//};'',
    ''//'',
    ''//class GaussianFactorSet {'',
    ''//  GaussianFactorSet();'',
    ''//  void push_back(GaussianFactor* factor);'',
    ''//};'',
    ''//'',
    ''//class Simulated2DPosePrior {'',
    ''//'' @ [CHR 0x09] @ ''Simulated2DPosePrior(Point2& mu, const SharedDiagonal& model, int i);'',
    ''//  void print(string s) const;'',
    ''//  double error(const Simulated2DValues& c) const;'',
    ''//};'',
    ''//'',
    ''//class Simulated2DOrientedPosePrior {'',
    ''//'' @ [CHR 0x09] @ ''Simulated2DOrientedPosePrior(Pose2& mu, const SharedDiagonal& model, int i);'',
    ''//  void print(string s) const;'',
    ''//  double error(const Simulated2DOrientedValues& c) const;'',
    ''//};'',
    ''//'',
    ''//class Simulated2DPointPrior {'',
    ''//'' @ [CHR 0x09] @ ''Simulated2DPointPrior(Point2& mu, const SharedDiagonal& model, int i);'',
    ''//  void print(string s) const;'',
    ''//  double error(const Simulated2DValues& c) const;'',
    ''//};'',
    ''//'',
    ''//class Simulated2DOdometry {'',
    ''//  Simulated2DOdometry(Point2& mu, const SharedDiagonal& model, int i1, int i2);'',
    ''//  void print(string s) const;'',
    ''//  double error(const Simulated2DValues& c) const;'',
    ''//};'',
    ''//'',
    ''//class Simulated2DOrientedOdometry {'',
    ''//'' @ [CHR 0x09] @ ''Simulated2DOrientedOdometry(Pose2& mu, const SharedDiagonal& model, int i1, int i2);'',
    ''//  void print(string s) const;'',
    ''//  double error(const Simulated2DOrientedValues& c) const;'',
    ''//};'',
    ''//'',
    ''//class Simulated2DMeasurement {'',
    ''//  Simulated2DMeasurement(Point2& mu, const SharedDiagonal& model, int i, int j);'',
    ''//  void print(string s) const;'',
    ''//  double error(const Simulated2DValues& c) const;'',
    ''//};'',
    ''//'',
    ''//class GaussianFactor {'',
    ''//'' @ [CHR 0x09] @ ''GaussianFactor(string key1,'',
    ''//'' @ [CHR 0x09, CHR 0x09, CHR 0x09] @ ''Matrix A1,'',
    ''//'' @ [CHR 0x09, CHR 0x09, CHR 0x09] @ ''Vector b_in,'',
    ''//'' @ [CHR 0x09, CHR 0x09, CHR 0x09] @ ''const SharedDiagonal& model);'',
    ''//'' @ [CHR 0x09] @ ''GaussianFactor(string key1,'',
    ''//'' @ [CHR 0x09, CHR 0x09, CHR 0x09] @ ''Matrix A1,'',
    ''//'' @ [CHR 0x09, CHR 0x09, CHR 0x09] @ ''string key2,'',
    ''//'' @ [CHR 0x09, CHR 0x09, CHR 0x09] @ ''Matrix A2,'',
    ''//'' @ [CHR 0x09, CHR 0x09, CHR 0x09] @ ''Vector b_in,'',
    ''//'' @ [CHR 0x09, CHR 0x09, CHR 0x09] @ ''const SharedDiagonal& model);'',
    ''//'' @ [CHR 0x09] @ ''GaussianFactor(string key1,'',
    ''//'' @ [CHR 0x09, CHR 0x09, CHR 0x09] @ ''Matrix A1,'',
    ''//'' @ [CHR 0x09, CHR 0x09, CHR 0x09] @ ''string key2,'',
    ''//'' @ [CHR 0x09, CHR 0x09, CHR 0x09] @ ''Matrix A2,'',
    ''//'' @ [CHR 0x09, CHR 0x09, CHR 0x09] @ ''string key3,'',
    ''//'' @ [CHR 0x09, CHR 0x09, CHR 0x09] @ ''Matrix A3,'',
    ''//'' @ [CHR 0x09, CHR 0x09, CHR 0x09] @ ''Vector b_in,'',
    ''//'' @ [CHR 0x09, CHR 0x09, CHR 0x09] @ ''const SharedDiagonal& model);'',
    ''//'' @ [CHR 0x09] @ ''bool involves(string key) const;'',
    ''//'' @ [CHR 0x09] @ ''Matrix getA(string key) const;'',
    ''//'' @ [CHR 0x09] @ ''pair<Matrix,Vector> matrix(const Ordering& ordering) const;'',
    ''//'' @ [CHR 0x09] @ ''pair<GaussianConditional*,GaussianFactor*> eliminate(string key) const;'',
    ''//};'',
    ''//'',
    ''//class GaussianFactorGraph {'',
    ''//'' @ [CHR 0x09] @ ''GaussianConditional* eliminateOne(string key);'',
    ''//'' @ [CHR 0x09] @ ''GaussianBayesNet* eliminate_(const Ordering& ordering);'',
    ''//'' @ [CHR 0x09] @ ''VectorValues* optimize_(const Ordering& ordering);'',
    ''//'' @ [CHR 0x09] @ ''pair<Matrix,Vector> matrix(const Ordering& ordering) const;'',
    ''//'' @ [CHR 0x09] @ ''VectorValues* steepestDescent_(const VectorValues& x0) const;'',
    ''//'' @ [CHR 0x09] @ ''VectorValues* conjugateGradientDescent_(const VectorValues& x0) const;'',
    ''//};'',
    ''//'',
    ''//class gtsam::Pose2Values{'',
    ''//'' @ [CHR 0x09] @ ''Pose2Values();'',
    ''//'' @ [CHR 0x09] @ ''Pose2 get(string key) const;'',
    ''//'' @ [CHR 0x09] @ ''void insert(string name, const gtsam::Pose2& val);'',
    ''//'' @ [CHR 0x09] @ ''void print(string s) const;'',
    ''//'' @ [CHR 0x09] @ ''void clear();'',
    ''//'' @ [CHR 0x09] @ ''int size();'',
    ''//};'',
    ''//'',
    ''//class gtsam::Pose2Factor {'',
    ''//'' @ [CHR 0x09] @ ''Pose2Factor(string key1, string key2,'',
    ''//'' @ [CHR 0x09, CHR 0x09, CHR 0x09] @ ''const gtsam::Pose2& measured, Matrix measurement_covariance);'',
    ''//'' @ [CHR 0x09] @ ''void print(string name) const;'',
    ''//'' @ [CHR 0x09] @ ''double error(const gtsam::Pose2Values& c) const;'',
    ''//'' @ [CHR 0x09] @ ''size_t size() const;'',
    ''//'' @ [CHR 0x09] @ ''GaussianFactor* linearize(const gtsam::Pose2Values& config) const;'',
    ''//};'',
    ''//'',
    ''//class gtsam::pose2SLAM::Graph{'',
    ''//'' @ [CHR 0x09] @ ''pose2SLAM::Graph();'',
    ''//'' @ [CHR 0x09] @ ''void print(string s) const;'',
    ''//'' @ [CHR 0x09] @ ''GaussianFactorGraph* linearize_(const gtsam::Pose2Values& config) const;'',
    ''//'' @ [CHR 0x09] @ ''void push_back(Pose2Factor* factor);'',
    ''//};'',
    ''//'',
    ''//class SymbolicFactor{'',
    ''//'' @ [CHR 0x09] @ ''SymbolicFactor(const Ordering& keys);'',
    ''//'' @ [CHR 0x09] @ ''void print(string s) const;'',
    ''//};'',
    ''//'',
    ''//class Simulated2DPosePrior {'',
    ''//'' @ [CHR 0x09] @ ''GaussianFactor* linearize(const Simulated2DValues& config) const;'',
    ''//};'',
    ''//'',
    ''//class Simulated2DOrientedPosePrior {'',
    ''//'' @ [CHR 0x09] @ ''GaussianFactor* linearize(const Simulated2DOrientedValues& config) const;'',
    ''//};'',
    ''//'',
    ''//class Simulated2DPointPrior {'',
    ''//'' @ [CHR 0x09] @ ''GaussianFactor* linearize(const Simulated2DValues& config) const;'',
    ''//};'',
    ''//'',
    ''//class Simulated2DOdometry {'',
    ''//'' @ [CHR 0x09] @ ''GaussianFactor* linearize(const Simulated2DValues& config) const;'',
    ''//};'',
    ''//'',
    ''//class Simulated2DOrientedOdometry {'',
    ''//'' @ [CHR 0x09] @ ''GaussianFactor* linearize(const Simulated2DOrientedValues& config) const;'',
    ''//};'',
    ''//'',
    ''//class Simulated2DMeasurement {'',
    ''//'' @ [CHR 0x09] @ ''GaussianFactor* linearize(const Simulated2DValues& config) const;'',
    ''//};'',
    ''//'',
    ''//class gtsam::Pose2SLAMOptimizer {'',
    ''//'' @ [CHR 0x09] @ ''Pose2SLAMOptimizer(string dataset_name);'',
    ''//'' @ [CHR 0x09] @ ''void print(string s) const;'',
    ''//'' @ [CHR 0x09] @ ''void update(Vector x) const;'',
    ''//'' @ [CHR 0x09] @ ''Vector optimize() const;'',
    ''//'' @ [CHR 0x09] @ ''double error() const;'',
    ''//'' @ [CHR 0x09] @ ''Matrix a1() const;'',
    ''//'' @ [CHR 0x09] @ ''Matrix a2() const;'',
    ''//'' @ [CHR 0x09] @ ''Vector b1() const;'',
    ''//'' @ [CHR 0x09] @ ''Vector b2() const;'',
    ''//};'']"

definition gtsam_h_lines :: "string list" where
  "gtsam_h_lines =
    src_header @
    src_status @
    src_gtsam_open @
    src_gtsam_Point2 @
    src_gtsam_Point3 @
    src_gtsam_Rot2 @
    src_gtsam_Rot3 @
    src_gtsam_Pose2 @
    src_gtsam_Pose3 @
    src_gtsam_SharedGaussian @
    src_gtsam_SharedDiagonal @
    src_gtsam_SharedNoiseModel @
    src_gtsam_VectorValues @
    src_gtsam_GaussianConditional @
    src_gtsam_GaussianDensity @
    src_gtsam_GaussianBayesNet @
    src_gtsam_GaussianFactor @
    src_gtsam_JacobianFactor @
    src_gtsam_HessianFactor @
    src_gtsam_GaussianFactorGraph @
    src_gtsam_GaussianSequentialSolver @
    src_gtsam_KalmanFilter @
    src_gtsam_Ordering @
    src_gtsam_NonlinearOptimizationParameters @
    src_gtsam_close @
    src_planarSLAM_open @
    src_planarSLAM_Values @
    src_planarSLAM_Graph @
    src_planarSLAM_Odometry @
    src_planarSLAM_Optimizer @
    src_planarSLAM_close @
    src_pose2SLAM_open @
    src_pose2SLAM_Values @
    src_pose2SLAM_Graph @
    src_pose2SLAM_Optimizer @
    src_pose2SLAM_close @
    src_simulated2D_open @
    src_simulated2D_Values @
    src_simulated2D_Graph @
    src_simulated2D_close @
    src_simulated2DOriented_open @
    src_simulated2DOriented_Values @
    src_simulated2DOriented_Graph @
    src_simulated2DOriented_close @
    src_legacy"

text \<open>The text of gtsam.h: its lines, with a line break between them.\<close>

definition gtsam_h :: string where
  "gtsam_h = join_lines gtsam_h_lines"

section \<open>The declarations of gtsam.h\<close>

text \<open>Class gtsam::Point2 (line 70 of gtsam.h).\<close>
definition class_gtsam_Point2 :: decl where
  "class_gtsam_Point2 = Class 70 ''Point2'' None [
    Constructor 71 [],
    Constructor 72 [Param (plain ''double'') ''x'', Param (plain ''double'') ''y''],
    Method 73 True (Some (by_value ''gtsam'' ''Point2'')) ''Expmap''
      [Param (plain ''Vector'') ''v''] False,
    Method 74 True (Some (plain ''Vector'')) ''Logmap''
      [Param (const_ref ''gtsam'' ''Point2'') ''p''] False,
    Method 75 False None ''print'' [Param (plain ''string'') ''s''] True,
    Method 76 False (Some (plain ''double'')) ''x'' [] False,
    Method 77 False (Some (plain ''double'')) ''y'' [] False,
    Method 78 False (Some (plain ''Vector'')) ''localCoordinates''
      [Param (const_ref ''gtsam'' ''Point2'') ''p''] False,
    Method 79 False (Some (by_value ''gtsam'' ''Point2'')) ''compose''
      [Param (const_ref ''gtsam'' ''Point2'') ''p2''] False,
    Method 80 False (Some (by_value ''gtsam'' ''Point2'')) ''between''
      [Param (const_ref ''gtsam'' ''Point2'') ''p2''] False,
    Method 81 False (Some (by_value ''gtsam'' ''Point2'')) ''retract''
      [Param (plain ''Vector'') ''v''] False]"

text \<open>Class gtsam::Point3 (line 84 of gtsam.h).\<close>
definition class_gtsam_Point3 :: decl where
  "class_gtsam_Point3 = Class 84 ''Point3'' None [
    Constructor 85 [],
    Constructor 86 [Param (plain ''double'') ''x'', Param (plain ''double'') ''y'',
      Param (plain ''double'') ''z''],
    Constructor 87 [Param (plain ''Vector'') ''v''],
    Method 88 True (Some (by_value ''gtsam'' ''Point3'')) ''Expmap''
      [Param (plain ''Vector'') ''v''] False,
    Method 89 True (Some (plain ''Vector'')) ''Logmap''
      [Param (const_ref ''gtsam'' ''Point3'') ''p''] False,
    Method 90 False None ''print'' [Param (plain ''string'') ''s''] True,
    Method 91 False (Some (plain ''bool'')) ''equals''
      [Param (const_ref ''gtsam'' ''Point3'') ''p'', Param (plain ''double'') ''tol''] False,
    Method 92 False (Some (plain ''Vector'')) ''vector'' [] True,
    Method 93 False (Some (plain ''double'')) ''x'' [] False,
    Method 94 False (Some (plain ''double'')) ''y'' [] False,
    Method 95 False (Some (plain ''double'')) ''z'' [] False,
    Method 96 False (Some (plain ''Vector'')) ''localCoordinates''
      [Param (const_ref ''gtsam'' ''Point3'') ''p''] False,
    Method 97 False (Some (by_value ''gtsam'' ''Point3'')) ''retract''
      [Param (plain ''Vector'') ''v''] False,
    Method 98 False (Some (by_value ''gtsam'' ''Point3'')) ''compose''
      [Param (const_ref ''gtsam'' ''Point3'') ''p2''] False,
    Method 99 False (Some (by_value ''gtsam'' ''Point3'')) ''between''
      [Param (const_ref ''gtsam'' ''Point3'') ''p2''] False]"

text \<open>Class gtsam::Rot2 (line 102 of gtsam.h).\<close>
definition class_gtsam_Rot2 :: decl where
  "class_gtsam_Rot2 = Class 102 ''Rot2'' None [
    Constructor 103 [],
    Constructor 104 [Param (plain ''double'') ''theta''],
    Method 105 True (Some (by_value ''gtsam'' ''Rot2'')) ''Expmap''
      [Param (plain ''Vector'') ''v''] False,
    Method 106 True (Some (plain ''Vector'')) ''Logmap''
      [Param (const_ref ''gtsam'' ''Rot2'') ''p''] False,
    Method 107 True (Some (by_value ''gtsam'' ''Rot2'')) ''fromAngle''
      [Param (plain ''double'') ''theta''] False,
    Method 108 True (Some (by_value ''gtsam'' ''Rot2'')) ''fromDegrees''
      [Param (plain ''double'') ''theta''] False,
    Method 109 True (Some (by_value ''gtsam'' ''Rot2'')) ''fromCosSin''
      [Param (plain ''double'') ''c'', Param (plain ''double'') ''s''] False,
    Method 110 True (Some (by_value ''gtsam'' ''Rot2'')) ''relativeBearing''
      [Param (const_ref ''gtsam'' ''Point2'') ''d''] False,
    Method 111 True (Some (by_value ''gtsam'' ''Rot2'')) ''atan2''
      [Param (plain ''double'') ''y'', Param (plain ''double'') ''x''] False,
    Method 112 False None ''print'' [Param (plain ''string'') ''s''] True,
    Method 113 False (Some (plain ''bool'')) ''equals''
      [Param (const_ref ''gtsam'' ''Rot2'') ''rot'', Param (plain ''double'') ''tol''] True,
    Method 114 False (Some (plain ''double'')) ''theta'' [] True,
    Method 115 False (Some (plain ''double'')) ''degrees'' [] True,
    Method 116 False (Some (plain ''double'')) ''c'' [] True,
    Method 117 False (Some (plain ''double'')) ''s'' [] True,
    Method 118 False (Some (plain ''Vector'')) ''localCoordinates''
      [Param (const_ref ''gtsam'' ''Rot2'') ''p''] False,
    Method 119 False (Some (by_value ''gtsam'' ''Rot2'')) ''retract''
      [Param (plain ''Vector'') ''v''] False,
    Method 120 False (Some (by_value ''gtsam'' ''Rot2'')) ''compose''
      [Param (const_ref ''gtsam'' ''Rot2'') ''p2''] False,
    Method 121 False (Some (by_value ''gtsam'' ''Rot2'')) ''between''
      [Param (const_ref ''gtsam'' ''Rot2'') ''p2''] False]"

text \<open>Class gtsam::Rot3 (line 124 of gtsam.h).\<close>
definition class_gtsam_Rot3 :: decl where
  "class_gtsam_Rot3 = Class 124 ''Rot3'' None [
    Constructor 125 [],
    Constructor 126 [Param (plain ''Matrix'') ''R''],
    Method 127 True (Some (by_value ''gtsam'' ''Rot3'')) ''Rx''
      [Param (plain ''double'') ''t''] False,
    Method 128 True (Some (by_value ''gtsam'' ''Rot3'')) ''Ry''
      [Param (plain ''double'') ''t''] False,
    Method 129 True (Some (by_value ''gtsam'' ''Rot3'')) ''Rz''
      [Param (plain ''double'') ''t''] False,
    Method 131 True (Some (by_value ''gtsam'' ''Rot3'')) ''RzRyRx''
      [Param (plain ''Vector'') ''xyz''] False,
    Method 132 True (Some (by_value ''gtsam'' ''Rot3'')) ''yaw''
      [Param (plain ''double'') ''t''] False,
    Method 133 True (Some (by_value ''gtsam'' ''Rot3'')) ''pitch''
      [Param (plain ''double'') ''t''] False,
    Method 134 True (Some (by_value ''gtsam'' ''Rot3'')) ''roll''
      [Param (plain ''double'') ''t''] False,
    Method 135 True (Some (by_value ''gtsam'' ''Rot3'')) ''ypr''
      [Param (plain ''double'') ''y'', Param (plain ''double'') ''p'',
      Param (plain ''double'') ''r''] False,
    Method 136 True (Some (by_value ''gtsam'' ''Rot3'')) ''quaternion''
      [Param (plain ''double'') ''w'', Param (plain ''double'') ''x'',
      Param (plain ''double'') ''y'', Param (plain ''double'') ''z''] False,
    Method 137 True (Some (by_value ''gtsam'' ''Rot3'')) ''rodriguez''
      [Param (plain ''Vector'') ''v''] False,
    Method 138 False None ''print'' [Param (plain ''string'') ''s''] True,
    Method 139 False (Some (plain ''bool'')) ''equals''
      [Param (const_ref ''gtsam'' ''Rot3'') ''rot'', Param (plain ''double'') ''tol''] True,
    Method 140 True (Some (by_value ''gtsam'' ''Rot3'')) ''identity'' [] False,
    Method 141 False (Some (by_value ''gtsam'' ''Rot3'')) ''compose''
      [Param (const_ref ''gtsam'' ''Rot3'') ''p2''] True,
    Method 142 False (Some (by_value ''gtsam'' ''Rot3'')) ''inverse'' [] True,
    Method 143 False (Some (by_value ''gtsam'' ''Rot3'')) ''between''
      [Param (const_ref ''gtsam'' ''Rot3'') ''p2''] True,
    Method 144 False (Some (by_value ''gtsam'' ''Point3'')) ''rotate''
      [Param (const_ref ''gtsam'' ''Point3'') ''p''] True,
    Method 145 False (Some (by_value ''gtsam'' ''Point3'')) ''unrotate''
      [Param (const_ref ''gtsam'' ''Point3'') ''p''] True,
    Method 146 False (Some (by_value ''gtsam'' ''Rot3'')) ''retractCayley''
      [Param (plain ''Vector'') ''v''] True,
    Method 147 False (Some (by_value ''gtsam'' ''Rot3'')) ''retract''
      [Param (plain ''Vector'') ''v''] True,
    Method 148 False (Some (plain ''Vector'')) ''localCoordinates''
      [Param (const_ref ''gtsam'' ''Rot3'') ''p''] True,
    Method 149 True (Some (by_value ''gtsam'' ''Rot3'')) ''Expmap''
      [Param (plain ''Vector'') ''v''] False,
    Method 150 True (Some (plain ''Vector'')) ''Logmap''
      [Param (const_ref ''gtsam'' ''Rot3'') ''p''] False,
    Method 151 False (Some (plain ''Matrix'')) ''matrix'' [] True,
    Method 152 False (Some (plain ''Matrix'')) ''transpose'' [] True,
    Method 153 False (Some (by_value ''gtsam'' ''Point3'')) ''column''
      [Param (plain ''int'') ''index''] True,
    Method 154 False (Some (plain ''Vector'')) ''xyz'' [] True,
    Method 155 False (Some (plain ''Vector'')) ''ypr'' [] True,
    Method 156 False (Some (plain ''Vector'')) ''rpy'' [] True,
    Method 157 False (Some (plain ''double'')) ''roll'' [] True,
    Method 158 False (Some (plain ''double'')) ''pitch'' [] True,
    Method 159 False (Some (plain ''double'')) ''yaw'' [] True]"

text \<open>Class gtsam::Pose2 (line 163 of gtsam.h).\<close>
definition class_gtsam_Pose2 :: decl where
  "class_gtsam_Pose2 = Class 163 ''Pose2'' None [
    Constructor 164 [],
    Constructor 165 [Param (plain ''double'') ''x'', Param (plain ''double'') ''y'',
      Param (plain ''double'') ''theta''],
    Constructor 166 [Param (plain ''double'') ''theta'',
      Param (const_ref ''gtsam'' ''Point2'') ''t''],
    Constructor 167 [Param (const_ref ''gtsam'' ''Rot2'') ''r'',
      Param (const_ref ''gtsam'' ''Point2'') ''t''],
    Constructor 168 [Param (plain ''Vector'') ''v''],
    Method 169 True (Some (by_value ''gtsam'' ''Pose2'')) ''Expmap''
      [Param (plain ''Vector'') ''v''] False,
    Method 170 True (Some (plain ''Vector'')) ''Logmap''
      [Param (const_ref ''gtsam'' ''Pose2'') ''p''] False,
    Method 171 False None ''print'' [Param (plain ''string'') ''s''] True,
    Method 172 False (Some (plain ''bool'')) ''equals''
      [Param (const_ref ''gtsam'' ''Pose2'') ''pose'', Param (plain ''double'') ''tol''] True,
    Method 173 False (Some (plain ''double'')) ''x'' [] True,
    Method 174 False (Some (plain ''double'')) ''y'' [] True,
    Method 175 False (Some (plain ''double'')) ''theta'' [] True,
    Method 176 False (Some (plain ''int'')) ''dim'' [] True,
    Method 177 False (Some (plain ''Vector'')) ''localCoordinates''
      [Param (const_ref ''gtsam'' ''Pose2'') ''p''] False,
    Method 178 False (Some (by_value ''gtsam'' ''Pose2'')) ''retract''
      [Param (plain ''Vector'') ''v''] False,
    Method 179 False (Some (by_value ''gtsam'' ''Pose2'')) ''compose''
      [Param (const_ref ''gtsam'' ''Pose2'') ''p2''] False,
    Method 180 False (Some (by_value ''gtsam'' ''Pose2'')) ''between''
      [Param (const_ref ''gtsam'' ''Pose2'') ''p2''] False,
    Method 181 False (Some (by_value ''gtsam'' ''Rot2'')) ''bearing''
      [Param (const_ref ''gtsam'' ''Point2'') ''point''] False,
    Method 182 False (Some (plain ''double'')) ''range''
      [Param (const_ref ''gtsam'' ''Point2'') ''point''] False,
    Method 183 False (Some (by_value ''gtsam'' ''Point2'')) ''translation'' [] True,
    Method 184 False (Some (by_value ''gtsam'' ''Rot2'')) ''rotation'' [] True]"

text \<open>Class gtsam::Pose3 (line 187 of gtsam.h).\<close>
definition class_gtsam_Pose3 :: decl where
  "class_gtsam_Pose3 = Class 187 ''Pose3'' None [
    Constructor 188 [],
    Constructor 189 [Param (const_ref ''gtsam'' ''Rot3'') ''r'',
      Param (const_ref ''gtsam'' ''Point3'') ''t''],
    Constructor 190 [Param (plain ''Vector'') ''v''],
    Constructor 191 [Param (plain ''Matrix'') ''t''],
    Constructor 192 [Param (const_ref ''gtsam'' ''Pose2'') ''pose2''],
    Method 193 True (Some (by_value ''gtsam'' ''Pose3'')) ''Expmap''
      [Param (plain ''Vector'') ''v''] False,
    Method 194 True (Some (plain ''Vector'')) ''Logmap''
      [Param (const_ref ''gtsam'' ''Pose3'') ''p''] False,
    Method 195 False None ''print'' [Param (plain ''string'') ''s''] True,
    Method 196 False (Some (plain ''bool'')) ''equals''
      [Param (const_ref ''gtsam'' ''Pose3'') ''pose'', Param (plain ''double'') ''tol''] True,
    Method 197 False (Some (plain ''double'')) ''x'' [] True,
    Method 198 False (Some (plain ''double'')) ''y'' [] True,
    Method 199 False (Some (plain ''double'')) ''z'' [] True,
    Method 200 False (Some (plain ''Matrix'')) ''matrix'' [] True,
    Method 201 False (Some (plain ''Matrix'')) ''adjointMap'' [] True,
    Method 202 False (Some (by_value ''gtsam'' ''Pose3'')) ''compose''
      [Param (const_ref ''gtsam'' ''Pose3'') ''p2''] False,
    Method 203 False (Some (by_value ''gtsam'' ''Pose3'')) ''between''
      [Param (const_ref ''gtsam'' ''Pose3'') ''p2''] False,
    Method 204 False (Some (by_value ''gtsam'' ''Pose3'')) ''retract''
      [Param (plain ''Vector'') ''v''] False,
    Method 205 False (Some (by_value ''gtsam'' ''Pose3'')) ''retractFirstOrder''
      [Param (plain ''Vector'') ''v''] False,
    Method 206 False (Some (by_value ''gtsam'' ''Point3'')) ''translation'' [] True,
    Method 207 False (Some (by_value ''gtsam'' ''Rot3'')) ''rotation'' [] True]"

text \<open>Class gtsam::SharedGaussian (line 220 of gtsam.h).\<close>
definition class_gtsam_SharedGaussian :: decl where
  "class_gtsam_SharedGaussian = Class 220 ''SharedGaussian'' None [
    Constructor 221 [Param (plain ''Matrix'') ''covariance''],
    Method 222 False None ''print'' [Param (plain ''string'') ''s''] True]"

text \<open>Class gtsam::SharedDiagonal (line 225 of gtsam.h).\<close>
definition class_gtsam_SharedDiagonal :: decl where
  "class_gtsam_SharedDiagonal = Class 225 ''SharedDiagonal'' None [
    Constructor 226 [Param (plain ''Vector'') ''sigmas''],
    Method 227 False None ''print'' [Param (plain ''string'') ''s''] True,
    Method 228 False (Some (plain ''Vector'')) ''sample'' [] True]"

text \<open>Class gtsam::SharedNoiseModel (line 231 of gtsam.h).\<close>
definition class_gtsam_SharedNoiseModel :: decl where
  "class_gtsam_SharedNoiseModel = Class 231 ''SharedNoiseModel'' None [
    Method 232 True (Some (by_value ''gtsam'' ''SharedNoiseModel'')) ''sharedSigmas''
      [Param (plain ''Vector'') ''sigmas''] False,
    Method 233 True (Some (by_value ''gtsam'' ''SharedNoiseModel'')) ''sharedSigma''
      [Param (plain ''size_t'') ''dim'', Param (plain ''double'') ''sigma''] False,
    Method 234 True (Some (by_value ''gtsam'' ''SharedNoiseModel'')) ''sharedPrecisions''
      [Param (plain ''Vector'') ''precisions''] False,
    Method 235 True (Some (by_value ''gtsam'' ''SharedNoiseModel'')) ''sharedPrecision''
      [Param (plain ''size_t'') ''dim'', Param (plain ''double'') ''precision''] False,
    Method 236 True (Some (by_value ''gtsam'' ''SharedNoiseModel'')) ''sharedUnit''
      [Param (plain ''size_t'') ''dim''] False,
    Method 237 True (Some (by_value ''gtsam'' ''SharedNoiseModel'')) ''sharedSqrtInformation''
      [Param (plain ''Matrix'') ''R''] False,
    Method 238 True (Some (by_value ''gtsam'' ''SharedNoiseModel'')) ''sharedCovariance''
      [Param (plain ''Matrix'') ''covariance''] False,
    Method 239 False None ''print'' [Param (plain ''string'') ''s''] True]"

text \<open>Class gtsam::VectorValues (line 242 of gtsam.h).\<close>
definition class_gtsam_VectorValues :: decl where
  "class_gtsam_VectorValues = Class 242 ''VectorValues'' None [
    Constructor 243 [],
    Constructor 244 [Param (plain ''int'') ''nVars'', Param (plain ''int'') ''varDim''],
    Method 245 False None ''print'' [Param (plain ''string'') ''s''] True,
    Method 246 False (Some (plain ''bool'')) ''equals''
      [Param (const_ref ''gtsam'' ''VectorValues'') ''expected'',
      Param (plain ''double'') ''tol''] True,
    Method 247 False (Some (plain ''int'')) ''size'' [] True,
    Method 248 False None ''insert'' [Param (plain ''int'') ''j'',
      Param (plain ''Vector'') ''value''] False]"

text \<open>Class gtsam::GaussianConditional (line 251 of gtsam.h).\<close>
definition class_gtsam_GaussianConditional :: decl where
  "class_gtsam_GaussianConditional = Class 251 ''GaussianConditional'' None [
    Constructor 252 [Param (plain ''int'') ''key'', Param (plain ''Vector'') ''d'',
      Param (plain ''Matrix'') ''R'', Param (plain ''Vector'') ''sigmas''],
    Constructor 253 [Param (plain ''int'') ''key'', Param (plain ''Vector'') ''d'',
      Param (plain ''Matrix'') ''R'', Param (plain ''int'') ''name1'',
      Param (plain ''Matrix'') ''S'', Param (plain ''Vector'') ''sigmas''],
    Constructor 255 [Param (plain ''int'') ''key'', Param (plain ''Vector'') ''d'',
      Param (plain ''Matrix'') ''R'', Param (plain ''int'') ''name1'',
      Param (plain ''Matrix'') ''S'', Param (plain ''int'') ''name2'',
      Param (plain ''Matrix'') ''T'', Param (plain ''Vector'') ''sigmas''],
    Method 257 False None ''print'' [Param (plain ''string'') ''s''] True,
    Method 258 False (Some (plain ''bool'')) ''equals''
      [Param (const_ref ''gtsam'' ''GaussianConditional'') ''cg'',
      Param (plain ''double'') ''tol''] True]"

text \<open>Class gtsam::GaussianDensity (line 261 of gtsam.h).\<close>
definition class_gtsam_GaussianDensity :: decl where
  "class_gtsam_GaussianDensity = Class 261 ''GaussianDensity'' None [
    Constructor 262 [Param (plain ''int'') ''key'', Param (plain ''Vector'') ''d'',
      Param (plain ''Matrix'') ''R'', Param (plain ''Vector'') ''sigmas''],
    Method 263 False None ''print'' [Param (plain ''string'') ''s''] True,
    Method 264 False (Some (plain ''Vector'')) ''mean'' [] True,
    Method 265 False (Some (plain ''Matrix'')) ''information'' [] True,
    Method 266 False (Some (plain ''Matrix'')) ''covariance'' [] True]"

text \<open>Class gtsam::GaussianBayesNet (line 269 of gtsam.h).\<close>
definition class_gtsam_GaussianBayesNet :: decl where
  "class_gtsam_GaussianBayesNet = Class 269 ''GaussianBayesNet'' None [
    Constructor 270 [],
    Method 271 False None ''print'' [Param (plain ''string'') ''s''] True,
    Method 272 False (Some (plain ''bool'')) ''equals''
      [Param (const_ref ''gtsam'' ''GaussianBayesNet'') ''cbn'',
      Param (plain ''double'') ''tol''] True,
    Method 273 False None ''push_back''
      [Param (shared ''gtsam'' ''GaussianConditional'') ''conditional''] False,
    Method 274 False None ''push_front''
      [Param (shared ''gtsam'' ''GaussianConditional'') ''conditional''] False]"

text \<open>Class gtsam::GaussianFactor (line 277 of gtsam.h).\<close>
definition class_gtsam_GaussianFactor :: decl where
  "class_gtsam_GaussianFactor = Class 277 ''GaussianFactor'' None [
    Method 278 False None ''print'' [Param (plain ''string'') ''s''] True,
    Method 279 False (Some (plain ''bool'')) ''equals''
      [Param (const_ref ''gtsam'' ''GaussianFactor'') ''lf'',
      Param (plain ''double'') ''tol''] True,
    Method 280 False (Some (plain ''double'')) ''error''
      [Param (const_ref ''gtsam'' ''VectorValues'') ''c''] True]"

text \<open>Class gtsam::JacobianFactor (line 283 of gtsam.h).\<close>
definition class_gtsam_JacobianFactor :: decl where
  "class_gtsam_JacobianFactor = Class 283 ''JacobianFactor'' None [
    Constructor 284 [],
    Constructor 285 [Param (plain ''Vector'') ''b_in''],
    Constructor 286 [Param (plain ''int'') ''i1'', Param (plain ''Matrix'') ''A1'',
      Param (plain ''Vector'') ''b'', Param (const_ref ''gtsam'' ''SharedDiagonal'') ''model''],
    Constructor 287 [Param (plain ''int'') ''i1'', Param (plain ''Matrix'') ''A1'',
      Param (plain ''int'') ''i2'', Param (plain ''Matrix'') ''A2'',
      Param (plain ''Vector'') ''b'', Param (const_ref ''gtsam'' ''SharedDiagonal'') ''model''],
    Constructor 289 [Param (plain ''int'') ''i1'', Param (plain ''Matrix'') ''A1'',
      Param (plain ''int'') ''i2'', Param (plain ''Matrix'') ''A2'',
      Param (plain ''int'') ''i3'', Param (plain ''Matrix'') ''A3'',
      Param (plain ''Vector'') ''b'', Param (const_ref ''gtsam'' ''SharedDiagonal'') ''model''],
    Method 291 False None ''print'' [Param (plain ''string'') ''s''] True,
    Method 292 False (Some (plain ''bool'')) ''equals''
      [Param (const_ref ''gtsam'' ''GaussianFactor'') ''lf'',
      Param (plain ''double'') ''tol''] True,
    Method 293 False (Some (plain ''bool'')) ''empty'' [] True,
    Method 294 False (Some (plain ''Vector'')) ''getb'' [] True,
    Method 295 False (Some (plain ''double'')) ''error''
      [Param (const_ref ''gtsam'' ''VectorValues'') ''c''] True,
    Method 296 False (Some (shared ''gtsam'' ''GaussianConditional'')) ''eliminateFirst'' [] False]"

text \<open>Class gtsam::HessianFactor (line 299 of gtsam.h).\<close>
definition class_gtsam_HessianFactor :: decl where
  "class_gtsam_HessianFactor = Class 299 ''HessianFactor'' None [
    Constructor 300 [Param (const_ref ''gtsam'' ''HessianFactor'') ''gf''],
    Constructor 301 [],
    Constructor 302 [Param (plain ''int'') ''j'', Param (plain ''Matrix'') ''G'',
      Param (plain ''Vector'') ''g'', Param (plain ''double'') ''f''],
    Constructor 303 [Param (plain ''int'') ''j'', Param (plain ''Vector'') ''mu'',
      Param (plain ''Matrix'') ''Sigma''],
    Constructor 304 [Param (plain ''int'') ''j1'', Param (plain ''int'') ''j2'',
      Param (plain ''Matrix'') ''G11'', Param (plain ''Matrix'') ''G12'',
      Param (plain ''Vector'') ''g1'', Param (plain ''Matrix'') ''G22'',
      Param (plain ''Vector'') ''g2'', Param (plain ''double'') ''f''],
    Constructor 306 [Param (plain ''int'') ''j1'', Param (plain ''int'') ''j2'',
      Param (plain ''int'') ''j3'', Param (plain ''Matrix'') ''G11'',
      Param (plain ''Matrix'') ''G12'', Param (plain ''Matrix'') ''G13'',
      Param (plain ''Vector'') ''g1'', Param (plain ''Matrix'') ''G22'',
      Param (plain ''Matrix'') ''G23'', Param (plain ''Vector'') ''g2'',
      Param (plain ''Matrix'') ''G33'', Param (plain ''Vector'') ''g3'',
      Param (plain ''double'') ''f''],
    Constructor 309 [Param (const_ref ''gtsam'' ''GaussianConditional'') ''cg''],
    Constructor 310 [Param (const_ref ''gtsam'' ''GaussianFactor'') ''factor''],
    Method 311 False None ''print'' [Param (plain ''string'') ''s''] True,
    Method 312 False (Some (plain ''bool'')) ''equals''
      [Param (const_ref ''gtsam'' ''GaussianFactor'') ''lf'',
      Param (plain ''double'') ''tol''] True,
    Method 313 False (Some (plain ''double'')) ''error''
      [Param (const_ref ''gtsam'' ''VectorValues'') ''c''] True]"

text \<open>Class gtsam::GaussianFactorGraph (line 316 of gtsam.h).\<close>
definition class_gtsam_GaussianFactorGraph :: decl where
  "class_gtsam_GaussianFactorGraph = Class 316 ''GaussianFactorGraph'' None [
    Constructor 317 [],
    Constructor 318 [Param (const_ref ''gtsam'' ''GaussianBayesNet'') ''CBN''],
    Method 321 False None ''push_back''
      [Param (shared ''gtsam'' ''GaussianFactor'') ''factor''] False,
    Method 322 False None ''print'' [Param (plain ''string'') ''s''] True,
    Method 323 False (Some (plain ''bool'')) ''equals''
      [Param (const_ref ''gtsam'' ''GaussianFactorGraph'') ''lfgraph'',
      Param (plain ''double'') ''tol''] True,
    Method 324 False (Some (plain ''int'')) ''size'' [] True,
    Method 327 False None ''add'' [Param (shared ''gtsam'' ''JacobianFactor'') ''factor''] False,
    Method 328 False None ''add'' [Param (plain ''Vector'') ''b''] False,
    Method 329 False None ''add'' [Param (plain ''int'') ''key1'',
      Param (plain ''Matrix'') ''A1'', Param (plain ''Vector'') ''b'',
      Param (const_ref ''gtsam'' ''SharedDiagonal'') ''model''] False,
    Method 330 False None ''add'' [Param (plain ''int'') ''key1'',
      Param (plain ''Matrix'') ''A1'', Param (plain ''int'') ''key2'',
      Param (plain ''Matrix'') ''A2'', Param (plain ''Vector'') ''b'',
      Param (const_ref ''gtsam'' ''SharedDiagonal'') ''model''] False,
    Method 332 False None ''add'' [Param (plain ''int'') ''key1'',
      Param (plain ''Matrix'') ''A1'', Param (plain ''int'') ''key2'',
      Param (plain ''Matrix'') ''A2'', Param (plain ''int'') ''key3'',
      Param (plain ''Matrix'') ''A3'', Param (plain ''Vector'') ''b'',
      Param (const_ref ''gtsam'' ''SharedDiagonal'') ''model''] False,
    Method 334 False None ''add'' [Param (shared ''gtsam'' ''HessianFactor'') ''factor''] False,
    Method 337 False (Some (plain ''double'')) ''error''
      [Param (const_ref ''gtsam'' ''VectorValues'') ''c''] True,
    Method 338 False (Some (plain ''double'')) ''probPrime''
      [Param (const_ref ''gtsam'' ''VectorValues'') ''c''] True,
    Method 341 True (Some (by_value ''gtsam'' ''GaussianFactorGraph'')) ''combine2''
      [Param (const_ref ''gtsam'' ''GaussianFactorGraph'') ''lfg1'',
      Param (const_ref ''gtsam'' ''GaussianFactorGraph'') ''lfg2''] False,
    Method 343 False None ''combine''
      [Param (const_ref ''gtsam'' ''GaussianFactorGraph'') ''lfg''] False,
    Method 346 False (Some (plain ''Matrix'')) ''sparseJacobian_'' [] True,
    Method 347 False (Some (plain ''Matrix'')) ''denseJacobian'' [] True,
    Method 348 False (Some (plain ''Matrix'')) ''denseHessian'' [] True]"

text \<open>Class gtsam::GaussianSequentialSolver (line 351 of gtsam.h).\<close>
definition class_gtsam_GaussianSequentialSolver :: decl where
  "class_gtsam_GaussianSequentialSolver = Class 351 ''GaussianSequentialSolver'' None [
    Constructor 352 [Param (const_ref ''gtsam'' ''GaussianFactorGraph'') ''graph'',
      Param (plain ''bool'') ''useQR''],
    Method 353 False (Some (shared ''gtsam'' ''GaussianBayesNet'')) ''eliminate'' [] True,
    Method 354 False (Some (shared ''gtsam'' ''VectorValues'')) ''optimize'' [] True,
    Method 355 False (Some (shared ''gtsam'' ''GaussianFactor'')) ''marginalFactor''
      [Param (plain ''int'') ''j''] True,
    Method 356 False (Some (plain ''Matrix'')) ''marginalCovariance''
      [Param (plain ''int'') ''j''] True]"

text \<open>Class gtsam::KalmanFilter (line 359 of gtsam.h).\<close>
definition class_gtsam_KalmanFilter :: decl where
  "class_gtsam_KalmanFilter = Class 359 ''KalmanFilter'' None [
    Constructor 360 [Param (plain ''size_t'') ''n''],
    Method 361 False (Some (shared ''gtsam'' ''GaussianDensity'')) ''init''
      [Param (plain ''Vector'') ''x0'',
      Param (const_ref ''gtsam'' ''SharedDiagonal'') ''P0''] False,
    Method 362 False (Some (shared ''gtsam'' ''GaussianDensity'')) ''init''
      [Param (plain ''Vector'') ''x0'', Param (plain ''Matrix'') ''P0''] False,
    Method 363 False None ''print'' [Param (plain ''string'') ''s''] True,
    Method 364 True (Some (plain ''int'')) ''step''
      [Param (shared ''gtsam'' ''GaussianDensity'') ''p''] False,
    Method 365 False (Some (shared ''gtsam'' ''GaussianDensity'')) ''predict''
      [Param (shared ''gtsam'' ''GaussianDensity'') ''p'', Param (plain ''Matrix'') ''F'',
      Param (plain ''Matrix'') ''B'', Param (plain ''Vector'') ''u'',
      Param (const_ref ''gtsam'' ''SharedDiagonal'') ''modelQ''] False,
    Method 367 False (Some (shared ''gtsam'' ''GaussianDensity'')) ''predictQ''
      [Param (shared ''gtsam'' ''GaussianDensity'') ''p'', Param (plain ''Matrix'') ''F'',
      Param (plain ''Matrix'') ''B'', Param (plain ''Vector'') ''u'',
      Param (plain ''Matrix'') ''Q''] False,
    Method 369 False (Some (shared ''gtsam'' ''GaussianDensity'')) ''predict2''
      [Param (shared ''gtsam'' ''GaussianDensity'') ''p'', Param (plain ''Matrix'') ''A0'',
      Param (plain ''Matrix'') ''A1'', Param (plain ''Vector'') ''b'',
      Param (const_ref ''gtsam'' ''SharedDiagonal'') ''model''] False,
    Method 371 False (Some (shared ''gtsam'' ''GaussianDensity'')) ''update''
      [Param (shared ''gtsam'' ''GaussianDensity'') ''p'', Param (plain ''Matrix'') ''H'',
      Param (plain ''Vector'') ''z'',
      Param (const_ref ''gtsam'' ''SharedDiagonal'') ''model''] False,
    Method 373 False (Some (shared ''gtsam'' ''GaussianDensity'')) ''updateQ''
      [Param (shared ''gtsam'' ''GaussianDensity'') ''p'', Param (plain ''Matrix'') ''H'',
      Param (plain ''Vector'') ''z'', Param (plain ''Matrix'') ''Q''] False]"

text \<open>Class gtsam::Ordering (line 381 of gtsam.h).\<close>
definition class_gtsam_Ordering :: decl where
  "class_gtsam_Ordering = Class 381 ''Ordering'' None [
    Constructor 382 [],
    Method 383 False None ''print'' [Param (plain ''string'') ''s''] True,
    Method 384 False (Some (plain ''bool'')) ''equals''
      [Param (const_ref ''gtsam'' ''Ordering'') ''ord'', Param (plain ''double'') ''tol''] True,
    Method 385 False None ''push_back'' [Param (plain ''string'') ''key''] False]"

text \<open>Class gtsam::NonlinearOptimizationParameters (line 388 of gtsam.h).\<close>
definition class_gtsam_NonlinearOptimizationParameters :: decl where
  "class_gtsam_NonlinearOptimizationParameters = Class 388 ''NonlinearOptimizationParameters'' None [
    Constructor 389 [Param (plain ''double'') ''absDecrease'',
      Param (plain ''double'') ''relDecrease'', Param (plain ''double'') ''sumError'',
      Param (plain ''int'') ''iIters'', Param (plain ''double'') ''lambda'',
      Param (plain ''double'') ''lambdaFactor''],
    Method 391 False None ''print'' [Param (plain ''string'') ''s''] True,
    Method 392 True (Some (shared ''gtsam'' ''NonlinearOptimizationParameters'')) ''newDrecreaseThresholds''
      [Param (plain ''double'') ''absDecrease'', Param (plain ''double'') ''relDecrease''] False]"

text \<open>Class planarSLAM::Values (line 406 of gtsam.h).\<close>
definition class_planarSLAM_Values :: decl where
  "class_planarSLAM_Values = Class 406 ''Values'' None [
    Constructor 407 [],
    Method 408 False None ''print'' [Param (plain ''string'') ''s''] True,
    Method 409 False (Some (by_value ''gtsam'' ''Pose2'')) ''pose''
      [Param (plain ''int'') ''key''] True,
    Method 410 False (Some (by_value ''gtsam'' ''Point2'')) ''point''
      [Param (plain ''int'') ''key''] True,
    Method 411 False None ''insertPose'' [Param (plain ''int'') ''key'',
      Param (const_ref ''gtsam'' ''Pose2'') ''pose''] False,
    Method 412 False None ''insertPoint'' [Param (plain ''int'') ''key'',
      Param (const_ref ''gtsam'' ''Point2'') ''point''] False]"

text \<open>Class planarSLAM::Graph (line 415 of gtsam.h).\<close>
definition class_planarSLAM_Graph :: decl where
  "class_planarSLAM_Graph = Class 415 ''Graph'' None [
    Constructor 416 [],
    Method 418 False None ''print'' [Param (plain ''string'') ''s''] True,
    Method 420 False (Some (plain ''double'')) ''error''
      [Param (const_ref ''planarSLAM'' ''Values'') ''values''] True,
    Method 421 False (Some (shared ''gtsam'' ''Ordering'')) ''orderingCOLAMD''
      [Param (const_ref ''planarSLAM'' ''Values'') ''values''] True,
    Method 422 False (Some (shared ''gtsam'' ''GaussianFactorGraph'')) ''linearize''
      [Param (const_ref ''planarSLAM'' ''Values'') ''values'',
      Param (const_ref ''gtsam'' ''Ordering'') ''ordering''] True,
    Method 425 False None ''addPrior'' [Param (plain ''int'') ''key'',
      Param (const_ref ''gtsam'' ''Pose2'') ''pose'',
      Param (const_ref ''gtsam'' ''SharedNoiseModel'') ''noiseModel''] False,
    Method 426 False None ''addPoseConstraint'' [Param (plain ''int'') ''key'',
      Param (const_ref ''gtsam'' ''Pose2'') ''pose''] False,
    Method 427 False None ''addOdometry'' [Param (plain ''int'') ''key1'',
      Param (plain ''int'') ''key2'', Param (const_ref ''gtsam'' ''Pose2'') ''odometry'',
      Param (const_ref ''gtsam'' ''SharedNoiseModel'') ''noiseModel''] False,
    Method 428 False None ''addBearing'' [Param (plain ''int'') ''poseKey'',
      Param (plain ''int'') ''pointKey'', Param (const_ref ''gtsam'' ''Rot2'') ''bearing'',
      Param (const_ref ''gtsam'' ''SharedNoiseModel'') ''noiseModel''] False,
    Method 429 False None ''addRange'' [Param (plain ''int'') ''poseKey'',
      Param (plain ''int'') ''pointKey'', Param (plain ''double'') ''range'',
      Param (const_ref ''gtsam'' ''SharedNoiseModel'') ''noiseModel''] False,
    Method 430 False None ''addBearingRange'' [Param (plain ''int'') ''poseKey'',
      Param (plain ''int'') ''pointKey'', Param (const_ref ''gtsam'' ''Rot2'') ''bearing'',
      Param (plain ''double'') ''range'',
      Param (const_ref ''gtsam'' ''SharedNoiseModel'') ''noiseModel''] False,
    Method 432 False (Some (by_value ''planarSLAM'' ''Values'')) ''optimize''
      [Param (const_ref ''planarSLAM'' ''Values'') ''initialEstimate''] False]"

text \<open>Class planarSLAM::Odometry (line 435 of gtsam.h).\<close>
definition class_planarSLAM_Odometry :: decl where
  "class_planarSLAM_Odometry = Class 435 ''Odometry'' None [
    Constructor 436 [Param (plain ''int'') ''key1'', Param (plain ''int'') ''key2'',
      Param (const_ref ''gtsam'' ''Pose2'') ''measured'',
      Param (const_ref ''gtsam'' ''SharedNoiseModel'') ''model''],
    Method 438 False None ''print'' [Param (plain ''string'') ''s''] True,
    Method 439 False (Some (shared ''gtsam'' ''GaussianFactor'')) ''linearize''
      [Param (const_ref ''planarSLAM'' ''Values'') ''center'',
      Param (const_ref ''gtsam'' ''Ordering'') ''ordering''] True]"

text \<open>Class planarSLAM::Optimizer (line 442 of gtsam.h).\<close>
definition class_planarSLAM_Optimizer :: decl where
  "class_planarSLAM_Optimizer = Class 442 ''Optimizer'' None [
    Constructor 443 [Param (shared ''planarSLAM'' ''Graph'') ''graph'',
      Param (shared ''planarSLAM'' ''Values'') ''values'',
      Param (shared ''gtsam'' ''Ordering'') ''ordering'',
      Param (shared ''gtsam'' ''NonlinearOptimizationParameters'') ''parameters''],
    Method 445 False None ''print'' [Param (plain ''string'') ''s''] True]"

text \<open>Class pose2SLAM::Values (line 457 of gtsam.h).\<close>
definition class_pose2SLAM_Values :: decl where
  "class_pose2SLAM_Values = Class 457 ''Values'' None [
    Constructor 458 [],
    Method 459 False None ''print'' [Param (plain ''string'') ''s''] True,
    Method 460 False None ''insertPose'' [Param (plain ''int'') ''key'',
      Param (const_ref ''gtsam'' ''Pose2'') ''pose''] False,
    Method 461 False (Some (by_value ''gtsam'' ''Pose2'')) ''pose''
      [Param (plain ''int'') ''i''] False]"

text \<open>Class pose2SLAM::Graph (line 464 of gtsam.h).\<close>
definition class_pose2SLAM_Graph :: decl where
  "class_pose2SLAM_Graph = Class 464 ''Graph'' None [
    Constructor 465 [],
    Method 467 False None ''print'' [Param (plain ''string'') ''s''] True,
    Method 469 False (Some (plain ''double'')) ''error''
      [Param (const_ref ''pose2SLAM'' ''Values'') ''values''] True,
    Method 470 False (Some (shared ''gtsam'' ''Ordering'')) ''orderingCOLAMD''
      [Param (const_ref ''pose2SLAM'' ''Values'') ''values''] True,
    Method 471 False (Some (shared ''gtsam'' ''GaussianFactorGraph'')) ''linearize''
      [Param (const_ref ''pose2SLAM'' ''Values'') ''values'',
      Param (const_ref ''gtsam'' ''Ordering'') ''ordering''] True,
    Method 474 False None ''addPrior'' [Param (plain ''int'') ''key'',
      Param (const_ref ''gtsam'' ''Pose2'') ''pose'',
      Param (const_ref ''gtsam'' ''SharedNoiseModel'') ''noiseModel''] False,
    Method 475 False None ''addPoseConstraint'' [Param (plain ''int'') ''key'',
      Param (const_ref ''gtsam'' ''Pose2'') ''pose''] False,
    Method 476 False None ''addOdometry'' [Param (plain ''int'') ''key1'',
      Param (plain ''int'') ''key2'', Param (const_ref ''gtsam'' ''Pose2'') ''odometry'',
      Param (const_ref ''gtsam'' ''SharedNoiseModel'') ''noiseModel''] False,
    Method 477 False (Some (by_value ''pose2SLAM'' ''Values'')) ''optimize''
      [Param (const_ref ''pose2SLAM'' ''Values'') ''initialEstimate''] False]"

text \<open>Class pose2SLAM::Optimizer (line 480 of gtsam.h).\<close>
definition class_pose2SLAM_Optimizer :: decl where
  "class_pose2SLAM_Optimizer = Class 480 ''Optimizer'' None [
    Constructor 481 [Param (shared ''pose2SLAM'' ''Graph'') ''graph'',
      Param (shared ''pose2SLAM'' ''Values'') ''values'',
      Param (shared ''gtsam'' ''Ordering'') ''ordering'',
      Param (shared ''gtsam'' ''NonlinearOptimizationParameters'') ''parameters''],
    Method 483 False None ''print'' [Param (plain ''string'') ''s''] True]"

text \<open>Class simulated2D::Values (line 495 of gtsam.h).\<close>
definition class_simulated2D_Values :: decl where
  "class_simulated2D_Values = Class 495 ''Values'' None [
    Constructor 496 [],
    Method 497 False None ''insertPose'' [Param (plain ''int'') ''i'',
      Param (const_ref ''gtsam'' ''Point2'') ''p''] False,
    Method 498 False None ''insertPoint'' [Param (plain ''int'') ''j'',
      Param (const_ref ''gtsam'' ''Point2'') ''p''] False,
    Method 499 False (Some (plain ''int'')) ''nrPoses'' [] True,
    Method 500 False (Some (plain ''int'')) ''nrPoints'' [] True,
    Method 501 False (Some (by_value ''gtsam'' ''Point2'')) ''pose''
      [Param (plain ''int'') ''i''] False,
    Method 502 False (Some (by_value ''gtsam'' ''Point2'')) ''point''
      [Param (plain ''int'') ''j''] False]"

text \<open>Class simulated2D::Graph (line 505 of gtsam.h).\<close>
definition class_simulated2D_Graph :: decl where
  "class_simulated2D_Graph = Class 505 ''Graph'' None [
    Constructor 506 []]"

text \<open>Class simulated2DOriented::Values (line 517 of gtsam.h).\<close>
definition class_simulated2DOriented_Values :: decl where
  "class_simulated2DOriented_Values = Class 517 ''Values'' None [
    Constructor 518 [],
    Method 519 False None ''insertPose'' [Param (plain ''int'') ''i'',
      Param (const_ref ''gtsam'' ''Pose2'') ''p''] False,
    Method 520 False None ''insertPoint'' [Param (plain ''int'') ''j'',
      Param (const_ref ''gtsam'' ''Point2'') ''p''] False,
    Method 521 False (Some (plain ''int'')) ''nrPoses'' [] True,
    Method 522 False (Some (plain ''int'')) ''nrPoints'' [] True,
    Method 523 False (Some (by_value ''gtsam'' ''Pose2'')) ''pose''
      [Param (plain ''int'') ''i''] False,
    Method 524 False (Some (by_value ''gtsam'' ''Point2'')) ''point''
      [Param (plain ''int'') ''j''] False]"

text \<open>Class simulated2DOriented::Graph (line 527 of gtsam.h).\<close>
definition class_simulated2DOriented_Graph :: decl where
  "class_simulated2DOriented_Graph = Class 527 ''Graph'' None [
    Constructor 528 []]"

text \<open>The declarations of gtsam.h: five namespaces and their classes.\<close>
definition gtsam_doc :: "decl list" where
  "gtsam_doc = [
    Namespace 60 ''gtsam'' None
      [class_gtsam_Point2,
       class_gtsam_Point3,
       class_gtsam_Rot2,
       class_gtsam_Rot3,
       class_gtsam_Pose2,
       class_gtsam_Pose3,
       class_gtsam_SharedGaussian,
       class_gtsam_SharedDiagonal,
       class_gtsam_SharedNoiseModel,
       class_gtsam_VectorValues,
       class_gtsam_GaussianConditional,
       class_gtsam_GaussianDensity,
       class_gtsam_GaussianBayesNet,
       class_gtsam_GaussianFactor,
       class_gtsam_JacobianFactor,
       class_gtsam_HessianFactor,
       class_gtsam_GaussianFactorGraph,
       class_gtsam_GaussianSequentialSolver,
       class_gtsam_KalmanFilter,
       class_gtsam_Ordering,
       class_gtsam_NonlinearOptimizationParameters]
      (Some ''gtsam''),
    Namespace 404 ''planarSLAM'' (Some ''gtsam/slam/planarSLAM.h'')
      [class_planarSLAM_Values,
       class_planarSLAM_Graph,
       class_planarSLAM_Odometry,
       class_planarSLAM_Optimizer]
      (Some ''planarSLAM''),
    Namespace 455 ''pose2SLAM'' (Some ''gtsam/slam/pose2SLAM.h'')
      [class_pose2SLAM_Values,
       class_pose2SLAM_Graph,
       class_pose2SLAM_Optimizer]
      (Some ''pose2SLAM''),
    Namespace 493 ''simulated2D'' (Some ''gtsam/slam/simulated2D.h'')
      [class_simulated2D_Values,
       class_simulated2D_Graph]
      (Some ''simulated2D''),
    Namespace 515 ''simulated2DOriented'' (Some ''gtsam/slam/simulated2DOriented.h'')
      [class_simulated2DOriented_Values,
       class_simulated2DOriented_Graph]
      (Some ''simulated2DOriented'')]"

section \<open>Evaluation inside the logic\<close>

text \<open>The kind of every character that occurs in gtsam.h, computed once.\<close>

lemma char_kind_eval:
  "char_kind CHR 0x09 = Blank" "char_kind CHR '' '' = Blank" "char_kind CHR ''!'' = Symbol"
  "char_kind CHR 0x22 = Symbol" "char_kind CHR ''#'' = Symbol" "char_kind CHR ''$'' = Symbol"
  "char_kind CHR ''%'' = Symbol" "char_kind CHR ''&'' = Symbol" "char_kind CHR 0x27 = Symbol"
  "char_kind CHR ''('' = Symbol" "char_kind CHR '')'' = Symbol" "char_kind CHR ''*'' = Symbol"
  "char_kind CHR ''+'' = Symbol" "char_kind CHR '','' = Symbol" "char_kind CHR ''-'' = Symbol"
  "char_kind CHR ''.'' = Symbol" "char_kind CHR ''/'' = Symbol" "char_kind CHR ''0'' = Digit"
  "char_kind CHR ''1'' = Digit" "char_kind CHR ''2'' = Digit" "char_kind CHR ''3'' = Digit"
  "char_kind CHR ''4'' = Digit" "char_kind CHR ''5'' = Digit" "char_kind CHR ''6'' = Digit"
  "char_kind CHR ''7'' = Digit" "char_kind CHR ''8'' = Digit" "char_kind CHR ''9'' = Digit"
  "char_kind CHR '':'' = Symbol" "char_kind CHR '';'' = Symbol" "char_kind CHR ''<'' = Symbol"
  "char_kind CHR ''='' = Symbol" "char_kind CHR ''>'' = Symbol" "char_kind CHR ''?'' = Symbol"
  "char_kind CHR ''@'' = Symbol" "char_kind CHR ''A'' = Upper" "char_kind CHR ''B'' = Upper"
  "char_kind CHR ''C'' = Upper" "char_kind CHR ''D'' = Upper" "char_kind CHR ''E'' = Upper"
  "char_kind CHR ''F'' = Upper" "char_kind CHR ''G'' = Upper" "char_kind CHR ''H'' = Upper"
  "char_kind CHR ''I'' = Upper" "char_kind CHR ''J'' = Upper" "char_kind CHR ''K'' = Upper"
  "char_kind CHR ''L'' = Upper" "char_kind CHR ''M'' = Upper" "char_kind CHR ''N'' = Upper"
  "char_kind CHR ''O'' = Upper" "char_kind CHR ''P'' = Upper" "char_kind CHR ''Q'' = Upper"
  "char_kind CHR ''R'' = Upper" "char_kind CHR ''S'' = Upper" "char_kind CHR ''T'' = Upper"
  "char_kind CHR ''U'' = Upper" "char_kind CHR ''V'' = Upper" "char_kind CHR ''W'' = Upper"
  "char_kind CHR ''X'' = Upper" "char_kind CHR ''Y'' = Upper" "char_kind CHR ''Z'' = Upper"
  "char_kind CHR ''['' = Symbol" "char_kind CHR 0x5C = Symbol" "char_kind CHR '']'' = Symbol"
  "char_kind CHR ''^'' = Symbol" "char_kind CHR ''_'' = Underscore"
  "char_kind CHR ''`'' = Symbol" "char_kind CHR ''a'' = Lower" "char_kind CHR ''b'' = Lower"
  "char_kind CHR ''c'' = Lower" "char_kind CHR ''d'' = Lower" "char_kind CHR ''e'' = Lower"
  "char_kind CHR ''f'' = Lower" "char_kind CHR ''g'' = Lower" "char_kind CHR ''h'' = Lower"
  "char_kind CHR ''i'' = Lower" "char_kind CHR ''j'' = Lower" "char_kind CHR ''k'' = Lower"
  "char_kind CHR ''l'' = Lower" "char_kind CHR ''m'' = Lower" "char_kind CHR ''n'' = Lower"
  "char_kind CHR ''o'' = Lower" "char_kind CHR ''p'' = Lower" "char_kind CHR ''q'' = Lower"
  "char_kind CHR ''r'' = Lower" "char_kind CHR ''s'' = Lower" "char_kind CHR ''t'' = Lower"
  "char_kind CHR ''u'' = Lower" "char_kind CHR ''v'' = Lower" "char_kind CHR ''w'' = Lower"
  "char_kind CHR ''x'' = Lower" "char_kind CHR ''y'' = Lower" "char_kind CHR ''z'' = Lower"
  "char_kind CHR ''{'' = Symbol" "char_kind CHR ''|'' = Symbol" "char_kind CHR ''}'' = Symbol"
  "char_kind CHR ''~'' = Symbol"
  by (simp_all add: char_kind_def)

lemmas eval_congs = if_weak_cong option.case_cong_weak prod.case_cong_weak list.case_cong_weak
  sum.case_cong_weak token.case_cong_weak char_kind.case_cong_weak frame.case_cong_weak

lemmas eval_basics = simp_thms if_True if_False option.case prod.case list.case sum.case
  fst_conv snd_conv append.simps list.map takeWhile.simps dropWhile.simps list.inject
  list.distinct char.inject option.inject option.distinct token.case token.inject token.distinct
  char_kind.case char_kind.distinct list.sel prod.inject
  numeral_plus_one add_num_simps one_add_one rev.simps concat.simps o_apply last.simps
  Nat.le0 numeral_le_iff le_num_simps less_num_simps not_numeral_le_zero option.map

lemmas lex_eval = ns_close_marker_def strip_prefix.simps emit.simps strip_line.simps
  strip_lines.simps char_kind_eval is_letter_def is_digit_def is_word_char_def is_space_def
  not_quote_def word_token_def marker_name_def after_marker_name_def tokens_of_line.simps
  tokenize_lines.simps

lemmas parse_eval = show_token_def found_at_def reserved_def
  starts_lower_def starts_upper_def is_punct_def not_punct_def parse_qualified.simps
  parse_pointer.simps parse_reference.simps push_token.simps in_path_def token_text_def
  parse_type_name.simps parse_type.simps parse_param_def split_at.simps split_after.simps
  parse_each_param.simps parse_params_def parse_signature_def void_type_def type_expr.inject
  parse_method_def parse_member_def opens_paren_def parse_members.simps parse_include_def
  parse_class_body_def parse_class_def open_namespace_def close_namespace_def start_include_def
  parse_step_def parse_decls.simps pstate.sel list.set insert_iff empty_iff frame.case


section \<open>Lexing and parsing gtsam.h\<close>

subsection \<open>Lines and blocks of lines\<close>

definition single_line :: "string \<Rightarrow> bool" where
  "single_line l = (newline \<notin> set l)"

lemma split_lines_nonempty: "split_lines s \<noteq> []"
  by (induction s) (auto split: list.splits elim: push_char.elims)

lemma split_lines_line: "single_line l \<Longrightarrow> split_lines l = [l]"
  by (induction l) (auto simp: single_line_def)

lemma split_lines_append:
  "single_line l \<Longrightarrow> split_lines (l @ newline # s) = l # split_lines s"
proof (induction l)
  case Nil
  then show ?case by simp
next
  case (Cons c l)
  then show ?case by (auto simp: single_line_def)
qed

lemma split_join_lines:
  "ls \<noteq> [] \<Longrightarrow> list_all single_line ls \<Longrightarrow> split_lines (join_lines ls) = ls"
proof (induction ls rule: join_lines.induct)
  case 1
  then show ?case by simp
next
  case (2 l)
  then show ?case by (simp add: split_lines_line)
next
  case (3 l l' ls)
  then show ?case by (simp add: split_lines_append)
qed

lemma strip_lines_append:
  "strip_lines m (a @ b) =
     (case strip_lines m a of (m', a') \<Rightarrow>
        (case strip_lines m' b of (m'', b') \<Rightarrow> (m'', a' @ b')))"
  by (induction a arbitrary: m) (auto split: prod.splits)

lemma strip_lines_length: "strip_lines m ls = (m', ls') \<Longrightarrow> length ls' = length ls"
  by (induction ls arbitrary: m ls') (auto split: prod.splits)

lemma length_strip_lines: "length (snd (strip_lines m ls)) = length ls"
  using strip_lines_length [of m ls] by (cases "strip_lines m ls") simp

lemma tokenize_lines_append:
  "tokenize_lines n (xs @ ys) = tokenize_lines n xs @ tokenize_lines (n + length xs) ys"
  by (induction xs arbitrary: n) (auto simp: add.commute add.left_commute)

lemma mode_append:
  "fst (strip_lines Code a) = Code \<Longrightarrow> fst (strip_lines Code (a @ b)) = fst (strip_lines Code b)"
  by (auto simp: strip_lines_append split: prod.splits)

lemma lex_lines_append:
  "fst (strip_lines Code a) = Code \<Longrightarrow>
   lex_lines n (a @ b) = lex_lines n a @ lex_lines (n + length a) b"
  using length_strip_lines [of Code a]
  by (auto simp: lex_lines_def strip_lines_append tokenize_lines_append split: prod.splits)

lemma lexer_lines:
  assumes "ls \<noteq> []" and "list_all single_line ls" and "fst (strip_lines Code ls) = Code"
  shows "lexer (join_lines ls) = Inr (lex_lines 1 ls)"
  using assms by (auto simp: lexer_def lex_lines_def split_join_lines split: prod.splits)

subsection \<open>The segments of gtsam.h, one by one\<close>

text \<open>Each segment ends outside any comment.\<close>

lemma mode_header: "fst (strip_lines Code src_header) = Code"
  by (simp only: src_header_def eval_basics lex_eval cong: eval_congs)

lemma mode_status: "fst (strip_lines Code src_status) = Code"
  by (simp only: src_status_def eval_basics lex_eval cong: eval_congs)

lemma mode_gtsam_open: "fst (strip_lines Code src_gtsam_open) = Code"
  by (simp only: src_gtsam_open_def eval_basics lex_eval cong: eval_congs)

lemma mode_gtsam_Point2: "fst (strip_lines Code src_gtsam_Point2) = Code"
  by (simp only: src_gtsam_Point2_def eval_basics lex_eval cong: eval_congs)

lemma mode_gtsam_Point3: "fst (strip_lines Code src_gtsam_Point3) = Code"
  by (simp only: src_gtsam_Point3_def eval_basics lex_eval cong: eval_congs)

lemma mode_gtsam_Rot2: "fst (strip_lines Code src_gtsam_Rot2) = Code"
  by (simp only: src_gtsam_Rot2_def eval_basics lex_eval cong: eval_congs)

lemma mode_gtsam_Rot3: "fst (strip_lines Code src_gtsam_Rot3) = Code"
  by (simp only: src_gtsam_Rot3_def eval_basics lex_eval cong: eval_congs)

lemma mode_gtsam_Pose2: "fst (strip_lines Code src_gtsam_Pose2) = Code"
  by (simp only: src_gtsam_Pose2_def eval_basics lex_eval cong: eval_congs)

lemma mode_gtsam_Pose3: "fst (strip_lines Code src_gtsam_Pose3) = Code"
  by (simp only: src_gtsam_Pose3_def eval_basics lex_eval cong: eval_congs)

lemma mode_gtsam_SharedGaussian: "fst (strip_lines Code src_gtsam_SharedGaussian) = Code"
  by (simp only: src_gtsam_SharedGaussian_def eval_basics lex_eval cong: eval_congs)

lemma mode_gtsam_SharedDiagonal: "fst (strip_lines Code src_gtsam_SharedDiagonal) = Code"
  by (simp only: src_gtsam_SharedDiagonal_def eval_basics lex_eval cong: eval_congs)

lemma mode_gtsam_SharedNoiseModel: "fst (strip_lines Code src_gtsam_SharedNoiseModel) = Code"
  by (simp only: src_gtsam_SharedNoiseModel_def eval_basics lex_eval cong: eval_congs)

lemma mode_gtsam_VectorValues: "fst (strip_lines Code src_gtsam_VectorValues) = Code"
  by (simp only: src_gtsam_VectorValues_def eval_basics lex_eval cong: eval_congs)

lemma mode_gtsam_GaussianConditional: "fst (strip_lines Code src_gtsam_GaussianConditional) = Code"
  by (simp only: src_gtsam_GaussianConditional_def eval_basics lex_eval cong: eval_congs)

lemma mode_gtsam_GaussianDensity: "fst (strip_lines Code src_gtsam_GaussianDensity) = Code"
  by (simp only: src_gtsam_GaussianDensity_def eval_basics lex_eval cong: eval_congs)

lemma mode_gtsam_GaussianBayesNet: "fst (strip_lines Code src_gtsam_GaussianBayesNet) = Code"
  by (simp only: src_gtsam_GaussianBayesNet_def eval_basics lex_eval cong: eval_congs)

lemma mode_gtsam_GaussianFactor: "fst (strip_lines Code src_gtsam_GaussianFactor) = Code"
  by (simp only: src_gtsam_GaussianFactor_def eval_basics lex_eval cong: eval_congs)

lemma mode_gtsam_JacobianFactor: "fst (strip_lines Code src_gtsam_JacobianFactor) = Code"
  by (simp only: src_gtsam_JacobianFactor_def eval_basics lex_eval cong: eval_congs)

lemma mode_gtsam_HessianFactor: "fst (strip_lines Code src_gtsam_HessianFactor) = Code"
  by (simp only: src_gtsam_HessianFactor_def eval_basics lex_eval cong: eval_congs)

lemma mode_gtsam_GaussianFactorGraph: "fst (strip_lines Code src_gtsam_GaussianFactorGraph) = Code"
  by (simp only: src_gtsam_GaussianFactorGraph_def eval_basics lex_eval cong: eval_congs)

lemma mode_gtsam_GaussianSequentialSolver: "fst (strip_lines Code src_gtsam_GaussianSequentialSolver) = Code"
  by (simp only: src_gtsam_GaussianSequentialSolver_def eval_basics lex_eval cong: eval_congs)

lemma mode_gtsam_KalmanFilter: "fst (strip_lines Code src_gtsam_KalmanFilter) = Code"
  by (simp only: src_gtsam_KalmanFilter_def eval_basics lex_eval cong: eval_congs)

lemma mode_gtsam_Ordering: "fst (strip_lines Code src_gtsam_Ordering) = Code"
  by (simp only: src_gtsam_Ordering_def eval_basics lex_eval cong: eval_congs)

lemma mode_gtsam_NonlinearOptimizationParameters: "fst (strip_lines Code src_gtsam_NonlinearOptimizationParameters) = Code"
  by (simp only: src_gtsam_NonlinearOptimizationParameters_def eval_basics lex_eval cong: eval_congs)

lemma mode_gtsam_close: "fst (strip_lines Code src_gtsam_close) = Code"
  by (simp only: src_gtsam_close_def eval_basics lex_eval cong: eval_congs)

lemma mode_planarSLAM_open: "fst (strip_lines Code src_planarSLAM_open) = Code"
  by (simp only: src_planarSLAM_open_def eval_basics lex_eval cong: eval_congs)

lemma mode_planarSLAM_Values: "fst (strip_lines Code src_planarSLAM_Values) = Code"
  by (simp only: src_planarSLAM_Values_def eval_basics lex_eval cong: eval_congs)

lemma mode_planarSLAM_Graph: "fst (strip_lines Code src_planarSLAM_Graph) = Code"
  by (simp only: src_planarSLAM_Graph_def eval_basics lex_eval cong: eval_congs)

lemma mode_planarSLAM_Odometry: "fst (strip_lines Code src_planarSLAM_Odometry) = Code"
  by (simp only: src_planarSLAM_Odometry_def eval_basics lex_eval cong: eval_congs)

lemma mode_planarSLAM_Optimizer: "fst (strip_lines Code src_planarSLAM_Optimizer) = Code"
  by (simp only: src_planarSLAM_Optimizer_def eval_basics lex_eval cong: eval_congs)

lemma mode_planarSLAM_close: "fst (strip_lines Code src_planarSLAM_close) = Code"
  by (simp only: src_planarSLAM_close_def eval_basics lex_eval cong: eval_congs)

lemma mode_pose2SLAM_open: "fst (strip_lines Code src_pose2SLAM_open) = Code"
  by (simp only: src_pose2SLAM_open_def eval_basics lex_eval cong: eval_congs)

lemma mode_pose2SLAM_Values: "fst (strip_lines Code src_pose2SLAM_Values) = Code"
  by (simp only: src_pose2SLAM_Values_def eval_basics lex_eval cong: eval_congs)

lemma mode_pose2SLAM_Graph: "fst (strip_lines Code src_pose2SLAM_Graph) = Code"
  by (simp only: src_pose2SLAM_Graph_def eval_basics lex_eval cong: eval_congs)

lemma mode_pose2SLAM_Optimizer: "fst (strip_lines Code src_pose2SLAM_Optimizer) = Code"
  by (simp only: src_pose2SLAM_Optimizer_def eval_basics lex_eval cong: eval_congs)

lemma mode_pose2SLAM_close: "fst (strip_lines Code src_pose2SLAM_close) = Code"
  by (simp only: src_pose2SLAM_close_def eval_basics lex_eval cong: eval_congs)

lemma mode_simulated2D_open: "fst (strip_lines Code src_simulated2D_open) = Code"
  by (simp only: src_simulated2D_open_def eval_basics lex_eval cong: eval_congs)

lemma mode_simulated2D_Values: "fst (strip_lines Code src_simulated2D_Values) = Code"
  by (simp only: src_simulated2D_Values_def eval_basics lex_eval cong: eval_congs)

lemma mode_simulated2D_Graph: "fst (strip_lines Code src_simulated2D_Graph) = Code"
  by (simp only: src_simulated2D_Graph_def eval_basics lex_eval cong: eval_congs)

lemma mode_simulated2D_close: "fst (strip_lines Code src_simulated2D_close) = Code"
  by (simp only: src_simulated2D_close_def eval_basics lex_eval cong: eval_congs)

lemma mode_simulated2DOriented_open: "fst (strip_lines Code src_simulated2DOriented_open) = Code"
  by (simp only: src_simulated2DOriented_open_def eval_basics lex_eval cong: eval_congs)

lemma mode_simulated2DOriented_Values: "fst (strip_lines Code src_simulated2DOriented_Values) = Code"
  by (simp only: src_simulated2DOriented_Values_def eval_basics lex_eval cong: eval_congs)

lemma mode_simulated2DOriented_Graph: "fst (strip_lines Code src_simulated2DOriented_Graph) = Code"
  by (simp only: src_simulated2DOriented_Graph_def eval_basics lex_eval cong: eval_congs)

lemma mode_simulated2DOriented_close: "fst (strip_lines Code src_simulated2DOriented_close) = Code"
  by (simp only: src_simulated2DOriented_close_def eval_basics lex_eval cong: eval_congs)

lemma mode_legacy: "fst (strip_lines Code src_legacy) = Code"
  by (simp only: src_legacy_def eval_basics lex_eval cong: eval_congs)

lemmas segment_modes =
  mode_header
  mode_status
  mode_gtsam_open
  mode_gtsam_Point2
  mode_gtsam_Point3
  mode_gtsam_Rot2
  mode_gtsam_Rot3
  mode_gtsam_Pose2
  mode_gtsam_Pose3
  mode_gtsam_SharedGaussian
  mode_gtsam_SharedDiagonal
  mode_gtsam_SharedNoiseModel
  mode_gtsam_VectorValues
  mode_gtsam_GaussianConditional
  mode_gtsam_GaussianDensity
  mode_gtsam_GaussianBayesNet
  mode_gtsam_GaussianFactor
  mode_gtsam_JacobianFactor
  mode_gtsam_HessianFactor
  mode_gtsam_GaussianFactorGraph
  mode_gtsam_GaussianSequentialSolver
  mode_gtsam_KalmanFilter
  mode_gtsam_Ordering
  mode_gtsam_NonlinearOptimizationParameters
  mode_gtsam_close
  mode_planarSLAM_open
  mode_planarSLAM_Values
  mode_planarSLAM_Graph
  mode_planarSLAM_Odometry
  mode_planarSLAM_Optimizer
  mode_planarSLAM_close
  mode_pose2SLAM_open
  mode_pose2SLAM_Values
  mode_pose2SLAM_Graph
  mode_pose2SLAM_Optimizer
  mode_pose2SLAM_close
  mode_simulated2D_open
  mode_simulated2D_Values
  mode_simulated2D_Graph
  mode_simulated2D_close
  mode_simulated2DOriented_open
  mode_simulated2DOriented_Values
  mode_simulated2DOriented_Graph
  mode_simulated2DOriented_close
  mode_legacy

text \<open>The number of lines of each segment.\<close>

lemma length_header: "length src_header = 46"
  by (simp add: src_header_def)

lemma length_status: "length src_status = 13"
  by (simp add: src_status_def)

lemma length_gtsam_open: "length src_gtsam_open = 10"
  by (simp add: src_gtsam_open_def)

lemma length_gtsam_Point2: "length src_gtsam_Point2 = 14"
  by (simp add: src_gtsam_Point2_def)

lemma length_gtsam_Point3: "length src_gtsam_Point3 = 18"
  by (simp add: src_gtsam_Point3_def)

lemma length_gtsam_Rot2: "length src_gtsam_Rot2 = 22"
  by (simp add: src_gtsam_Rot2_def)

lemma length_gtsam_Rot3: "length src_gtsam_Rot3 = 39"
  by (simp add: src_gtsam_Rot3_def)

lemma length_gtsam_Pose2: "length src_gtsam_Pose2 = 24"
  by (simp add: src_gtsam_Pose2_def)

lemma length_gtsam_Pose3: "length src_gtsam_Pose3 = 33"
  by (simp add: src_gtsam_Pose3_def)

lemma length_gtsam_SharedGaussian: "length src_gtsam_SharedGaussian = 5"
  by (simp add: src_gtsam_SharedGaussian_def)

lemma length_gtsam_SharedDiagonal: "length src_gtsam_SharedDiagonal = 6"
  by (simp add: src_gtsam_SharedDiagonal_def)

lemma length_gtsam_SharedNoiseModel: "length src_gtsam_SharedNoiseModel = 11"
  by (simp add: src_gtsam_SharedNoiseModel_def)

lemma length_gtsam_VectorValues: "length src_gtsam_VectorValues = 9"
  by (simp add: src_gtsam_VectorValues_def)

lemma length_gtsam_GaussianConditional: "length src_gtsam_GaussianConditional = 10"
  by (simp add: src_gtsam_GaussianConditional_def)

lemma length_gtsam_GaussianDensity: "length src_gtsam_GaussianDensity = 8"
  by (simp add: src_gtsam_GaussianDensity_def)

lemma length_gtsam_GaussianBayesNet: "length src_gtsam_GaussianBayesNet = 8"
  by (simp add: src_gtsam_GaussianBayesNet_def)

lemma length_gtsam_GaussianFactor: "length src_gtsam_GaussianFactor = 6"
  by (simp add: src_gtsam_GaussianFactor_def)

lemma length_gtsam_JacobianFactor: "length src_gtsam_JacobianFactor = 16"
  by (simp add: src_gtsam_JacobianFactor_def)

lemma length_gtsam_HessianFactor: "length src_gtsam_HessianFactor = 17"
  by (simp add: src_gtsam_HessianFactor_def)

lemma length_gtsam_GaussianFactorGraph: "length src_gtsam_GaussianFactorGraph = 35"
  by (simp add: src_gtsam_GaussianFactorGraph_def)

lemma length_gtsam_GaussianSequentialSolver: "length src_gtsam_GaussianSequentialSolver = 8"
  by (simp add: src_gtsam_GaussianSequentialSolver_def)

lemma length_gtsam_KalmanFilter: "length src_gtsam_KalmanFilter = 22"
  by (simp add: src_gtsam_KalmanFilter_def)

lemma length_gtsam_Ordering: "length src_gtsam_Ordering = 7"
  by (simp add: src_gtsam_Ordering_def)

lemma length_gtsam_NonlinearOptimizationParameters: "length src_gtsam_NonlinearOptimizationParameters = 9"
  by (simp add: src_gtsam_NonlinearOptimizationParameters_def)

lemma length_gtsam_close: "length src_gtsam_close = 6"
  by (simp add: src_gtsam_close_def)

lemma length_planarSLAM_open: "length src_planarSLAM_open = 3"
  by (simp add: src_planarSLAM_open_def)

lemma length_planarSLAM_Values: "length src_planarSLAM_Values = 9"
  by (simp add: src_planarSLAM_Values_def)

lemma length_planarSLAM_Graph: "length src_planarSLAM_Graph = 20"
  by (simp add: src_planarSLAM_Graph_def)

lemma length_planarSLAM_Odometry: "length src_planarSLAM_Odometry = 7"
  by (simp add: src_planarSLAM_Odometry_def)

lemma length_planarSLAM_Optimizer: "length src_planarSLAM_Optimizer = 6"
  by (simp add: src_planarSLAM_Optimizer_def)

lemma length_planarSLAM_close: "length src_planarSLAM_close = 6"
  by (simp add: src_planarSLAM_close_def)

lemma length_pose2SLAM_open: "length src_pose2SLAM_open = 3"
  by (simp add: src_pose2SLAM_open_def)

lemma length_pose2SLAM_Values: "length src_pose2SLAM_Values = 7"
  by (simp add: src_pose2SLAM_Values_def)

lemma length_pose2SLAM_Graph: "length src_pose2SLAM_Graph = 16"
  by (simp add: src_pose2SLAM_Graph_def)

lemma length_pose2SLAM_Optimizer: "length src_pose2SLAM_Optimizer = 6"
  by (simp add: src_pose2SLAM_Optimizer_def)

lemma length_pose2SLAM_close: "length src_pose2SLAM_close = 6"
  by (simp add: src_pose2SLAM_close_def)

lemma length_simulated2D_open: "length src_simulated2D_open = 3"
  by (simp add: src_simulated2D_open_def)

lemma length_simulated2D_Values: "length src_simulated2D_Values = 10"
  by (simp add: src_simulated2D_Values_def)

lemma length_simulated2D_Graph: "length src_simulated2D_Graph = 6"
  by (simp add: src_simulated2D_Graph_def)

lemma length_simulated2D_close: "length src_simulated2D_close = 2"
  by (simp add: src_simulated2D_close_def)

lemma length_simulated2DOriented_open: "length src_simulated2DOriented_open = 4"
  by (simp add: src_simulated2DOriented_open_def)

lemma length_simulated2DOriented_Values: "length src_simulated2DOriented_Values = 10"
  by (simp add: src_simulated2DOriented_Values_def)

lemma length_simulated2DOriented_Graph: "length src_simulated2DOriented_Graph = 6"
  by (simp add: src_simulated2DOriented_Graph_def)

lemma length_simulated2DOriented_close: "length src_simulated2DOriented_close = 3"
  by (simp add: src_simulated2DOriented_close_def)

lemma length_legacy: "length src_legacy = 153"
  by (simp add: src_legacy_def)

lemmas segment_lengths =
  length_header
  length_status
  length_gtsam_open
  length_gtsam_Point2
  length_gtsam_Point3
  length_gtsam_Rot2
  length_gtsam_Rot3
  length_gtsam_Pose2
  length_gtsam_Pose3
  length_gtsam_SharedGaussian
  length_gtsam_SharedDiagonal
  length_gtsam_SharedNoiseModel
  length_gtsam_VectorValues
  length_gtsam_GaussianConditional
  length_gtsam_GaussianDensity
  length_gtsam_GaussianBayesNet
  length_gtsam_GaussianFactor
  length_gtsam_JacobianFactor
  length_gtsam_HessianFactor
  length_gtsam_GaussianFactorGraph
  length_gtsam_GaussianSequentialSolver
  length_gtsam_KalmanFilter
  length_gtsam_Ordering
  length_gtsam_NonlinearOptimizationParameters
  length_gtsam_close
  length_planarSLAM_open
  length_planarSLAM_Values
  length_planarSLAM_Graph
  length_planarSLAM_Odometry
  length_planarSLAM_Optimizer
  length_planarSLAM_close
  length_pose2SLAM_open
  length_pose2SLAM_Values
  length_pose2SLAM_Graph
  length_pose2SLAM_Optimizer
  length_pose2SLAM_close
  length_simulated2D_open
  length_simulated2D_Values
  length_simulated2D_Graph
  length_simulated2D_close
  length_simulated2DOriented_open
  length_simulated2DOriented_Values
  length_simulated2DOriented_Graph
  length_simulated2DOriented_close
  length_legacy

text \<open>No line of a segment holds a line break.\<close>

lemma lines_header: "list_all single_line src_header"
  by (simp only: src_header_def single_line_def newline_def list.pred_inject append.simps list.set insert_iff empty_iff
        char.inject simp_thms de_Morgan_disj)

lemma lines_status: "list_all single_line src_status"
  by (simp only: src_status_def single_line_def newline_def list.pred_inject append.simps list.set insert_iff empty_iff
        char.inject simp_thms de_Morgan_disj)

lemma lines_gtsam_open: "list_all single_line src_gtsam_open"
  by (simp only: src_gtsam_open_def single_line_def newline_def list.pred_inject append.simps list.set insert_iff empty_iff
        char.inject simp_thms de_Morgan_disj)

lemma lines_gtsam_Point2: "list_all single_line src_gtsam_Point2"
  by (simp only: src_gtsam_Point2_def single_line_def newline_def list.pred_inject append.simps list.set insert_iff empty_iff
        char.inject simp_thms de_Morgan_disj)

lemma lines_gtsam_Point3: "list_all single_line src_gtsam_Point3"
  by (simp only: src_gtsam_Point3_def single_line_def newline_def list.pred_inject append.simps list.set insert_iff empty_iff
        char.inject simp_thms de_Morgan_disj)

lemma lines_gtsam_Rot2: "list_all single_line src_gtsam_Rot2"
  by (simp only: src_gtsam_Rot2_def single_line_def newline_def list.pred_inject append.simps list.set insert_iff empty_iff
        char.inject simp_thms de_Morgan_disj)

lemma lines_gtsam_Rot3: "list_all single_line src_gtsam_Rot3"
  by (simp only: src_gtsam_Rot3_def single_line_def newline_def list.pred_inject append.simps list.set insert_iff empty_iff
        char.inject simp_thms de_Morgan_disj)

lemma lines_gtsam_Pose2: "list_all single_line src_gtsam_Pose2"
  by (simp only: src_gtsam_Pose2_def single_line_def newline_def list.pred_inject append.simps list.set insert_iff empty_iff
        char.inject simp_thms de_Morgan_disj)

lemma lines_gtsam_Pose3: "list_all single_line src_gtsam_Pose3"
  by (simp only: src_gtsam_Pose3_def single_line_def newline_def list.pred_inject append.simps list.set insert_iff empty_iff
        char.inject simp_thms de_Morgan_disj)

lemma lines_gtsam_SharedGaussian: "list_all single_line src_gtsam_SharedGaussian"
  by (simp only: src_gtsam_SharedGaussian_def single_line_def newline_def list.pred_inject append.simps list.set insert_iff empty_iff
        char.inject simp_thms de_Morgan_disj)

lemma lines_gtsam_SharedDiagonal: "list_all single_line src_gtsam_SharedDiagonal"
  by (simp only: src_gtsam_SharedDiagonal_def single_line_def newline_def list.pred_inject append.simps list.set insert_iff empty_iff
        char.inject simp_thms de_Morgan_disj)

lemma lines_gtsam_SharedNoiseModel: "list_all single_line src_gtsam_SharedNoiseModel"
  by (simp only: src_gtsam_SharedNoiseModel_def single_line_def newline_def list.pred_inject append.simps list.set insert_iff empty_iff
        char.inject simp_thms de_Morgan_disj)

lemma lines_gtsam_VectorValues: "list_all single_line src_gtsam_VectorValues"
  by (simp only: src_gtsam_VectorValues_def single_line_def newline_def list.pred_inject append.simps list.set insert_iff empty_iff
        char.inject simp_thms de_Morgan_disj)

lemma lines_gtsam_GaussianConditional: "list_all single_line src_gtsam_GaussianConditional"
  by (simp only: src_gtsam_GaussianConditional_def single_line_def newline_def list.pred_inject append.simps list.set insert_iff empty_iff
        char.inject simp_thms de_Morgan_disj)

lemma lines_gtsam_GaussianDensity: "list_all single_line src_gtsam_GaussianDensity"
  by (simp only: src_gtsam_GaussianDensity_def single_line_def newline_def list.pred_inject append.simps list.set insert_iff empty_iff
        char.inject simp_thms de_Morgan_disj)

lemma lines_gtsam_GaussianBayesNet: "list_all single_line src_gtsam_GaussianBayesNet"
  by (simp only: src_gtsam_GaussianBayesNet_def single_line_def newline_def list.pred_inject append.simps list.set insert_iff empty_iff
        char.inject simp_thms de_Morgan_disj)

lemma lines_gtsam_GaussianFactor: "list_all single_line src_gtsam_GaussianFactor"
  by (simp only: src_gtsam_GaussianFactor_def single_line_def newline_def list.pred_inject append.simps list.set insert_iff empty_iff
        char.inject simp_thms de_Morgan_disj)

lemma lines_gtsam_JacobianFactor: "list_all single_line src_gtsam_JacobianFactor"
  by (simp only: src_gtsam_JacobianFactor_def single_line_def newline_def list.pred_inject append.simps list.set insert_iff empty_iff
        char.inject simp_thms de_Morgan_disj)

lemma lines_gtsam_HessianFactor: "list_all single_line src_gtsam_HessianFactor"
  by (simp only: src_gtsam_HessianFactor_def single_line_def newline_def list.pred_inject append.simps list.set insert_iff empty_iff
        char.inject simp_thms de_Morgan_disj)

lemma lines_gtsam_GaussianFactorGraph: "list_all single_line src_gtsam_GaussianFactorGraph"
  by (simp only: src_gtsam_GaussianFactorGraph_def single_line_def newline_def list.pred_inject append.simps list.set insert_iff empty_iff
        char.inject simp_thms de_Morgan_disj)

lemma lines_gtsam_GaussianSequentialSolver: "list_all single_line src_gtsam_GaussianSequentialSolver"
  by (simp only: src_gtsam_GaussianSequentialSolver_def single_line_def newline_def list.pred_inject append.simps list.set insert_iff empty_iff
        char.inject simp_thms de_Morgan_disj)

lemma lines_gtsam_KalmanFilter: "list_all single_line src_gtsam_KalmanFilter"
  by (simp only: src_gtsam_KalmanFilter_def single_line_def newline_def list.pred_inject append.simps list.set insert_iff empty_iff
        char.inject simp_thms de_Morgan_disj)

lemma lines_gtsam_Ordering: "list_all single_line src_gtsam_Ordering"
  by (simp only: src_gtsam_Ordering_def single_line_def newline_def list.pred_inject append.simps list.set insert_iff empty_iff
        char.inject simp_thms de_Morgan_disj)

lemma lines_gtsam_NonlinearOptimizationParameters: "list_all single_line src_gtsam_NonlinearOptimizationParameters"
  by (simp only: src_gtsam_NonlinearOptimizationParameters_def single_line_def newline_def list.pred_inject append.simps list.set insert_iff empty_iff
        char.inject simp_thms de_Morgan_disj)

lemma lines_gtsam_close: "list_all single_line src_gtsam_close"
  by (simp only: src_gtsam_close_def single_line_def newline_def list.pred_inject append.simps list.set insert_iff empty_iff
        char.inject simp_thms de_Morgan_disj)

lemma lines_planarSLAM_open: "list_all single_line src_planarSLAM_open"
  by (simp only: src_planarSLAM_open_def single_line_def newline_def list.pred_inject append.simps list.set insert_iff empty_iff
        char.inject simp_thms de_Morgan_disj)

lemma lines_planarSLAM_Values: "list_all single_line src_planarSLAM_Values"
  by (simp only: src_planarSLAM_Values_def single_line_def newline_def list.pred_inject append.simps list.set insert_iff empty_iff
        char.inject simp_thms de_Morgan_disj)

lemma lines_planarSLAM_Graph: "list_all single_line src_planarSLAM_Graph"
  by (simp only: src_planarSLAM_Graph_def single_line_def newline_def list.pred_inject append.simps list.set insert_iff empty_iff
        char.inject simp_thms de_Morgan_disj)

lemma lines_planarSLAM_Odometry: "list_all single_line src_planarSLAM_Odometry"
  by (simp only: src_planarSLAM_Odometry_def single_line_def newline_def list.pred_inject append.simps list.set insert_iff empty_iff
        char.inject simp_thms de_Morgan_disj)

lemma lines_planarSLAM_Optimizer: "list_all single_line src_planarSLAM_Optimizer"
  by (simp only: src_planarSLAM_Optimizer_def single_line_def newline_def list.pred_inject append.simps list.set insert_iff empty_iff
        char.inject simp_thms de_Morgan_disj)

lemma lines_planarSLAM_close: "list_all single_line src_planarSLAM_close"
  by (simp only: src_planarSLAM_close_def single_line_def newline_def list.pred_inject append.simps list.set insert_iff empty_iff
        char.inject simp_thms de_Morgan_disj)

lemma lines_pose2SLAM_open: "list_all single_line src_pose2SLAM_open"
  by (simp only: src_pose2SLAM_open_def single_line_def newline_def list.pred_inject append.simps list.set insert_iff empty_iff
        char.inject simp_thms de_Morgan_disj)

lemma lines_pose2SLAM_Values: "list_all single_line src_pose2SLAM_Values"
  by (simp only: src_pose2SLAM_Values_def single_line_def newline_def list.pred_inject append.simps list.set insert_iff empty_iff
        char.inject simp_thms de_Morgan_disj)

lemma lines_pose2SLAM_Graph: "list_all single_line src_pose2SLAM_Graph"
  by (simp only: src_pose2SLAM_Graph_def single_line_def newline_def list.pred_inject append.simps list.set insert_iff empty_iff
        char.inject simp_thms de_Morgan_disj)

lemma lines_pose2SLAM_Optimizer: "list_all single_line src_pose2SLAM_Optimizer"
  by (simp only: src_pose2SLAM_Optimizer_def single_line_def newline_def list.pred_inject append.simps list.set insert_iff empty_iff
        char.inject simp_thms de_Morgan_disj)

lemma lines_pose2SLAM_close: "list_all single_line src_pose2SLAM_close"
  by (simp only: src_pose2SLAM_close_def single_line_def newline_def list.pred_inject append.simps list.set insert_iff empty_iff
        char.inject simp_thms de_Morgan_disj)

lemma lines_simulated2D_open: "list_all single_line src_simulated2D_open"
  by (simp only: src_simulated2D_open_def single_line_def newline_def list.pred_inject append.simps list.set insert_iff empty_iff
        char.inject simp_thms de_Morgan_disj)

lemma lines_simulated2D_Values: "list_all single_line src_simulated2D_Values"
  by (simp only: src_simulated2D_Values_def single_line_def newline_def list.pred_inject append.simps list.set insert_iff empty_iff
        char.inject simp_thms de_Morgan_disj)

lemma lines_simulated2D_Graph: "list_all single_line src_simulated2D_Graph"
  by (simp only: src_simulated2D_Graph_def single_line_def newline_def list.pred_inject append.simps list.set insert_iff empty_iff
        char.inject simp_thms de_Morgan_disj)

lemma lines_simulated2D_close: "list_all single_line src_simulated2D_close"
  by (simp only: src_simulated2D_close_def single_line_def newline_def list.pred_inject append.simps list.set insert_iff empty_iff
        char.inject simp_thms de_Morgan_disj)

lemma lines_simulated2DOriented_open: "list_all single_line src_simulated2DOriented_open"
  by (simp only: src_simulated2DOriented_open_def single_line_def newline_def list.pred_inject append.simps list.set insert_iff empty_iff
        char.inject simp_thms de_Morgan_disj)

lemma lines_simulated2DOriented_Values: "list_all single_line src_simulated2DOriented_Values"
  by (simp only: src_simulated2DOriented_Values_def single_line_def newline_def list.pred_inject append.simps list.set insert_iff empty_iff
        char.inject simp_thms de_Morgan_disj)

lemma lines_simulated2DOriented_Graph: "list_all single_line src_simulated2DOriented_Graph"
  by (simp only: src_simulated2DOriented_Graph_def single_line_def newline_def list.pred_inject append.simps list.set insert_iff empty_iff
        char.inject simp_thms de_Morgan_disj)

lemma lines_simulated2DOriented_close: "list_all single_line src_simulated2DOriented_close"
  by (simp only: src_simulated2DOriented_close_def single_line_def newline_def list.pred_inject append.simps list.set insert_iff empty_iff
        char.inject simp_thms de_Morgan_disj)

lemma lines_legacy: "list_all single_line src_legacy"
  by (simp only: src_legacy_def single_line_def newline_def list.pred_inject append.simps list.set insert_iff empty_iff
        char.inject simp_thms de_Morgan_disj)

lemmas segment_lines =
  lines_header
  lines_status
  lines_gtsam_open
  lines_gtsam_Point2
  lines_gtsam_Point3
  lines_gtsam_Rot2
  lines_gtsam_Rot3
  lines_gtsam_Pose2
  lines_gtsam_Pose3
  lines_gtsam_SharedGaussian
  lines_gtsam_SharedDiagonal
  lines_gtsam_SharedNoiseModel
  lines_gtsam_VectorValues
  lines_gtsam_GaussianConditional
  lines_gtsam_GaussianDensity
  lines_gtsam_GaussianBayesNet
  lines_gtsam_GaussianFactor
  lines_gtsam_JacobianFactor
  lines_gtsam_HessianFactor
  lines_gtsam_GaussianFactorGraph
  lines_gtsam_GaussianSequentialSolver
  lines_gtsam_KalmanFilter
  lines_gtsam_Ordering
  lines_gtsam_NonlinearOptimizationParameters
  lines_gtsam_close
  lines_planarSLAM_open
  lines_planarSLAM_Values
  lines_planarSLAM_Graph
  lines_planarSLAM_Odometry
  lines_planarSLAM_Optimizer
  lines_planarSLAM_close
  lines_pose2SLAM_open
  lines_pose2SLAM_Values
  lines_pose2SLAM_Graph
  lines_pose2SLAM_Optimizer
  lines_pose2SLAM_close
  lines_simulated2D_open
  lines_simulated2D_Values
  lines_simulated2D_Graph
  lines_simulated2D_close
  lines_simulated2DOriented_open
  lines_simulated2DOriented_Values
  lines_simulated2DOriented_Graph
  lines_simulated2DOriented_close
  lines_legacy

text \<open>
  What the parser does on the tokens of each segment: the comments hold no token, a
  namespace opening pushes a scope, a class becomes a declaration of the innermost scope, and
  a close marker pops the scope of the namespace it names.
\<close>

lemma tokens_header: "lex_lines 1 src_header = []"
  by (simp only: lex_lines_def src_header_def eval_basics lex_eval cong: eval_congs)

lemma tokens_status: "lex_lines 47 src_status = []"
  by (simp only: lex_lines_def src_status_def eval_basics lex_eval cong: eval_congs)

lemma parse_gtsam_open:
  "parse_decls (PState root stack None w) (lex_lines 60 src_gtsam_open @ rest) =
   parse_decls (PState root (Frame 60 ''gtsam'' None [] # stack) None w) rest"
  by (simp only: lex_lines_def src_gtsam_open_def eval_basics lex_eval parse_eval cong: eval_congs)

lemma parse_gtsam_Point2:
  "parse_decls (PState root stack None w) (lex_lines 70 src_gtsam_Point2 @ rest) =
   parse_decls (add_decl class_gtsam_Point2 (PState root stack None w)) rest"
  by (simp only: lex_lines_def src_gtsam_Point2_def class_gtsam_Point2_def eval_basics lex_eval parse_eval cong: eval_congs)

lemma parse_gtsam_Point3:
  "parse_decls (PState root stack None w) (lex_lines 84 src_gtsam_Point3 @ rest) =
   parse_decls (add_decl class_gtsam_Point3 (PState root stack None w)) rest"
  by (simp only: lex_lines_def src_gtsam_Point3_def class_gtsam_Point3_def eval_basics lex_eval parse_eval cong: eval_congs)

lemma parse_gtsam_Rot2:
  "parse_decls (PState root stack None w) (lex_lines 102 src_gtsam_Rot2 @ rest) =
   parse_decls (add_decl class_gtsam_Rot2 (PState root stack None w)) rest"
  by (simp only: lex_lines_def src_gtsam_Rot2_def class_gtsam_Rot2_def eval_basics lex_eval parse_eval cong: eval_congs)

lemma parse_gtsam_Rot3:
  "parse_decls (PState root stack None w) (lex_lines 124 src_gtsam_Rot3 @ rest) =
   parse_decls (add_decl class_gtsam_Rot3 (PState root stack None w)) rest"
  by (simp only: lex_lines_def src_gtsam_Rot3_def class_gtsam_Rot3_def eval_basics lex_eval parse_eval cong: eval_congs)

lemma parse_gtsam_Pose2:
  "parse_decls (PState root stack None w) (lex_lines 163 src_gtsam_Pose2 @ rest) =
   parse_decls (add_decl class_gtsam_Pose2 (PState root stack None w)) rest"
  by (simp only: lex_lines_def src_gtsam_Pose2_def class_gtsam_Pose2_def eval_basics lex_eval parse_eval cong: eval_congs)

lemma parse_gtsam_Pose3:
  "parse_decls (PState root stack None w) (lex_lines 187 src_gtsam_Pose3 @ rest) =
   parse_decls (add_decl class_gtsam_Pose3 (PState root stack None w)) rest"
  by (simp only: lex_lines_def src_gtsam_Pose3_def class_gtsam_Pose3_def eval_basics lex_eval parse_eval cong: eval_congs)

lemma parse_gtsam_SharedGaussian:
  "parse_decls (PState root stack None w) (lex_lines 220 src_gtsam_SharedGaussian @ rest) =
   parse_decls (add_decl class_gtsam_SharedGaussian (PState root stack None w)) rest"
  by (simp only: lex_lines_def src_gtsam_SharedGaussian_def class_gtsam_SharedGaussian_def eval_basics lex_eval parse_eval cong: eval_congs)

lemma parse_gtsam_SharedDiagonal:
  "parse_decls (PState root stack None w) (lex_lines 225 src_gtsam_SharedDiagonal @ rest) =
   parse_decls (add_decl class_gtsam_SharedDiagonal (PState root stack None w)) rest"
  by (simp only: lex_lines_def src_gtsam_SharedDiagonal_def class_gtsam_SharedDiagonal_def eval_basics lex_eval parse_eval cong: eval_congs)

lemma parse_gtsam_SharedNoiseModel:
  "parse_decls (PState root stack None w) (lex_lines 231 src_gtsam_SharedNoiseModel @ rest) =
   parse_decls (add_decl class_gtsam_SharedNoiseModel (PState root stack None w)) rest"
  by (simp only: lex_lines_def src_gtsam_SharedNoiseModel_def class_gtsam_SharedNoiseModel_def eval_basics lex_eval parse_eval cong: eval_congs)

lemma parse_gtsam_VectorValues:
  "parse_decls (PState root stack None w) (lex_lines 242 src_gtsam_VectorValues @ rest) =
   parse_decls (add_decl class_gtsam_VectorValues (PState root stack None w)) rest"
  by (simp only: lex_lines_def src_gtsam_VectorValues_def class_gtsam_VectorValues_def eval_basics lex_eval parse_eval cong: eval_congs)

lemma parse_gtsam_GaussianConditional:
  "parse_decls (PState root stack None w) (lex_lines 251 src_gtsam_GaussianConditional @ rest) =
   parse_decls (add_decl class_gtsam_GaussianConditional (PState root stack None w)) rest"
  by (simp only: lex_lines_def src_gtsam_GaussianConditional_def class_gtsam_GaussianConditional_def eval_basics lex_eval parse_eval cong: eval_congs)

lemma parse_gtsam_GaussianDensity:
  "parse_decls (PState root stack None w) (lex_lines 261 src_gtsam_GaussianDensity @ rest) =
   parse_decls (add_decl class_gtsam_GaussianDensity (PState root stack None w)) rest"
  by (simp only: lex_lines_def src_gtsam_GaussianDensity_def class_gtsam_GaussianDensity_def eval_basics lex_eval parse_eval cong: eval_congs)

lemma parse_gtsam_GaussianBayesNet:
  "parse_decls (PState root stack None w) (lex_lines 269 src_gtsam_GaussianBayesNet @ rest) =
   parse_decls (add_decl class_gtsam_GaussianBayesNet (PState root stack None w)) rest"
  by (simp only: lex_lines_def src_gtsam_GaussianBayesNet_def class_gtsam_GaussianBayesNet_def eval_basics lex_eval parse_eval cong: eval_congs)

lemma parse_gtsam_GaussianFactor:
  "parse_decls (PState root stack None w) (lex_lines 277 src_gtsam_GaussianFactor @ rest) =
   parse_decls (add_decl class_gtsam_GaussianFactor (PState root stack None w)) rest"
  by (simp only: lex_lines_def src_gtsam_GaussianFactor_def class_gtsam_GaussianFactor_def eval_basics lex_eval parse_eval cong: eval_congs)

lemma parse_gtsam_JacobianFactor:
  "parse_decls (PState root stack None w) (lex_lines 283 src_gtsam_JacobianFactor @ rest) =
   parse_decls (add_decl class_gtsam_JacobianFactor (PState root stack None w)) rest"
  by (simp only: lex_lines_def src_gtsam_JacobianFactor_def class_gtsam_JacobianFactor_def eval_basics lex_eval parse_eval cong: eval_congs)

lemma parse_gtsam_HessianFactor:
  "parse_decls (PState root stack None w) (lex_lines 299 src_gtsam_HessianFactor @ rest) =
   parse_decls (add_decl class_gtsam_HessianFactor (PState root stack None w)) rest"
  by (simp only: lex_lines_def src_gtsam_HessianFactor_def class_gtsam_HessianFactor_def eval_basics lex_eval parse_eval cong: eval_congs)

lemma parse_gtsam_GaussianFactorGraph:
  "parse_decls (PState root stack None w) (lex_lines 316 src_gtsam_GaussianFactorGraph @ rest) =
   parse_decls (add_decl class_gtsam_GaussianFactorGraph (PState root stack None w)) rest"
  by (simp only: lex_lines_def src_gtsam_GaussianFactorGraph_def class_gtsam_GaussianFactorGraph_def eval_basics lex_eval parse_eval cong: eval_congs)

lemma parse_gtsam_GaussianSequentialSolver:
  "parse_decls (PState root stack None w) (lex_lines 351 src_gtsam_GaussianSequentialSolver @ rest) =
   parse_decls (add_decl class_gtsam_GaussianSequentialSolver (PState root stack None w)) rest"
  by (simp only: lex_lines_def src_gtsam_GaussianSequentialSolver_def class_gtsam_GaussianSequentialSolver_def eval_basics lex_eval parse_eval cong: eval_congs)

lemma parse_gtsam_KalmanFilter:
  "parse_decls (PState root stack None w) (lex_lines 359 src_gtsam_KalmanFilter @ rest) =
   parse_decls (add_decl class_gtsam_KalmanFilter (PState root stack None w)) rest"
  by (simp only: lex_lines_def src_gtsam_KalmanFilter_def class_gtsam_KalmanFilter_def eval_basics lex_eval parse_eval cong: eval_congs)

lemma parse_gtsam_Ordering:
  "parse_decls (PState root stack None w) (lex_lines 381 src_gtsam_Ordering @ rest) =
   parse_decls (add_decl class_gtsam_Ordering (PState root stack None w)) rest"
  by (simp only: lex_lines_def src_gtsam_Ordering_def class_gtsam_Ordering_def eval_basics lex_eval parse_eval cong: eval_congs)

lemma parse_gtsam_NonlinearOptimizationParameters:
  "parse_decls (PState root stack None w) (lex_lines 388 src_gtsam_NonlinearOptimizationParameters @ rest) =
   parse_decls (add_decl class_gtsam_NonlinearOptimizationParameters (PState root stack None w)) rest"
  by (simp only: lex_lines_def src_gtsam_NonlinearOptimizationParameters_def class_gtsam_NonlinearOptimizationParameters_def eval_basics lex_eval parse_eval cong: eval_congs)

lemma parse_gtsam_close:
  "parse_decls (PState root (Frame l ''gtsam'' inc ds # stack) None w) (lex_lines 397 src_gtsam_close @ rest) =
   parse_decls (add_decl (Namespace l ''gtsam'' inc (rev ds) (Some ''gtsam'')) (PState root stack None w)) rest"
  by (simp only: lex_lines_def src_gtsam_close_def eval_basics lex_eval parse_eval append_Nil2 cong: eval_congs)

lemma parse_planarSLAM_open:
  "parse_decls (PState root stack None w) (lex_lines 403 src_planarSLAM_open @ rest) =
   parse_decls (PState root (Frame 404 ''planarSLAM'' (Some ''gtsam/slam/planarSLAM.h'') [] # stack) None w) rest"
  by (simp only: lex_lines_def src_planarSLAM_open_def eval_basics lex_eval parse_eval cong: eval_congs)

lemma parse_planarSLAM_Values:
  "parse_decls (PState root stack None w) (lex_lines 406 src_planarSLAM_Values @ rest) =
   parse_decls (add_decl class_planarSLAM_Values (PState root stack None w)) rest"
  by (simp only: lex_lines_def src_planarSLAM_Values_def class_planarSLAM_Values_def eval_basics lex_eval parse_eval cong: eval_congs)

lemma parse_planarSLAM_Graph:
  "parse_decls (PState root stack None w) (lex_lines 415 src_planarSLAM_Graph @ rest) =
   parse_decls (add_decl class_planarSLAM_Graph (PState root stack None w)) rest"
  by (simp only: lex_lines_def src_planarSLAM_Graph_def class_planarSLAM_Graph_def eval_basics lex_eval parse_eval cong: eval_congs)

lemma parse_planarSLAM_Odometry:
  "parse_decls (PState root stack None w) (lex_lines 435 src_planarSLAM_Odometry @ rest) =
   parse_decls (add_decl class_planarSLAM_Odometry (PState root stack None w)) rest"
  by (simp only: lex_lines_def src_planarSLAM_Odometry_def class_planarSLAM_Odometry_def eval_basics lex_eval parse_eval cong: eval_congs)

lemma parse_planarSLAM_Optimizer:
  "parse_decls (PState root stack None w) (lex_lines 442 src_planarSLAM_Optimizer @ rest) =
   parse_decls (add_decl class_planarSLAM_Optimizer (PState root stack None w)) rest"
  by (simp only: lex_lines_def src_planarSLAM_Optimizer_def class_planarSLAM_Optimizer_def eval_basics lex_eval parse_eval cong: eval_congs)

lemma parse_planarSLAM_close:
  "parse_decls (PState root (Frame l ''planarSLAM'' inc ds # stack) None w) (lex_lines 448 src_planarSLAM_close @ rest) =
   parse_decls (add_decl (Namespace l ''planarSLAM'' inc (rev ds) (Some ''planarSLAM'')) (PState root stack None w)) rest"
  by (simp only: lex_lines_def src_planarSLAM_close_def eval_basics lex_eval parse_eval append_Nil2 cong: eval_congs)

lemma parse_pose2SLAM_open:
  "parse_decls (PState root stack None w) (lex_lines 454 src_pose2SLAM_open @ rest) =
   parse_decls (PState root (Frame 455 ''pose2SLAM'' (Some ''gtsam/slam/pose2SLAM.h'') [] # stack) None w) rest"
  by (simp only: lex_lines_def src_pose2SLAM_open_def eval_basics lex_eval parse_eval cong: eval_congs)

lemma parse_pose2SLAM_Values:
  "parse_decls (PState root stack None w) (lex_lines 457 src_pose2SLAM_Values @ rest) =
   parse_decls (add_decl class_pose2SLAM_Values (PState root stack None w)) rest"
  by (simp only: lex_lines_def src_pose2SLAM_Values_def class_pose2SLAM_Values_def eval_basics lex_eval parse_eval cong: eval_congs)

lemma parse_pose2SLAM_Graph:
  "parse_decls (PState root stack None w) (lex_lines 464 src_pose2SLAM_Graph @ rest) =
   parse_decls (add_decl class_pose2SLAM_Graph (PState root stack None w)) rest"
  by (simp only: lex_lines_def src_pose2SLAM_Graph_def class_pose2SLAM_Graph_def eval_basics lex_eval parse_eval cong: eval_congs)

lemma parse_pose2SLAM_Optimizer:
  "parse_decls (PState root stack None w) (lex_lines 480 src_pose2SLAM_Optimizer @ rest) =
   parse_decls (add_decl class_pose2SLAM_Optimizer (PState root stack None w)) rest"
  by (simp only: lex_lines_def src_pose2SLAM_Optimizer_def class_pose2SLAM_Optimizer_def eval_basics lex_eval parse_eval cong: eval_congs)

lemma parse_pose2SLAM_close:
  "parse_decls (PState root (Frame l ''pose2SLAM'' inc ds # stack) None w) (lex_lines 486 src_pose2SLAM_close @ rest) =
   parse_decls (add_decl (Namespace l ''pose2SLAM'' inc (rev ds) (Some ''pose2SLAM'')) (PState root stack None w)) rest"
  by (simp only: lex_lines_def src_pose2SLAM_close_def eval_basics lex_eval parse_eval append_Nil2 cong: eval_congs)

lemma parse_simulated2D_open:
  "parse_decls (PState root stack None w) (lex_lines 492 src_simulated2D_open @ rest) =
   parse_decls (PState root (Frame 493 ''simulated2D'' (Some ''gtsam/slam/simulated2D.h'') [] # stack) None w) rest"
  by (simp only: lex_lines_def src_simulated2D_open_def eval_basics lex_eval parse_eval cong: eval_congs)

lemma parse_simulated2D_Values:
  "parse_decls (PState root stack None w) (lex_lines 495 src_simulated2D_Values @ rest) =
   parse_decls (add_decl class_simulated2D_Values (PState root stack None w)) rest"
  by (simp only: lex_lines_def src_simulated2D_Values_def class_simulated2D_Values_def eval_basics lex_eval parse_eval cong: eval_congs)

lemma parse_simulated2D_Graph:
  "parse_decls (PState root stack None w) (lex_lines 505 src_simulated2D_Graph @ rest) =
   parse_decls (add_decl class_simulated2D_Graph (PState root stack None w)) rest"
  by (simp only: lex_lines_def src_simulated2D_Graph_def class_simulated2D_Graph_def eval_basics lex_eval parse_eval cong: eval_congs)

lemma parse_simulated2D_close:
  "parse_decls (PState root (Frame l ''simulated2D'' inc ds # stack) None w) (lex_lines 511 src_simulated2D_close @ rest) =
   parse_decls (add_decl (Namespace l ''simulated2D'' inc (rev ds) (Some ''simulated2D'')) (PState root stack None w)) rest"
  by (simp only: lex_lines_def src_simulated2D_close_def eval_basics lex_eval parse_eval append_Nil2 cong: eval_congs)

lemma parse_simulated2DOriented_open:
  "parse_decls (PState root stack None w) (lex_lines 513 src_simulated2DOriented_open @ rest) =
   parse_decls (PState root (Frame 515 ''simulated2DOriented'' (Some ''gtsam/slam/simulated2DOriented.h'') [] # stack) None w) rest"
  by (simp only: lex_lines_def src_simulated2DOriented_open_def eval_basics lex_eval parse_eval cong: eval_congs)

lemma parse_simulated2DOriented_Values:
  "parse_decls (PState root stack None w) (lex_lines 517 src_simulated2DOriented_Values @ rest) =
   parse_decls (add_decl class_simulated2DOriented_Values (PState root stack None w)) rest"
  by (simp only: lex_lines_def src_simulated2DOriented_Values_def class_simulated2DOriented_Values_def eval_basics lex_eval parse_eval cong: eval_congs)

lemma parse_simulated2DOriented_Graph:
  "parse_decls (PState root stack None w) (lex_lines 527 src_simulated2DOriented_Graph @ rest) =
   parse_decls (add_decl class_simulated2DOriented_Graph (PState root stack None w)) rest"
  by (simp only: lex_lines_def src_simulated2DOriented_Graph_def class_simulated2DOriented_Graph_def eval_basics lex_eval parse_eval cong: eval_congs)

lemma parse_simulated2DOriented_close:
  "parse_decls (PState root (Frame l ''simulated2DOriented'' inc ds # stack) None w) (lex_lines 533 src_simulated2DOriented_close @ rest) =
   parse_decls (add_decl (Namespace l ''simulated2DOriented'' inc (rev ds) (Some ''simulated2DOriented'')) (PState root stack None w)) rest"
  by (simp only: lex_lines_def src_simulated2DOriented_close_def eval_basics lex_eval parse_eval append_Nil2 cong: eval_congs)

lemma tokens_legacy: "lex_lines 536 src_legacy = []"
  by (simp only: lex_lines_def src_legacy_def eval_basics lex_eval cong: eval_congs)

lemmas segment_steps =
  parse_gtsam_open
  parse_gtsam_Point2
  parse_gtsam_Point3
  parse_gtsam_Rot2
  parse_gtsam_Rot3
  parse_gtsam_Pose2
  parse_gtsam_Pose3
  parse_gtsam_SharedGaussian
  parse_gtsam_SharedDiagonal
  parse_gtsam_SharedNoiseModel
  parse_gtsam_VectorValues
  parse_gtsam_GaussianConditional
  parse_gtsam_GaussianDensity
  parse_gtsam_GaussianBayesNet
  parse_gtsam_GaussianFactor
  parse_gtsam_JacobianFactor
  parse_gtsam_HessianFactor
  parse_gtsam_GaussianFactorGraph
  parse_gtsam_GaussianSequentialSolver
  parse_gtsam_KalmanFilter
  parse_gtsam_Ordering
  parse_gtsam_NonlinearOptimizationParameters
  parse_gtsam_close
  parse_planarSLAM_open
  parse_planarSLAM_Values
  parse_planarSLAM_Graph
  parse_planarSLAM_Odometry
  parse_planarSLAM_Optimizer
  parse_planarSLAM_close
  parse_pose2SLAM_open
  parse_pose2SLAM_Values
  parse_pose2SLAM_Graph
  parse_pose2SLAM_Optimizer
  parse_pose2SLAM_close
  parse_simulated2D_open
  parse_simulated2D_Values
  parse_simulated2D_Graph
  parse_simulated2D_close
  parse_simulated2DOriented_open
  parse_simulated2DOriented_Values
  parse_simulated2DOriented_Graph
  parse_simulated2DOriented_close

subsection \<open>The whole file\<close>

text \<open>The tokens of lines 60 to 535, where the declarations are.\<close>

definition gtsam_h_tokens :: "located_token list" where
  "gtsam_h_tokens =
    lex_lines 60 src_gtsam_open @
    lex_lines 70 src_gtsam_Point2 @
    lex_lines 84 src_gtsam_Point3 @
    lex_lines 102 src_gtsam_Rot2 @
    lex_lines 124 src_gtsam_Rot3 @
    lex_lines 163 src_gtsam_Pose2 @
    lex_lines 187 src_gtsam_Pose3 @
    lex_lines 220 src_gtsam_SharedGaussian @
    lex_lines 225 src_gtsam_SharedDiagonal @
    lex_lines 231 src_gtsam_SharedNoiseModel @
    lex_lines 242 src_gtsam_VectorValues @
    lex_lines 251 src_gtsam_GaussianConditional @
    lex_lines 261 src_gtsam_GaussianDensity @
    lex_lines 269 src_gtsam_GaussianBayesNet @
    lex_lines 277 src_gtsam_GaussianFactor @
    lex_lines 283 src_gtsam_JacobianFactor @
    lex_lines 299 src_gtsam_HessianFactor @
    lex_lines 316 src_gtsam_GaussianFactorGraph @
    lex_lines 351 src_gtsam_GaussianSequentialSolver @
    lex_lines 359 src_gtsam_KalmanFilter @
    lex_lines 381 src_gtsam_Ordering @
    lex_lines 388 src_gtsam_NonlinearOptimizationParameters @
    lex_lines 397 src_gtsam_close @
    lex_lines 403 src_planarSLAM_open @
    lex_lines 406 src_planarSLAM_Values @
    lex_lines 415 src_planarSLAM_Graph @
    lex_lines 435 src_planarSLAM_Odometry @
    lex_lines 442 src_planarSLAM_Optimizer @
    lex_lines 448 src_planarSLAM_close @
    lex_lines 454 src_pose2SLAM_open @
    lex_lines 457 src_pose2SLAM_Values @
    lex_lines 464 src_pose2SLAM_Graph @
    lex_lines 480 src_pose2SLAM_Optimizer @
    lex_lines 486 src_pose2SLAM_close @
    lex_lines 492 src_simulated2D_open @
    lex_lines 495 src_simulated2D_Values @
    lex_lines 505 src_simulated2D_Graph @
    lex_lines 511 src_simulated2D_close @
    lex_lines 513 src_simulated2DOriented_open @
    lex_lines 517 src_simulated2DOriented_Values @
    lex_lines 527 src_simulated2DOriented_Graph @
    lex_lines 533 src_simulated2DOriented_close"

lemma gtsam_h_single_lines: "list_all single_line gtsam_h_lines"
  by (simp only: gtsam_h_lines_def list_all_append segment_lines simp_thms)

lemma gtsam_h_mode: "fst (strip_lines Code gtsam_h_lines) = Code"
  by (simp only: gtsam_h_lines_def mode_append segment_modes simp_thms)

lemma gtsam_h_nonempty: "gtsam_h_lines \<noteq> []"
  by (simp add: gtsam_h_lines_def src_header_def)

lemma gtsam_h_lex_lines: "lex_lines 1 gtsam_h_lines = gtsam_h_tokens"
  by (simp only: gtsam_h_lines_def gtsam_h_tokens_def lex_lines_append segment_modes
        segment_lengths tokens_header tokens_status tokens_legacy append_Nil append_Nil2
        one_plus_numeral numeral_plus_numeral add_num_simps simp_thms)

lemma gtsam_h_lexer: "lexer gtsam_h = Inr gtsam_h_tokens"
  unfolding gtsam_h_def
  using lexer_lines [OF gtsam_h_nonempty gtsam_h_single_lines gtsam_h_mode]
  by (simp only: gtsam_h_lex_lines)

lemma gtsam_h_parser: "parser gtsam_h_tokens = Inr (gtsam_doc, [])"
  by (simp only: parser_def gtsam_h_tokens_def gtsam_doc_def parse_simulated2DOriented_close [where rest = "[]", unfolded append_Nil2]
        segment_steps add_decl_def parse_decls.simps finish_def pstate.sel list.case frame.case
        option.case rev.simps append.simps
        cong: eval_congs)

lemma gtsam_h_parses: "parse_document gtsam_h = Inr (gtsam_doc, [])"
  by (simp add: parse_document_def gtsam_h_lexer gtsam_h_parser)


section \<open>Facts about the declarations of gtsam.h\<close>

lemmas class_defs =
  class_gtsam_Point2_def class_gtsam_Point3_def class_gtsam_Rot2_def class_gtsam_Rot3_def
  class_gtsam_Pose2_def class_gtsam_Pose3_def class_gtsam_SharedGaussian_def
  class_gtsam_SharedDiagonal_def class_gtsam_SharedNoiseModel_def class_gtsam_VectorValues_def
  class_gtsam_GaussianConditional_def class_gtsam_GaussianDensity_def
  class_gtsam_GaussianBayesNet_def class_gtsam_GaussianFactor_def class_gtsam_JacobianFactor_def
  class_gtsam_HessianFactor_def class_gtsam_GaussianFactorGraph_def
  class_gtsam_GaussianSequentialSolver_def class_gtsam_KalmanFilter_def class_gtsam_Ordering_def
  class_gtsam_NonlinearOptimizationParameters_def class_planarSLAM_Values_def
  class_planarSLAM_Graph_def class_planarSLAM_Odometry_def class_planarSLAM_Optimizer_def
  class_pose2SLAM_Values_def class_pose2SLAM_Graph_def class_pose2SLAM_Optimizer_def
  class_simulated2D_Values_def class_simulated2D_Graph_def class_simulated2DOriented_Values_def
  class_simulated2DOriented_Graph_def

lemmas tree_eval = gtsam_doc_def class_defs classes_of.simps all_classes_def namespaces_of.simps
  all_namespaces_def members_of.simps is_method.simps class_methods_def class_param_types_def
  class_return_types_def param_types_def return_type.simps member.sel
  type_expr.sel param.sel decl.sel list.map concat.simps append.simps o_apply fst_conv snd_conv
  filter.simps list.pred_inject if_True if_False simp_thms option.case

lemmas count_eval = sum_list.Nil sum_list.Cons list.size add_0 add_0_right

lemmas nat_eval = add_0 add_0_right one_add_one numeral_plus_one one_plus_numeral
  numeral_plus_numeral add_num_simps numeral_eq_iff num.inject num.distinct
  numeral_eq_one_iff one_eq_numeral_iff zero_neq_one one_neq_zero zero_neq_numeral
  numeral_neq_zero refl

lemmas string_eval = list.inject list.distinct char.inject simp_thms

lemmas type_eval = type_ref_of_def primitive_of_def matrix_like_of_def is_class_reference_def
  qualified_name_def type_expr.sel list.case option.case type_ref.case string_eval
  if_True if_False

lemmas validator_eval = validator_def decl_violations.simps member_violations.simps
  starts_lower_def starts_upper_def starts_letter_def char_kind_eval char_kind.distinct
  unique_methods_def unique_classes_def method_entry.simps class_entry.simps repeated.simps
  count_list.simps is_naming.simps is_uniqueness.simps list.case

lemmas resolver_eval = resolver_def unresolved_def references_def signature_types_def
  decl_refs.simps member_refs.simps param_refs_def number_from.simps resolves_def
  resolves_in_def class_registry_def register.simps forward_set_def forwards.simps
  list.set insert_iff empty_iff

lemmas emitter_eval = emitter_def emit_decl.simps include_path_def derived_include_def
  join_path.simps binding_unit.sel

lemmas eval_cong = if_weak_cong list.case_cong_weak option.case_cong_weak

text \<open>The registry of gtsam.h: its 32 classes, and no forward declaration.\<close>

lemma gtsam_doc_registry:
  "map fst (class_registry gtsam_doc) =
     [[''gtsam'', ''Point2''], [''gtsam'', ''Point3''], [''gtsam'', ''Rot2''],
      [''gtsam'', ''Rot3''], [''gtsam'', ''Pose2''], [''gtsam'', ''Pose3''],
      [''gtsam'', ''SharedGaussian''], [''gtsam'', ''SharedDiagonal''],
      [''gtsam'', ''SharedNoiseModel''], [''gtsam'', ''VectorValues''],
      [''gtsam'', ''GaussianConditional''], [''gtsam'', ''GaussianDensity''],
      [''gtsam'', ''GaussianBayesNet''], [''gtsam'', ''GaussianFactor''],
      [''gtsam'', ''JacobianFactor''], [''gtsam'', ''HessianFactor''],
      [''gtsam'', ''GaussianFactorGraph''], [''gtsam'', ''GaussianSequentialSolver''],
      [''gtsam'', ''KalmanFilter''], [''gtsam'', ''Ordering''],
      [''gtsam'', ''NonlinearOptimizationParameters''],
      [''planarSLAM'', ''Values''], [''planarSLAM'', ''Graph''],
      [''planarSLAM'', ''Odometry''], [''planarSLAM'', ''Optimizer''],
      [''pose2SLAM'', ''Values''], [''pose2SLAM'', ''Graph''], [''pose2SLAM'', ''Optimizer''],
      [''simulated2D'', ''Values''], [''simulated2D'', ''Graph''],
      [''simulated2DOriented'', ''Values''], [''simulated2DOriented'', ''Graph'']]"
  by (simp only: tree_eval resolver_eval cong: eval_cong)

lemma gtsam_doc_forwards: "forward_set gtsam_doc = []"
  by (simp only: tree_eval resolver_eval cong: eval_cong)

lemma gtsam_doc_unresolved: "unresolved gtsam_doc = []"
  unfolding unresolved_def references_def signature_types_classes filter_filter
    filter_concat_map_empty resolves_def gtsam_doc_registry gtsam_doc_forwards
  by (simp only: tree_eval class_refs_def decl_refs.simps member_refs.simps param_refs_def
        number_from.simps resolves_in_def list.set insert_iff empty_iff type_eval nat_eval
        cong: eval_cong)

lemma gtsam_doc_references: "length (references gtsam_doc) = 210"
  unfolding references_def signature_types_classes length_filter_concat_map
  by (simp only: tree_eval class_refs_def decl_refs.simps member_refs.simps param_refs_def
        number_from.simps type_eval nat_eval count_eval cong: eval_cong)

lemma gtsam_doc_resolver: "resolver gtsam_doc = []"
  by (simp add: resolver_def gtsam_doc_unresolved)

text \<open>What the validator reports for gtsam.h.\<close>

lemma gtsam_doc_validator:
  "validator gtsam_doc =
     [UniquenessViolation UniqueMethod [''gtsam'', ''Rot3''] ''ypr'' 155,
      UniquenessViolation UniqueMethod [''gtsam'', ''Rot3''] ''roll'' 157,
      UniquenessViolation UniqueMethod [''gtsam'', ''Rot3''] ''pitch'' 158,
      UniquenessViolation UniqueMethod [''gtsam'', ''Rot3''] ''yaw'' 159,
      UniquenessViolation UniqueMethod [''gtsam'', ''GaussianFactorGraph''] ''add'' 328,
      UniquenessViolation UniqueMethod [''gtsam'', ''KalmanFilter''] ''init'' 362]"
  by (simp only: tree_eval validator_eval nat_eval string_eval cong: eval_cong)


section \<open>Method names within a class\<close>

text \<open>
  C1: For every class declared in the document, no two methods share a name, and the
  Validator reports one UniquenessViolation for each duplicate name and the document is
  not emitted. The header of gtsam.h says that there can only be one method with a given
  name, but the text of gtsam.h itself declares six methods named \<open>add\<close> in
  GaussianFactorGraph (lines 327 to 334), two named \<open>init\<close> in KalmanFilter (lines 361
  and 362), and in Rot3 the names \<open>yaw\<close>, \<open>pitch\<close>, \<open>roll\<close> and \<open>ypr\<close> once for a static
  and once for an instance method. The validator reports each of the six names once,
  where it is declared for the second time, and the pipeline emits nothing.
\<close>

theorem gtsam_h_overloaded_methods:
  "parse_document gtsam_h = Inr (gtsam_doc, []) \<and>
   validator gtsam_doc =
     [UniquenessViolation UniqueMethod [''gtsam'', ''Rot3''] ''ypr'' 155,
      UniquenessViolation UniqueMethod [''gtsam'', ''Rot3''] ''roll'' 157,
      UniquenessViolation UniqueMethod [''gtsam'', ''Rot3''] ''pitch'' 158,
      UniquenessViolation UniqueMethod [''gtsam'', ''Rot3''] ''yaw'' 159,
      UniquenessViolation UniqueMethod [''gtsam'', ''GaussianFactorGraph''] ''add'' 328,
      UniquenessViolation UniqueMethod [''gtsam'', ''KalmanFilter''] ''init'' 362] \<and>
   generate gtsam_h = Inl (map Violation (validator gtsam_doc))"
proof -
  have "generate gtsam_h = Inl (map Violation (validator gtsam_doc))"
    by (simp add: generate_def gtsam_h_parses diagnostics_def gtsam_doc_resolver
          gtsam_doc_validator)
  then show ?thesis
    using gtsam_h_parses gtsam_doc_validator by simp
qed

section \<open>The naming rules\<close>

text \<open>
  C4: Every declaration in gtsam.h satisfies the naming invariants, so the Validator
  reports no NamingViolation for it: each namespace name begins with a lowercase letter,
  each class name with an uppercase letter, each instance method name with a lowercase
  letter, and each method whose name begins with an uppercase letter (Expmap, Logmap, Rx,
  Ry, Rz, RzRyRx) carries the static qualifier. The tree has 5 namespaces, 32 classes and
  216 methods.
\<close>

theorem gtsam_h_naming_rules:
  "parse_document gtsam_h = Inr (gtsam_doc, []) \<and>
   filter is_naming (validator gtsam_doc) = [] \<and>
   map d_name (all_namespaces gtsam_doc) =
     [''gtsam'', ''planarSLAM'', ''pose2SLAM'', ''simulated2D'', ''simulated2DOriented''] \<and>
   list_all starts_lower (map d_name (all_namespaces gtsam_doc)) \<and>
   list_all starts_upper (map (d_name \<circ> snd) (all_classes gtsam_doc)) \<and>
   length (all_classes gtsam_doc) = 32 \<and>
   list_all (starts_lower \<circ> m_name) (filter (Not \<circ> m_static) (all_methods gtsam_doc)) \<and>
   length (all_methods gtsam_doc) = 216 \<and>
   list_all m_static (filter (starts_upper \<circ> m_name) (all_methods gtsam_doc)) \<and>
   remdups (map m_name (filter (starts_upper \<circ> m_name) (all_methods gtsam_doc))) =
     [''Rx'', ''Ry'', ''Rz'', ''RzRyRx'', ''Expmap'', ''Logmap'']"
proof -
  have "filter is_naming (validator gtsam_doc) = []"
    by (simp add: gtsam_doc_validator)
  moreover have "map d_name (all_namespaces gtsam_doc) =
     [''gtsam'', ''planarSLAM'', ''pose2SLAM'', ''simulated2D'', ''simulated2DOriented'']"
    by (simp only: tree_eval cong: eval_cong)
  moreover have "list_all starts_lower (map d_name (all_namespaces gtsam_doc))"
    by (simp only: tree_eval validator_eval cong: eval_cong)
  moreover have "list_all starts_upper (map (d_name \<circ> snd) (all_classes gtsam_doc))"
    by (simp only: tree_eval validator_eval cong: eval_cong)
  moreover have "length (all_classes gtsam_doc) = 32"
    by (simp only: tree_eval cong: eval_cong) simp
  moreover have
    "list_all (starts_lower \<circ> m_name) (filter (Not \<circ> m_static) (all_methods gtsam_doc))"
    unfolding all_methods_def list_all_filter_concat_map
    by (simp only: tree_eval validator_eval cong: eval_cong)
  moreover have "length (all_methods gtsam_doc) = 216"
    unfolding all_methods_def length_concat_map
    by (simp only: tree_eval count_eval cong: eval_cong)
  moreover have
    "list_all m_static (filter (starts_upper \<circ> m_name) (all_methods gtsam_doc))"
    unfolding all_methods_def list_all_filter_concat_map
    by (simp only: tree_eval validator_eval cong: eval_cong)
  moreover have
    "remdups (map m_name (filter (starts_upper \<circ> m_name) (all_methods gtsam_doc))) =
       [''Rx'', ''Ry'', ''Rz'', ''RzRyRx'', ''Expmap'', ''Logmap'']"
    unfolding all_methods_def filter_concat map_concat
    by (simp only: tree_eval validator_eval remdups.simps list.set insert_iff empty_iff
          string_eval cong: eval_cong)
  ultimately show ?thesis
    using gtsam_h_parses by simp
qed

section \<open>Reference parameters\<close>

text \<open>
  C9: Every reference-typed parameter in every constructor and method signature of
  gtsam.h is const-qualified; no non-const reference parameter occurs anywhere in the
  document. The tree is the one that the text of gtsam.h parses to; 106 of its 376
  parameters are references, each of them const, and no return type is a reference.
\<close>

theorem gtsam_h_reference_parameters_const:
  "parse_document gtsam_h = Inr (gtsam_doc, []) \<and>
   list_all te_const (filter te_reference (all_param_types gtsam_doc)) \<and>
   length (filter te_reference (all_param_types gtsam_doc)) = 106 \<and>
   length (all_param_types gtsam_doc) = 376 \<and>
   filter te_reference (all_return_types gtsam_doc) = []"
proof -
  have "list_all te_const (filter te_reference (all_param_types gtsam_doc))"
    unfolding all_param_types_def list_all_filter_concat_map
    by (simp only: tree_eval cong: eval_cong)
  moreover have "length (filter te_reference (all_param_types gtsam_doc)) = 106"
    unfolding all_param_types_def length_filter_concat_map
    by (simp only: tree_eval count_eval cong: eval_cong)
  moreover have "length (all_param_types gtsam_doc) = 376"
    unfolding all_param_types_def length_concat_map
    by (simp only: tree_eval count_eval cong: eval_cong)
  moreover have "filter te_reference (all_return_types gtsam_doc) = []"
    unfolding all_return_types_def filter_concat_map_empty
    by (simp only: tree_eval cong: eval_cong)
  ultimately show ?thesis
    using gtsam_h_parses by simp
qed

section \<open>Pointer-marked types\<close>

definition qualified_class :: "type_expr \<Rightarrow> bool" where
  "qualified_class t = (is_class_reference t \<and> te_path t \<noteq> [])"

definition value_type :: "type_expr \<Rightarrow> bool" where
  "value_type t =
     (case type_ref_of t of
        Primitive p \<Rightarrow> True
      | MatrixLike m \<Rightarrow> True
      | ClassReference path n sh cr \<Rightarrow> False)"

text \<open>
  C10: Every pointer-marked type in gtsam.h is a namespace-qualified class reference;
  Matrix, Vector and the primitive types never carry a pointer marker; and class pointers
  occur both as return types (17 of them) and as parameter types (19 of them).
\<close>

theorem gtsam_h_pointer_types:
  "parse_document gtsam_h = Inr (gtsam_doc, []) \<and>
   list_all qualified_class
     (filter te_pointer (all_return_types gtsam_doc @ all_param_types gtsam_doc)) \<and>
   filter te_pointer
     (filter value_type (all_return_types gtsam_doc @ all_param_types gtsam_doc)) = [] \<and>
   length (filter value_type (all_return_types gtsam_doc @ all_param_types gtsam_doc)) = 327 \<and>
   length (filter te_pointer (all_return_types gtsam_doc)) = 17 \<and>
   length (filter te_pointer (all_param_types gtsam_doc)) = 19"
proof -
  have "list_all qualified_class (filter te_pointer (all_return_types gtsam_doc))"
    unfolding all_return_types_def list_all_filter_concat_map
    by (simp only: tree_eval qualified_class_def type_eval cong: eval_cong)
  moreover have "list_all qualified_class (filter te_pointer (all_param_types gtsam_doc))"
    unfolding all_param_types_def list_all_filter_concat_map
    by (simp only: tree_eval qualified_class_def type_eval cong: eval_cong)
  moreover have "filter te_pointer (filter value_type (all_return_types gtsam_doc)) = []"
    unfolding all_return_types_def filter_filter filter_concat_map_empty
    by (simp only: tree_eval value_type_def type_eval cong: eval_cong)
  moreover have "filter te_pointer (filter value_type (all_param_types gtsam_doc)) = []"
    unfolding all_param_types_def filter_filter filter_concat_map_empty
    by (simp only: tree_eval value_type_def type_eval cong: eval_cong)
  moreover have "length (filter value_type (all_return_types gtsam_doc)) +
      length (filter value_type (all_param_types gtsam_doc)) = 327"
    unfolding all_return_types_def all_param_types_def length_filter_concat_map
    by (simp only: tree_eval value_type_def type_eval count_eval cong: eval_cong)
  moreover have "length (filter te_pointer (all_return_types gtsam_doc)) = 17"
    unfolding all_return_types_def length_filter_concat_map
    by (simp only: tree_eval count_eval cong: eval_cong)
  moreover have "length (filter te_pointer (all_param_types gtsam_doc)) = 19"
    unfolding all_param_types_def length_filter_concat_map
    by (simp only: tree_eval count_eval cong: eval_cong)
  ultimately show ?thesis
    using gtsam_h_parses by simp
qed

end
